theory Spec2Isabelle
  imports Main "HOL-Library.Word"
begin

unbundle bit_operations_syntax

section \<open>The line-config object of libgpiod (lib/line-config.c)\<close>

text \<open>
  Conventions of the embedding.
  \<^item> A C \<open>int\<close> option value is an \<open>int\<close>; an \<open>unsigned int\<close> line offset is a
    \<open>32 word\<close>; \<open>uint64_t\<close> is a \<open>64 word\<close>, and so is \<open>unsigned long\<close> (an LP64
    target); array element counts and loop indices are \<open>nat\<close> (none of them can wrap
    in the code below).
  \<^item> A fixed C array is a list of that length (64 or 10 entries); a pointer argument
    together with its element count is one list whose length is the count.
  \<^item> A function that returns \<open>-1\<close> with \<open>errno\<close> set returns \<open>Inl\<close> of the errno;
    a return of \<open>0\<close> is \<open>Inr\<close>.
  \<^item> A pointer into \<open>config->secondary\<close> is the index of the entry; \<open>NULL\<close> is
    \<open>None\<close>.
\<close>

subsection \<open>Constants\<close>

datatype errno = EINVAL | E2BIG

text \<open>The option enums of include/gpiod.h (each enum starts at 1).\<close>

definition GPIOD_LINE_CONFIG_DIRECTION_AS_IS :: int where
  "GPIOD_LINE_CONFIG_DIRECTION_AS_IS = 1"
definition GPIOD_LINE_CONFIG_DIRECTION_INPUT :: int where
  "GPIOD_LINE_CONFIG_DIRECTION_INPUT = 2"
definition GPIOD_LINE_CONFIG_DIRECTION_OUTPUT :: int where
  "GPIOD_LINE_CONFIG_DIRECTION_OUTPUT = 3"

definition GPIOD_LINE_CONFIG_EDGE_NONE :: int where
  "GPIOD_LINE_CONFIG_EDGE_NONE = 1"
definition GPIOD_LINE_CONFIG_EDGE_FALLING :: int where
  "GPIOD_LINE_CONFIG_EDGE_FALLING = 2"
definition GPIOD_LINE_CONFIG_EDGE_RISING :: int where
  "GPIOD_LINE_CONFIG_EDGE_RISING = 3"
definition GPIOD_LINE_CONFIG_EDGE_BOTH :: int where
  "GPIOD_LINE_CONFIG_EDGE_BOTH = 4"

definition GPIOD_LINE_CONFIG_BIAS_AS_IS :: int where
  "GPIOD_LINE_CONFIG_BIAS_AS_IS = 1"
definition GPIOD_LINE_CONFIG_BIAS_DISABLED :: int where
  "GPIOD_LINE_CONFIG_BIAS_DISABLED = 2"
definition GPIOD_LINE_CONFIG_BIAS_PULL_UP :: int where
  "GPIOD_LINE_CONFIG_BIAS_PULL_UP = 3"
definition GPIOD_LINE_CONFIG_BIAS_PULL_DOWN :: int where
  "GPIOD_LINE_CONFIG_BIAS_PULL_DOWN = 4"

definition GPIOD_LINE_CONFIG_DRIVE_PUSH_PULL :: int where
  "GPIOD_LINE_CONFIG_DRIVE_PUSH_PULL = 1"
definition GPIOD_LINE_CONFIG_DRIVE_OPEN_DRAIN :: int where
  "GPIOD_LINE_CONFIG_DRIVE_OPEN_DRAIN = 2"
definition GPIOD_LINE_CONFIG_DRIVE_OPEN_SOURCE :: int where
  "GPIOD_LINE_CONFIG_DRIVE_OPEN_SOURCE = 3"

definition GPIOD_LINE_CONFIG_EVENT_CLOCK_MONOTONIC :: int where
  "GPIOD_LINE_CONFIG_EVENT_CLOCK_MONOTONIC = 1"
definition GPIOD_LINE_CONFIG_EVENT_CLOCK_REALTIME :: int where
  "GPIOD_LINE_CONFIG_EVENT_CLOCK_REALTIME = 2"

text \<open>
  Modelled from the spec: the kernel header of the GPIO character device (v2 uAPI) is
  not among the sources. The limits are those of the specification (at most 64 lines
  per request, \<open>attrs[10]\<close>); the flag bits and the attribute ids are the values of
  that fixed external protocol.
\<close>

definition GPIO_V2_LINES_MAX :: nat where
  "GPIO_V2_LINES_MAX = 64"
definition GPIO_V2_LINE_NUM_ATTRS_MAX :: nat where
  "GPIO_V2_LINE_NUM_ATTRS_MAX = 10"

definition GPIO_V2_LINE_FLAG_ACTIVE_LOW :: "64 word" where
  "GPIO_V2_LINE_FLAG_ACTIVE_LOW = push_bit 1 1"
definition GPIO_V2_LINE_FLAG_INPUT :: "64 word" where
  "GPIO_V2_LINE_FLAG_INPUT = push_bit 2 1"
definition GPIO_V2_LINE_FLAG_OUTPUT :: "64 word" where
  "GPIO_V2_LINE_FLAG_OUTPUT = push_bit 3 1"
definition GPIO_V2_LINE_FLAG_EDGE_RISING :: "64 word" where
  "GPIO_V2_LINE_FLAG_EDGE_RISING = push_bit 4 1"
definition GPIO_V2_LINE_FLAG_EDGE_FALLING :: "64 word" where
  "GPIO_V2_LINE_FLAG_EDGE_FALLING = push_bit 5 1"
definition GPIO_V2_LINE_FLAG_OPEN_DRAIN :: "64 word" where
  "GPIO_V2_LINE_FLAG_OPEN_DRAIN = push_bit 6 1"
definition GPIO_V2_LINE_FLAG_OPEN_SOURCE :: "64 word" where
  "GPIO_V2_LINE_FLAG_OPEN_SOURCE = push_bit 7 1"
definition GPIO_V2_LINE_FLAG_BIAS_PULL_UP :: "64 word" where
  "GPIO_V2_LINE_FLAG_BIAS_PULL_UP = push_bit 8 1"
definition GPIO_V2_LINE_FLAG_BIAS_PULL_DOWN :: "64 word" where
  "GPIO_V2_LINE_FLAG_BIAS_PULL_DOWN = push_bit 9 1"
definition GPIO_V2_LINE_FLAG_BIAS_DISABLED :: "64 word" where
  "GPIO_V2_LINE_FLAG_BIAS_DISABLED = push_bit 10 1"
definition GPIO_V2_LINE_FLAG_EVENT_CLOCK_REALTIME :: "64 word" where
  "GPIO_V2_LINE_FLAG_EVENT_CLOCK_REALTIME = push_bit 11 1"

definition GPIO_V2_LINE_ATTR_ID_FLAGS :: "32 word" where
  "GPIO_V2_LINE_ATTR_ID_FLAGS = 1"
definition GPIO_V2_LINE_ATTR_ID_OUTPUT_VALUES :: "32 word" where
  "GPIO_V2_LINE_ATTR_ID_OUTPUT_VALUES = 2"
definition GPIO_V2_LINE_ATTR_ID_DEBOUNCE :: "32 word" where
  "GPIO_V2_LINE_ATTR_ID_DEBOUNCE = 3"

subsection \<open>Data model\<close>

record base_config =
  direction :: int
  edge :: int
  drive :: int
  bias :: int
  active_low :: bool
  clock :: int
  debounce_period :: "64 word"

record secondary_config =
  config :: base_config
  offsets :: "32 word list"
  num_offsets :: nat

record output_value =
  offset :: "32 word"
  val :: int

record gpiod_line_config =
  too_complex :: bool
  primary :: base_config
  secondary :: "secondary_config list"
  num_secondary :: nat
  output_values :: "output_value list"
  num_output_values :: nat
  sorted_offsets :: "32 word list"
  num_sorted_offsets :: nat

text \<open>
  Modelled from the spec: the kernel's line-config structure, whose declaration is not
  among the sources. As in section 6 of the specification it holds \<open>flags\<close>, the
  attribute count and \<open>attrs[10]\<close>, each attribute being an id, a value and a mask, with
  the layout of the v2 uAPI. The value is the union of the members \<open>flags\<close> and
  \<open>values\<close>, of 64 bits, and \<open>debounce_period_us\<close>, of 32 bits: \<open>attr_value\<close> is
  the 64-bit image of the union, \<open>flags\<close> and \<open>values\<close> are all of it, and
  \<open>debounce_period_us\<close> is its low-order half (a little-endian target). A store to
  that member leaves the other half of the union as it was.
\<close>

record gpio_v2_line_config_attribute =
  attr_id :: "32 word"
  attr_value :: "64 word"
  mask :: "64 word"


definition store_debounce_period_us ::
  "gpio_v2_line_config_attribute \<Rightarrow> 32 word \<Rightarrow> gpio_v2_line_config_attribute" where
  "store_debounce_period_us a p =
     a\<lparr>attr_value := push_bit 32 (drop_bit 32 (attr_value a)) OR ucast p\<rparr>"

record gpio_v2_line_config =
  flags :: "64 word"
  num_attrs :: nat
  attrs :: "gpio_v2_line_config_attribute list"

subsection \<open>Construction\<close>

definition zero_base_config :: base_config where
  "zero_base_config =
     \<lparr>direction = 0, edge = 0, drive = 0, bias = 0, active_low = False, clock = 0,
      debounce_period = 0\<rparr>"

definition zero_secondary_config :: secondary_config where
  "zero_secondary_config =
     \<lparr>config = zero_base_config, offsets = replicate GPIO_V2_LINES_MAX 0, num_offsets = 0\<rparr>"

text \<open>
  \<open>gpiod_line_config_new\<close>: the object is allocated and cleared with \<open>memset\<close>; when
  \<open>malloc\<close> fails (\<open>malloc_ok\<close> is false) the result is \<open>NULL\<close>.
\<close>

definition gpiod_line_config_new :: "bool \<Rightarrow> gpiod_line_config option" where
  "gpiod_line_config_new malloc_ok =
     (if \<not> malloc_ok then None
      else Some
        \<lparr>too_complex = False, primary = zero_base_config,
         secondary = replicate GPIO_V2_LINE_NUM_ATTRS_MAX zero_secondary_config,
         num_secondary = 0,
         output_values = replicate GPIO_V2_LINES_MAX \<lparr>offset = 0, val = 0\<rparr>,
         num_output_values = 0,
         sorted_offsets = replicate GPIO_V2_LINES_MAX 0,
         num_sorted_offsets = 0\<rparr>)"

subsection \<open>Translation of a base config to kernel flags\<close>

text \<open>
  \<open>gpiod_make_kernel_flags\<close> starts from \<open>*flags = 0\<close> and runs five \<open>switch\<close>
  statements in sequence, with the test of \<open>active_low\<close> before the last; every
  \<open>default\<close> branch jumps to \<open>err_inval\<close>. Each \<open>switch\<close> is one function here, from
  the option value and the flags so far to the new flags or the errno. The edge
  branches clear bits with \<open>*flags &= ~GPIOD_LINE_CONFIG_DIRECTION_OUTPUT\<close>: the
  complement of the \<open>int\<close> enum value, converted to 64 bits.
\<close>

definition switch_direction :: "int \<Rightarrow> 64 word \<Rightarrow> errno + 64 word" where
  "switch_direction d fl =
     (if d = GPIOD_LINE_CONFIG_DIRECTION_INPUT then Inr (fl OR GPIO_V2_LINE_FLAG_INPUT)
      else if d = GPIOD_LINE_CONFIG_DIRECTION_OUTPUT then Inr (fl OR GPIO_V2_LINE_FLAG_OUTPUT)
      else if d = GPIOD_LINE_CONFIG_DIRECTION_AS_IS \<or> d = 0 then Inr fl
      else Inl EINVAL)"

definition switch_edge :: "int \<Rightarrow> 64 word \<Rightarrow> errno + 64 word" where
  "switch_edge e fl =
     (if e = GPIOD_LINE_CONFIG_EDGE_FALLING
        then Inr ((fl OR (GPIO_V2_LINE_FLAG_EDGE_FALLING OR GPIO_V2_LINE_FLAG_INPUT))
                   AND word_of_int (NOT GPIOD_LINE_CONFIG_DIRECTION_OUTPUT))
      else if e = GPIOD_LINE_CONFIG_EDGE_RISING
        then Inr ((fl OR (GPIO_V2_LINE_FLAG_EDGE_RISING OR GPIO_V2_LINE_FLAG_INPUT))
                   AND word_of_int (NOT GPIOD_LINE_CONFIG_DIRECTION_OUTPUT))
      else if e = GPIOD_LINE_CONFIG_EDGE_BOTH
        then Inr ((fl OR (GPIO_V2_LINE_FLAG_EDGE_FALLING OR GPIO_V2_LINE_FLAG_EDGE_RISING OR
                          GPIO_V2_LINE_FLAG_INPUT))
                   AND word_of_int (NOT GPIOD_LINE_CONFIG_DIRECTION_OUTPUT))
      else if e = GPIOD_LINE_CONFIG_EDGE_NONE \<or> e = 0 then Inr fl
      else Inl EINVAL)"

definition switch_drive :: "int \<Rightarrow> 64 word \<Rightarrow> errno + 64 word" where
  "switch_drive d fl =
     (if d = GPIOD_LINE_CONFIG_DRIVE_OPEN_DRAIN then Inr (fl OR GPIO_V2_LINE_FLAG_OPEN_DRAIN)
      else if d = GPIOD_LINE_CONFIG_DRIVE_OPEN_SOURCE
        then Inr (fl OR GPIO_V2_LINE_FLAG_OPEN_SOURCE)
      else if d = GPIOD_LINE_CONFIG_DRIVE_PUSH_PULL \<or> d = 0 then Inr fl
      else Inl EINVAL)"

definition switch_bias :: "int \<Rightarrow> 64 word \<Rightarrow> errno + 64 word" where
  "switch_bias b fl =
     (if b = GPIOD_LINE_CONFIG_BIAS_DISABLED then Inr (fl OR GPIO_V2_LINE_FLAG_BIAS_DISABLED)
      else if b = GPIOD_LINE_CONFIG_BIAS_PULL_UP then Inr (fl OR GPIO_V2_LINE_FLAG_BIAS_PULL_UP)
      else if b = GPIOD_LINE_CONFIG_BIAS_PULL_DOWN
        then Inr (fl OR GPIO_V2_LINE_FLAG_BIAS_PULL_DOWN)
      else if b = GPIOD_LINE_CONFIG_BIAS_AS_IS \<or> b = 0 then Inr fl
      else Inl EINVAL)"

definition switch_clock :: "int \<Rightarrow> 64 word \<Rightarrow> errno + 64 word" where
  "switch_clock c fl =
     (if c = GPIOD_LINE_CONFIG_EVENT_CLOCK_REALTIME
        then Inr (fl OR GPIO_V2_LINE_FLAG_EVENT_CLOCK_REALTIME)
      else if c = GPIOD_LINE_CONFIG_EVENT_CLOCK_MONOTONIC \<or> c = 0 then Inr fl
      else Inl EINVAL)"

definition gpiod_make_kernel_flags :: "base_config \<Rightarrow> errno + 64 word" where
  "gpiod_make_kernel_flags cfg =
     (case switch_direction (direction cfg) 0 of
        Inl e \<Rightarrow> Inl e
      | Inr fl1 \<Rightarrow>
     (case switch_edge (edge cfg) fl1 of
        Inl e \<Rightarrow> Inl e
      | Inr fl2 \<Rightarrow>
     (case switch_drive (drive cfg) fl2 of
        Inl e \<Rightarrow> Inl e
      | Inr fl3 \<Rightarrow>
     (case switch_bias (bias cfg) fl3 of
        Inl e \<Rightarrow> Inl e
      | Inr fl4 \<Rightarrow>
          switch_clock (clock cfg)
            (if active_low cfg then fl4 OR GPIO_V2_LINE_FLAG_ACTIVE_LOW else fl4)))))"

subsection \<open>Normalising the offsets of a subset setter\<close>

text \<open>
  \<open>offset_compare\<close> returns the unsigned difference \<open>a - b\<close> converted to \<open>int\<close>.
\<close>

definition offset_compare :: "32 word \<Rightarrow> 32 word \<Rightarrow> int" where
  "offset_compare a b = sint (a - b)"

text \<open>
  \<open>qsort\<close> belongs to the C library. It is modelled as an insertion sort that asks only
  the comparison function, so that it orders the array whenever the comparison is
  an order on the entries.
\<close>

fun qsort_insert :: "32 word \<Rightarrow> 32 word list \<Rightarrow> 32 word list" where
  "qsort_insert x [] = [x]"
| "qsort_insert x (y # ys) =
     (if offset_compare x y \<le> 0 then x # y # ys else y # qsort_insert x ys)"

definition qsort :: "32 word list \<Rightarrow> 32 word list" where
  "qsort xs = foldr qsort_insert xs []"

text \<open>
  \<open>memcpy\<close> and \<open>memmove\<close> count bytes, and the code passes them counts that are not
  multiples of the entry size, so both work on the byte image of the array: each
  \<open>unsigned int\<close> is four bytes, least significant first (a little-endian target).
  \<open>memmove_bytes m d s n\<close> moves \<open>n\<close> bytes from byte position \<open>s\<close> to byte position
  \<open>d\<close> of the array \<open>m\<close>; a move that leaves the array is undefined behaviour, \<open>None\<close>.
\<close>

definition le_bytes :: "32 word \<Rightarrow> 8 word list" where
  "le_bytes w = [ucast w, ucast (drop_bit 8 w), ucast (drop_bit 16 w), ucast (drop_bit 24 w)]"

definition le_word :: "8 word \<Rightarrow> 8 word \<Rightarrow> 8 word \<Rightarrow> 8 word \<Rightarrow> 32 word" where
  "le_word b0 b1 b2 b3 =
     ucast b0 OR push_bit 8 (ucast b1) OR push_bit 16 (ucast b2) OR push_bit 24 (ucast b3)"

definition bytes_of_words :: "32 word list \<Rightarrow> 8 word list" where
  "bytes_of_words ws = concat (map le_bytes ws)"

fun words_of_bytes :: "8 word list \<Rightarrow> 32 word list" where
  "words_of_bytes (b0 # b1 # b2 # b3 # bs) = le_word b0 b1 b2 b3 # words_of_bytes bs"
| "words_of_bytes bs = []"

definition memcpy_bytes :: "8 word list \<Rightarrow> 8 word list \<Rightarrow> nat \<Rightarrow> 8 word list" where
  "memcpy_bytes dst src n = take n src @ drop n dst"

definition memmove_bytes :: "8 word list \<Rightarrow> nat \<Rightarrow> nat \<Rightarrow> nat \<Rightarrow> 8 word list option" where
  "memmove_bytes m d s n =
     (if s + n \<le> length m \<and> d + n \<le> length m
      then Some (take d m @ take n (drop s m) @ drop (d + n) m)
      else None)"

text \<open>
  The duplicate-removal loop of \<open>sanitize_offsets\<close>, over its indices
  \<open>0 \<dots> count - 2\<close>. On equal neighbours it moves
  \<open>sizeof(*sorted) * num_offsets - i\<close> bytes from entry \<open>i + 2\<close> to entry \<open>i + 1\<close>
  (only when \<open>i < count - 2\<close>) and decrements \<open>num_sorted_offsets\<close>; the index then
  advances.
\<close>

fun sanitize_loop ::
  "nat list \<Rightarrow> nat \<Rightarrow> nat \<Rightarrow> gpiod_line_config \<Rightarrow> gpiod_line_config option" where
  "sanitize_loop [] count num_offs cfg = Some cfg"
| "sanitize_loop (i # rest) count num_offs cfg =
     (let sorted = sorted_offsets cfg in
      if sorted ! i = sorted ! (i + 1) then
        (if i < count - 2 then
           (case memmove_bytes (bytes_of_words sorted) (4 * (i + 1)) (4 * (i + 2))
                   (4 * num_offs - i) of
              None \<Rightarrow> None
            | Some m \<Rightarrow>
                sanitize_loop rest count num_offs
                  (cfg\<lparr>sorted_offsets := words_of_bytes m,
                       num_sorted_offsets := num_sorted_offsets cfg - 1\<rparr>))
         else
           sanitize_loop rest count num_offs
             (cfg\<lparr>num_sorted_offsets := num_sorted_offsets cfg - 1\<rparr>))
      else sanitize_loop rest count num_offs cfg)"

text \<open>
  \<open>sanitize_offsets\<close>: nothing is done for zero or one offset (the scratch array keeps
  what an earlier call left there); otherwise \<open>num_sorted_offsets\<close> takes
  \<open>num_offsets\<close>, \<open>memcpy\<close> copies \<open>count\<close> bytes, \<open>qsort\<close> sorts the first \<open>count\<close>
  entries, and the loop above removes duplicates.
\<close>

definition sanitize_offsets ::
  "gpiod_line_config \<Rightarrow> 32 word list \<Rightarrow> gpiod_line_config option" where
  "sanitize_offsets cfg offs =
     (let num_offs = length offs in
      if num_offs = 0 \<or> num_offs = 1 then Some cfg
      else
        (let count = (if num_offs > GPIO_V2_LINES_MAX then GPIO_V2_LINES_MAX else num_offs);
             cfg1 = cfg\<lparr>num_sorted_offsets := num_offs\<rparr>;
             cfg2 = cfg1\<lparr>sorted_offsets :=
                      words_of_bytes (memcpy_bytes (bytes_of_words (sorted_offsets cfg1))
                                        (bytes_of_words offs) count)\<rparr>;
             cfg3 = cfg2\<lparr>sorted_offsets :=
                      qsort (take count (sorted_offsets cfg2)) @
                      drop count (sorted_offsets cfg2)\<rparr>
         in sanitize_loop [0..<count - 1] count num_offs cfg3))"

subsection \<open>Finding or allocating a secondary block\<close>

text \<open>
  \<open>find_matching_secondary_config\<close>: the first of the \<open>num_secondary\<close> blocks whose
  \<open>num_offsets\<close> equals \<open>num_sorted_offsets\<close> and whose first \<open>num_offsets\<close> offsets
  are those of the scratch array (\<open>memcmp\<close> over that many entries).
\<close>

fun find_matching :: "secondary_config list \<Rightarrow> 32 word list \<Rightarrow> nat \<Rightarrow> nat option" where
  "find_matching [] offs n = None"
| "find_matching (s # ss) offs n =
     (if n \<noteq> num_offsets s then map_option Suc (find_matching ss offs n)
      else if take n (offsets s) = take n offs then Some 0
      else map_option Suc (find_matching ss offs n))"

definition find_matching_secondary_config :: "gpiod_line_config \<Rightarrow> nat option" where
  "find_matching_secondary_config cfg =
     find_matching (take (num_secondary cfg) (secondary cfg))
       (sorted_offsets cfg) (num_sorted_offsets cfg)"

text \<open>
  \<open>get_secondary_config\<close> returns the config as it leaves it and the block it points
  to. A block that is not found is taken at index \<open>num_secondary\<close>, which is then
  incremented; the code stores nothing else into the new block.
\<close>

definition get_secondary_config ::
  "gpiod_line_config \<Rightarrow> 32 word list \<Rightarrow> (gpiod_line_config \<times> nat option) option" where
  "get_secondary_config cfg offs =
     (if too_complex cfg then Some (cfg, None)
      else
        (case sanitize_offsets cfg offs of
           None \<Rightarrow> None
         | Some cfg1 \<Rightarrow>
             (case find_matching_secondary_config cfg1 of
                Some i \<Rightarrow> Some (cfg1, Some i)
              | None \<Rightarrow>
                  if num_secondary cfg1 = GPIO_V2_LINE_NUM_ATTRS_MAX
                  then Some (cfg1\<lparr>too_complex := True\<rparr>, None)
                  else Some (cfg1\<lparr>num_secondary := num_secondary cfg1 + 1\<rparr>,
                             Some (num_secondary cfg1)))))"

text \<open>
  The body shared by the subset setters: \<open>secondary->config.field = value\<close> on the
  block returned by \<open>get_secondary_config\<close>, nothing when it returned \<open>NULL\<close>.
\<close>

definition set_secondary_field ::
  "gpiod_line_config \<Rightarrow> 32 word list \<Rightarrow> (base_config \<Rightarrow> base_config) \<Rightarrow>
   gpiod_line_config option" where
  "set_secondary_field cfg offs upd =
     (case get_secondary_config cfg offs of
        None \<Rightarrow> None
      | Some (cfg1, None) \<Rightarrow> Some cfg1
      | Some (cfg1, Some i) \<Rightarrow>
          Some (cfg1\<lparr>secondary :=
                  (secondary cfg1)[i := (secondary cfg1 ! i)
                     \<lparr>config := upd (config (secondary cfg1 ! i))\<rparr>]\<rparr>))"

subsection \<open>Setters\<close>

text \<open>
  Every option has a global setter, which stores into \<open>config->primary\<close>, a subset
  setter, and a single-offset setter, which calls the subset setter with one offset.
\<close>

definition gpiod_line_config_set_direction :: "gpiod_line_config \<Rightarrow> int \<Rightarrow> gpiod_line_config" where
  "gpiod_line_config_set_direction cfg dir = cfg\<lparr>primary := (primary cfg)\<lparr>direction := dir\<rparr>\<rparr>"

definition gpiod_line_config_set_direction_subset ::
  "gpiod_line_config \<Rightarrow> int \<Rightarrow> 32 word list \<Rightarrow> gpiod_line_config option" where
  "gpiod_line_config_set_direction_subset cfg dir offs =
     set_secondary_field cfg offs (\<lambda>b. b\<lparr>direction := dir\<rparr>)"

definition gpiod_line_config_set_direction_offset ::
  "gpiod_line_config \<Rightarrow> int \<Rightarrow> 32 word \<Rightarrow> gpiod_line_config option" where
  "gpiod_line_config_set_direction_offset cfg dir off =
     gpiod_line_config_set_direction_subset cfg dir [off]"

definition gpiod_line_config_set_edge_detection :: "gpiod_line_config \<Rightarrow> int \<Rightarrow> gpiod_line_config" where
  "gpiod_line_config_set_edge_detection cfg edg = cfg\<lparr>primary := (primary cfg)\<lparr>edge := edg\<rparr>\<rparr>"

definition gpiod_line_config_set_edge_detection_subset ::
  "gpiod_line_config \<Rightarrow> int \<Rightarrow> 32 word list \<Rightarrow> gpiod_line_config option" where
  "gpiod_line_config_set_edge_detection_subset cfg edg offs =
     set_secondary_field cfg offs (\<lambda>b. b\<lparr>edge := edg\<rparr>)"

definition gpiod_line_config_set_edge_detection_offset ::
  "gpiod_line_config \<Rightarrow> int \<Rightarrow> 32 word \<Rightarrow> gpiod_line_config option" where
  "gpiod_line_config_set_edge_detection_offset cfg edg off =
     gpiod_line_config_set_edge_detection_subset cfg edg [off]"

definition gpiod_line_config_set_bias :: "gpiod_line_config \<Rightarrow> int \<Rightarrow> gpiod_line_config" where
  "gpiod_line_config_set_bias cfg bia = cfg\<lparr>primary := (primary cfg)\<lparr>bias := bia\<rparr>\<rparr>"

definition gpiod_line_config_set_bias_subset ::
  "gpiod_line_config \<Rightarrow> int \<Rightarrow> 32 word list \<Rightarrow> gpiod_line_config option" where
  "gpiod_line_config_set_bias_subset cfg bia offs =
     set_secondary_field cfg offs (\<lambda>b. b\<lparr>bias := bia\<rparr>)"

definition gpiod_line_config_set_bias_offset ::
  "gpiod_line_config \<Rightarrow> int \<Rightarrow> 32 word \<Rightarrow> gpiod_line_config option" where
  "gpiod_line_config_set_bias_offset cfg bia off =
     gpiod_line_config_set_bias_subset cfg bia [off]"

definition gpiod_line_config_set_drive :: "gpiod_line_config \<Rightarrow> int \<Rightarrow> gpiod_line_config" where
  "gpiod_line_config_set_drive cfg drv = cfg\<lparr>primary := (primary cfg)\<lparr>drive := drv\<rparr>\<rparr>"

definition gpiod_line_config_set_drive_subset ::
  "gpiod_line_config \<Rightarrow> int \<Rightarrow> 32 word list \<Rightarrow> gpiod_line_config option" where
  "gpiod_line_config_set_drive_subset cfg drv offs =
     set_secondary_field cfg offs (\<lambda>b. b\<lparr>drive := drv\<rparr>)"

definition gpiod_line_config_set_drive_offset ::
  "gpiod_line_config \<Rightarrow> int \<Rightarrow> 32 word \<Rightarrow> gpiod_line_config option" where
  "gpiod_line_config_set_drive_offset cfg drv off =
     gpiod_line_config_set_drive_subset cfg drv [off]"

definition gpiod_line_config_set_active_low :: "gpiod_line_config \<Rightarrow> gpiod_line_config" where
  "gpiod_line_config_set_active_low cfg = cfg\<lparr>primary := (primary cfg)\<lparr>active_low := True\<rparr>\<rparr>"

definition gpiod_line_config_set_active_low_subset ::
  "gpiod_line_config \<Rightarrow> 32 word list \<Rightarrow> gpiod_line_config option" where
  "gpiod_line_config_set_active_low_subset cfg offs =
     set_secondary_field cfg offs (\<lambda>b. b\<lparr>active_low := True\<rparr>)"

definition gpiod_line_config_set_active_low_offset ::
  "gpiod_line_config \<Rightarrow> 32 word \<Rightarrow> gpiod_line_config option" where
  "gpiod_line_config_set_active_low_offset cfg off =
     gpiod_line_config_set_active_low_subset cfg [off]"

definition gpiod_line_config_set_active_high :: "gpiod_line_config \<Rightarrow> gpiod_line_config" where
  "gpiod_line_config_set_active_high cfg = cfg\<lparr>primary := (primary cfg)\<lparr>active_low := False\<rparr>\<rparr>"

definition gpiod_line_config_set_active_high_subset ::
  "gpiod_line_config \<Rightarrow> 32 word list \<Rightarrow> gpiod_line_config option" where
  "gpiod_line_config_set_active_high_subset cfg offs =
     set_secondary_field cfg offs (\<lambda>b. b\<lparr>active_low := False\<rparr>)"

definition gpiod_line_config_set_active_high_offset ::
  "gpiod_line_config \<Rightarrow> 32 word \<Rightarrow> gpiod_line_config option" where
  "gpiod_line_config_set_active_high_offset cfg off =
     gpiod_line_config_set_active_high_subset cfg [off]"

definition gpiod_line_config_set_debounce_period :: "gpiod_line_config \<Rightarrow> 64 word \<Rightarrow> gpiod_line_config" where
  "gpiod_line_config_set_debounce_period cfg period = cfg\<lparr>primary := (primary cfg)\<lparr>debounce_period := period\<rparr>\<rparr>"

definition gpiod_line_config_set_debounce_period_subset ::
  "gpiod_line_config \<Rightarrow> 64 word \<Rightarrow> 32 word list \<Rightarrow> gpiod_line_config option" where
  "gpiod_line_config_set_debounce_period_subset cfg period offs =
     set_secondary_field cfg offs (\<lambda>b. b\<lparr>debounce_period := period\<rparr>)"

definition gpiod_line_config_set_debounce_period_offset ::
  "gpiod_line_config \<Rightarrow> 64 word \<Rightarrow> 32 word \<Rightarrow> gpiod_line_config option" where
  "gpiod_line_config_set_debounce_period_offset cfg period off =
     gpiod_line_config_set_debounce_period_subset cfg period [off]"

definition gpiod_line_config_set_event_clock :: "gpiod_line_config \<Rightarrow> int \<Rightarrow> gpiod_line_config" where
  "gpiod_line_config_set_event_clock cfg clk = cfg\<lparr>primary := (primary cfg)\<lparr>clock := clk\<rparr>\<rparr>"

definition gpiod_line_config_set_event_clock_subset ::
  "gpiod_line_config \<Rightarrow> int \<Rightarrow> 32 word list \<Rightarrow> gpiod_line_config option" where
  "gpiod_line_config_set_event_clock_subset cfg clk offs =
     set_secondary_field cfg offs (\<lambda>b. b\<lparr>clock := clk\<rparr>)"

definition gpiod_line_config_set_event_clock_offset ::
  "gpiod_line_config \<Rightarrow> int \<Rightarrow> 32 word \<Rightarrow> gpiod_line_config option" where
  "gpiod_line_config_set_event_clock_offset cfg clk off =
     gpiod_line_config_set_event_clock_subset cfg clk [off]"

subsection \<open>Output values\<close>

text \<open>
  \<open>output_value_find_offset\<close>: the index of the first of the \<open>num_output_values\<close>
  stored entries with that offset (\<open>-1\<close> is \<open>None\<close>).
\<close>

fun find_output_value :: "output_value list \<Rightarrow> 32 word \<Rightarrow> nat option" where
  "find_output_value [] off = None"
| "find_output_value (v # vs) off =
     (if offset v = off then Some 0 else map_option Suc (find_output_value vs off))"

definition output_value_find_offset :: "gpiod_line_config \<Rightarrow> 32 word \<Rightarrow> nat option" where
  "output_value_find_offset cfg off =
     find_output_value (take (num_output_values cfg) (output_values cfg)) off"

definition set_output_value ::
  "gpiod_line_config \<Rightarrow> nat \<Rightarrow> 32 word \<Rightarrow> int \<Rightarrow> bool \<Rightarrow> gpiod_line_config" where
  "set_output_value cfg idx off v inc =
     (let cfg1 = cfg\<lparr>output_values := (output_values cfg)[idx := \<lparr>offset = off, val = v\<rparr>]\<rparr>
      in if inc then cfg1\<lparr>num_output_values := num_output_values cfg1 + 1\<rparr> else cfg1)"

text \<open>
  The loop of \<open>gpiod_line_config_set_output_values\<close> over the pairs
  \<open>(offsets[i], values[i])\<close>; it returns early when the 64 entries are used up.
\<close>

fun set_output_values_loop ::
  "gpiod_line_config \<Rightarrow> (32 word \<times> int) list \<Rightarrow> gpiod_line_config" where
  "set_output_values_loop cfg [] = cfg"
| "set_output_values_loop cfg ((off, v) # rest) =
     (case output_value_find_offset cfg off of
        None \<Rightarrow>
          if num_output_values cfg = GPIO_V2_LINES_MAX then cfg\<lparr>too_complex := True\<rparr>
          else set_output_values_loop
                 (set_output_value cfg (num_output_values cfg) off v True) rest
      | Some pos \<Rightarrow> set_output_values_loop (set_output_value cfg pos off v False) rest)"

text \<open>Both arrays hold \<open>num_values\<close> entries, the length of \<open>offs\<close> and of \<open>vals\<close>.\<close>

definition gpiod_line_config_set_output_values ::
  "gpiod_line_config \<Rightarrow> 32 word list \<Rightarrow> int list \<Rightarrow> gpiod_line_config" where
  "gpiod_line_config_set_output_values cfg offs vals =
     (if too_complex cfg then cfg else set_output_values_loop cfg (zip offs vals))"

definition gpiod_line_config_set_output_value ::
  "gpiod_line_config \<Rightarrow> 32 word \<Rightarrow> int \<Rightarrow> gpiod_line_config" where
  "gpiod_line_config_set_output_value cfg off v =
     gpiod_line_config_set_output_values cfg [off] [v]"

subsection \<open>Compilation to the kernel structure\<close>

text \<open>
  Modelled from the spec: the line-mask primitives (the \<open>gpiod_line_mask_*\<close> helpers
  of the library's internal header, which is not among the sources). A line mask is a
  64-bit word; the operations are zero, fill, set bit and assign bit. The fill used by
  the compilation takes the mask alone and sets all of it.
\<close>

definition gpiod_line_mask_zero :: "64 word" where
  "gpiod_line_mask_zero = 0"

definition gpiod_line_mask_fill :: "64 word" where
  "gpiod_line_mask_fill = NOT 0"

definition gpiod_line_mask_set_bit :: "64 word \<Rightarrow> nat \<Rightarrow> 64 word" where
  "gpiod_line_mask_set_bit m nr = set_bit nr m"

definition gpiod_line_mask_assign_bit :: "64 word \<Rightarrow> nat \<Rightarrow> bool \<Rightarrow> 64 word" where
  "gpiod_line_mask_assign_bit m nr v = (if v then set_bit nr m else unset_bit nr m)"

text \<open>
  \<open>find_bitmap_index\<close>: the first position of \<open>needle\<close> among the \<open>num_lines\<close> entries
  of \<open>haystack\<close> (\<open>-1\<close> is \<open>None\<close>).
\<close>

fun find_bitmap_index :: "32 word \<Rightarrow> 32 word list \<Rightarrow> nat option" where
  "find_bitmap_index needle [] = None"
| "find_bitmap_index needle (h # hs) =
     (if needle = h then Some 0 else map_option Suc (find_bitmap_index needle hs))"

text \<open>
  \<open>set_kernel_output_values\<close>: both words start at zero; for each stored value, in
  order, the bit at the index of its offset is set in the mask and assigned \<open>!!value\<close>
  in the values. An offset that is not requested ends the function with \<open>EINVAL\<close>.
\<close>

fun output_values_loop ::
  "output_value list \<Rightarrow> 32 word list \<Rightarrow> 64 word \<times> 64 word \<Rightarrow> errno + (64 word \<times> 64 word)" where
  "output_values_loop [] offs (m, vals) = Inr (m, vals)"
| "output_values_loop (outval # rest) offs (m, vals) =
     (case find_bitmap_index (offset outval) offs of
        None \<Rightarrow> Inl EINVAL
      | Some idx \<Rightarrow>
          output_values_loop rest offs
            (gpiod_line_mask_set_bit m idx,
             gpiod_line_mask_assign_bit vals idx (val outval \<noteq> 0)))"

definition set_kernel_output_values ::
  "gpiod_line_config \<Rightarrow> 32 word list \<Rightarrow> errno + (64 word \<times> 64 word)" where
  "set_kernel_output_values cfg offs =
     output_values_loop (take (num_output_values cfg) (output_values cfg)) offs
       (gpiod_line_mask_zero, gpiod_line_mask_zero)"

fun secondary_mask_loop :: "32 word list \<Rightarrow> 32 word list \<Rightarrow> 64 word \<Rightarrow> errno + 64 word" where
  "secondary_mask_loop [] offs m = Inr m"
| "secondary_mask_loop (off # rest) offs m =
     (case find_bitmap_index off offs of
        None \<Rightarrow> Inl EINVAL
      | Some idx \<Rightarrow> secondary_mask_loop rest offs (gpiod_line_mask_set_bit m idx))"

definition set_secondary_mask :: "secondary_config \<Rightarrow> 32 word list \<Rightarrow> errno + 64 word" where
  "set_secondary_mask sec_cfg offs =
     secondary_mask_loop (take (num_offsets sec_cfg) (offsets sec_cfg)) offs gpiod_line_mask_zero"

text \<open>A store through \<open>attr = &cfgbuf->attrs[i]\<close>.\<close>

definition store_attr ::
  "gpio_v2_line_config \<Rightarrow> nat \<Rightarrow>
   (gpio_v2_line_config_attribute \<Rightarrow> gpio_v2_line_config_attribute) \<Rightarrow> gpio_v2_line_config" where
  "store_attr cfgbuf i f = cfgbuf\<lparr>attrs := (attrs cfgbuf)[i := f (attrs cfgbuf ! i)]\<rparr>"

text \<open>
  \<open>gpiod_line_config_to_kernel\<close> is modelled block by block. A block leaves the
  function through \<open>goto err_2big\<close>, or through \<open>return -1\<close> with the errno of the
  call that failed, or it goes on with the next attribute index. Each block returns
  the kernel structure as it has written it by then.
\<close>

datatype early_exit = Goto_err_2big | Return_error errno

text \<open>
  The block \<open>if (config->num_output_values) { \<dots> }\<close>: the attribute at \<open>attr_idx\<close>
  takes the id first, then (unless an offset is not requested) the values and the mask.
\<close>

definition output_values_attr ::
  "gpiod_line_config \<Rightarrow> gpio_v2_line_config \<Rightarrow> 32 word list \<Rightarrow> nat \<Rightarrow>
   (early_exit + nat) \<times> gpio_v2_line_config" where
  "output_values_attr cfg cfgbuf offs attr_idx =
     (if num_output_values cfg \<noteq> 0 then
        (if num_output_values cfg > length offs then (Inl Goto_err_2big, cfgbuf)
         else
           (let buf = store_attr cfgbuf attr_idx
                        (\<lambda>a. a\<lparr>attr_id := GPIO_V2_LINE_ATTR_ID_OUTPUT_VALUES\<rparr>)
            in case set_kernel_output_values cfg offs of
                 Inl e \<Rightarrow> (Inl (Return_error e), buf)
               | Inr (m, vals) \<Rightarrow>
                   (Inr (attr_idx + 1),
                    store_attr buf attr_idx (\<lambda>a. a\<lparr>attr_value := vals, mask := m\<rparr>))))
      else (Inr attr_idx, cfgbuf))"

text \<open>
  The block \<open>if (config->primary.debounce_period) { \<dots> }\<close>. The assignment to
  \<open>debounce_period_us\<close> converts the \<open>unsigned long\<close> period to 32 bits.
\<close>

definition primary_debounce_attr ::
  "gpiod_line_config \<Rightarrow> gpio_v2_line_config \<Rightarrow> nat \<Rightarrow> nat \<times> gpio_v2_line_config" where
  "primary_debounce_attr cfg cfgbuf attr_idx =
     (if debounce_period (primary cfg) \<noteq> 0
      then (attr_idx + 1,
            store_attr cfgbuf attr_idx
              (\<lambda>a. (store_debounce_period_us
                        (a\<lparr>attr_id := GPIO_V2_LINE_ATTR_ID_DEBOUNCE\<rparr>)
                        (ucast (debounce_period (primary cfg))))
                     \<lparr>mask := gpiod_line_mask_fill\<rparr>))
      else (attr_idx, cfgbuf))"

text \<open>
  The body of the loop over the secondary blocks, for the block \<open>sec_cfg\<close> and the
  attribute at \<open>attr_idx\<close>: the id and the payload (a debounce period that is not zero
  takes the place of the flags, which are then not translated; the test is on the
  \<open>unsigned long\<close> period, the store converts it to the 32 bits of
  \<open>debounce_period_us\<close>), then the mask.
\<close>

definition secondary_attr ::
  "secondary_config \<Rightarrow> nat \<Rightarrow> 32 word list \<Rightarrow> gpio_v2_line_config \<Rightarrow>
   (early_exit + unit) \<times> gpio_v2_line_config" where
  "secondary_attr sec_cfg attr_idx offs cfgbuf =
     (if attr_idx = GPIO_V2_LINE_NUM_ATTRS_MAX then (Inl Goto_err_2big, cfgbuf)
      else if num_offsets sec_cfg > length offs then (Inl Goto_err_2big, cfgbuf)
      else
        (case (if debounce_period (config sec_cfg) \<noteq> 0
               then Inr (store_attr cfgbuf attr_idx
                           (\<lambda>a. store_debounce_period_us
                                   (a\<lparr>attr_id := GPIO_V2_LINE_ATTR_ID_DEBOUNCE\<rparr>)
                                   (ucast (debounce_period (config sec_cfg)))))
               else
                 (let buf = store_attr cfgbuf attr_idx
                              (\<lambda>a. a\<lparr>attr_id := GPIO_V2_LINE_ATTR_ID_FLAGS\<rparr>)
                  in case gpiod_make_kernel_flags (config sec_cfg) of
                       Inl e \<Rightarrow> Inl (e, buf)
                     | Inr fl \<Rightarrow> Inr (store_attr buf attr_idx (\<lambda>a. a\<lparr>attr_value := fl\<rparr>)))) of
           Inl (e, buf) \<Rightarrow> (Inl (Return_error e), buf)
         | Inr buf \<Rightarrow>
             (case set_secondary_mask sec_cfg offs of
                Inl e \<Rightarrow> (Inl (Return_error e), buf)
              | Inr m \<Rightarrow> (Inr (), store_attr buf attr_idx (\<lambda>a. a\<lparr>mask := m\<rparr>)))))"

text \<open>The loop \<open>for (i = 0; i < config->num_secondary; i++, attr_idx++)\<close>.\<close>

fun secondary_loop ::
  "secondary_config list \<Rightarrow> nat \<Rightarrow> 32 word list \<Rightarrow> gpio_v2_line_config \<Rightarrow>
   (early_exit + nat) \<times> gpio_v2_line_config" where
  "secondary_loop [] attr_idx offs cfgbuf = (Inr attr_idx, cfgbuf)"
| "secondary_loop (sec_cfg # rest) attr_idx offs cfgbuf =
     (case secondary_attr sec_cfg attr_idx offs cfgbuf of
        (Inl x, buf) \<Rightarrow> (Inl x, buf)
      | (Inr u, buf) \<Rightarrow> secondary_loop rest (attr_idx + 1) offs buf)"

text \<open>
  The function from the test of \<open>too_complex\<close> to \<open>return 0\<close>, with \<open>attr_idx = 0\<close>
  at the start. \<open>num_lines\<close> is the length of \<open>offs\<close>.
\<close>

definition to_kernel_body ::
  "gpiod_line_config \<Rightarrow> gpio_v2_line_config \<Rightarrow> 32 word list \<Rightarrow>
   (early_exit + unit) \<times> gpio_v2_line_config" where
  "to_kernel_body cfg cfgbuf offs =
     (if too_complex cfg then (Inl Goto_err_2big, cfgbuf)
      else
        (case output_values_attr cfg cfgbuf offs 0 of
           (Inl x, buf1) \<Rightarrow> (Inl x, buf1)
         | (Inr idx1, buf1) \<Rightarrow>
             (case primary_debounce_attr cfg buf1 idx1 of
                (idx2, buf2) \<Rightarrow>
                  (case secondary_loop (take (num_secondary cfg) (secondary cfg))
                          idx2 offs buf2 of
                     (Inl x, buf3) \<Rightarrow> (Inl x, buf3)
                   | (Inr idx3, buf3) \<Rightarrow>
                       (case gpiod_make_kernel_flags (primary cfg) of
                          Inl e \<Rightarrow> (Inl (Return_error e), buf3)
                        | Inr fl \<Rightarrow> (Inr (), buf3\<lparr>flags := fl, num_attrs := idx3\<rparr>))))))"

text \<open>
  \<open>gpiod_line_config_to_kernel\<close>. The result is the return value (\<open>Inl\<close> the errno of
  a return of \<open>-1\<close>), the kernel structure and the config object as the call leaves
  them. A \<open>NULL\<close> config stores the input flag and returns \<open>0\<close>. The label
  \<open>err_2big\<close> stores \<open>true\<close> into \<open>config->too_complex\<close> and returns \<open>-1\<close> with
  \<open>E2BIG\<close>.
\<close>

definition gpiod_line_config_to_kernel ::
  "gpiod_line_config option \<Rightarrow> gpio_v2_line_config \<Rightarrow> 32 word list \<Rightarrow>
   (errno + unit) \<times> gpio_v2_line_config \<times> gpiod_line_config option" where
  "gpiod_line_config_to_kernel config_ptr cfgbuf offs =
     (case config_ptr of
        None \<Rightarrow> (Inr (), cfgbuf\<lparr>flags := GPIO_V2_LINE_FLAG_INPUT\<rparr>, None)
      | Some cfg \<Rightarrow>
          (case to_kernel_body cfg cfgbuf offs of
             (Inl Goto_err_2big, buf) \<Rightarrow> (Inl E2BIG, buf, Some (cfg\<lparr>too_complex := True\<rparr>))
           | (Inl (Return_error e), buf) \<Rightarrow> (Inl e, buf, Some cfg)
           | (Inr u, buf) \<Rightarrow> (Inr (), buf, Some cfg)))"

subsection \<open>The setter calls as data\<close>

text \<open>
  One constructor for each public setter of the line-config object, with the arguments
  of the call; \<open>run_setter\<close> performs the call.
\<close>

datatype setter_call =
    Set_direction int
  | Set_direction_offset int "32 word"
  | Set_direction_subset int "32 word list"
  | Set_edge_detection int
  | Set_edge_detection_offset int "32 word"
  | Set_edge_detection_subset int "32 word list"
  | Set_bias int
  | Set_bias_offset int "32 word"
  | Set_bias_subset int "32 word list"
  | Set_drive int
  | Set_drive_offset int "32 word"
  | Set_drive_subset int "32 word list"
  | Set_active_low
  | Set_active_low_offset "32 word"
  | Set_active_low_subset "32 word list"
  | Set_active_high
  | Set_active_high_offset "32 word"
  | Set_active_high_subset "32 word list"
  | Set_debounce_period "64 word"
  | Set_debounce_period_offset "64 word" "32 word"
  | Set_debounce_period_subset "64 word" "32 word list"
  | Set_event_clock int
  | Set_event_clock_offset int "32 word"
  | Set_event_clock_subset int "32 word list"
  | Set_output_value "32 word" int
  | Set_output_values "32 word list" "int list"

fun run_setter :: "setter_call \<Rightarrow> gpiod_line_config \<Rightarrow> gpiod_line_config option" where
  "run_setter (Set_direction d) cfg = Some (gpiod_line_config_set_direction cfg d)"
| "run_setter (Set_direction_offset d off) cfg = gpiod_line_config_set_direction_offset cfg d off"
| "run_setter (Set_direction_subset d offs) cfg = gpiod_line_config_set_direction_subset cfg d offs"
| "run_setter (Set_edge_detection e) cfg = Some (gpiod_line_config_set_edge_detection cfg e)"
| "run_setter (Set_edge_detection_offset e off) cfg =
     gpiod_line_config_set_edge_detection_offset cfg e off"
| "run_setter (Set_edge_detection_subset e offs) cfg =
     gpiod_line_config_set_edge_detection_subset cfg e offs"
| "run_setter (Set_bias b) cfg = Some (gpiod_line_config_set_bias cfg b)"
| "run_setter (Set_bias_offset b off) cfg = gpiod_line_config_set_bias_offset cfg b off"
| "run_setter (Set_bias_subset b offs) cfg = gpiod_line_config_set_bias_subset cfg b offs"
| "run_setter (Set_drive d) cfg = Some (gpiod_line_config_set_drive cfg d)"
| "run_setter (Set_drive_offset d off) cfg = gpiod_line_config_set_drive_offset cfg d off"
| "run_setter (Set_drive_subset d offs) cfg = gpiod_line_config_set_drive_subset cfg d offs"
| "run_setter Set_active_low cfg = Some (gpiod_line_config_set_active_low cfg)"
| "run_setter (Set_active_low_offset off) cfg = gpiod_line_config_set_active_low_offset cfg off"
| "run_setter (Set_active_low_subset offs) cfg = gpiod_line_config_set_active_low_subset cfg offs"
| "run_setter Set_active_high cfg = Some (gpiod_line_config_set_active_high cfg)"
| "run_setter (Set_active_high_offset off) cfg = gpiod_line_config_set_active_high_offset cfg off"
| "run_setter (Set_active_high_subset offs) cfg =
     gpiod_line_config_set_active_high_subset cfg offs"
| "run_setter (Set_debounce_period p) cfg = Some (gpiod_line_config_set_debounce_period cfg p)"
| "run_setter (Set_debounce_period_offset p off) cfg =
     gpiod_line_config_set_debounce_period_offset cfg p off"
| "run_setter (Set_debounce_period_subset p offs) cfg =
     gpiod_line_config_set_debounce_period_subset cfg p offs"
| "run_setter (Set_event_clock c) cfg = Some (gpiod_line_config_set_event_clock cfg c)"
| "run_setter (Set_event_clock_offset c off) cfg =
     gpiod_line_config_set_event_clock_offset cfg c off"
| "run_setter (Set_event_clock_subset c offs) cfg =
     gpiod_line_config_set_event_clock_subset cfg c offs"
| "run_setter (Set_output_value off v) cfg = Some (gpiod_line_config_set_output_value cfg off v)"
| "run_setter (Set_output_values offs vs) cfg =
     Some (gpiod_line_config_set_output_values cfg offs vs)"

text \<open>The global setters: those that store into the primary block.\<close>

fun is_global_setter :: "setter_call \<Rightarrow> bool" where
  "is_global_setter (Set_direction d) = True"
| "is_global_setter (Set_edge_detection e) = True"
| "is_global_setter (Set_bias b) = True"
| "is_global_setter (Set_drive d) = True"
| "is_global_setter Set_active_low = True"
| "is_global_setter Set_active_high = True"
| "is_global_setter (Set_debounce_period p) = True"
| "is_global_setter (Set_event_clock c) = True"
| "is_global_setter other = False"

text \<open>A sequence of calls, stopping where a call is undefined.\<close>

fun run_setters :: "setter_call list \<Rightarrow> gpiod_line_config \<Rightarrow> gpiod_line_config option" where
  "run_setters [] cfg = Some cfg"
| "run_setters (c # cs) cfg =
     (case run_setter c cfg of None \<Rightarrow> None | Some cfg1 \<Rightarrow> run_setters cs cfg1)"

subsection \<open>Notions of the specification\<close>

text \<open>
  The option values that the translation recognises: the tags of each enum of the
  public header, and \<open>0\<close> for an option that was never set.
\<close>

definition recognized_options :: "base_config \<Rightarrow> bool" where
  "recognized_options cfg \<longleftrightarrow>
     direction cfg \<in> {0, GPIOD_LINE_CONFIG_DIRECTION_AS_IS, GPIOD_LINE_CONFIG_DIRECTION_INPUT,
                       GPIOD_LINE_CONFIG_DIRECTION_OUTPUT} \<and>
     edge cfg \<in> {0, GPIOD_LINE_CONFIG_EDGE_NONE, GPIOD_LINE_CONFIG_EDGE_FALLING,
                  GPIOD_LINE_CONFIG_EDGE_RISING, GPIOD_LINE_CONFIG_EDGE_BOTH} \<and>
     drive cfg \<in> {0, GPIOD_LINE_CONFIG_DRIVE_PUSH_PULL, GPIOD_LINE_CONFIG_DRIVE_OPEN_DRAIN,
                   GPIOD_LINE_CONFIG_DRIVE_OPEN_SOURCE} \<and>
     bias cfg \<in> {0, GPIOD_LINE_CONFIG_BIAS_AS_IS, GPIOD_LINE_CONFIG_BIAS_DISABLED,
                  GPIOD_LINE_CONFIG_BIAS_PULL_UP, GPIOD_LINE_CONFIG_BIAS_PULL_DOWN} \<and>
     clock cfg \<in> {0, GPIOD_LINE_CONFIG_EVENT_CLOCK_MONOTONIC,
                   GPIOD_LINE_CONFIG_EVENT_CLOCK_REALTIME}"

text \<open>
  The attribute slots a config asks for: one for the output values when there are any,
  one for a primary debounce period, one for each secondary block.
\<close>

definition attr_slots :: "gpiod_line_config \<Rightarrow> nat" where
  "attr_slots cfg =
     (if num_output_values cfg \<noteq> 0 then 1 else 0) +
     (if debounce_period (primary cfg) \<noteq> 0 then 1 else 0) +
     num_secondary cfg"

text \<open>The entries in use of the two tables of a config.\<close>

definition stored_output_values :: "gpiod_line_config \<Rightarrow> output_value list" where
  "stored_output_values cfg = take (num_output_values cfg) (output_values cfg)"

definition allocated_secondaries :: "gpiod_line_config \<Rightarrow> secondary_config list" where
  "allocated_secondaries cfg = take (num_secondary cfg) (secondary cfg)"

text \<open>A cleared kernel structure, and the config that \<open>gpiod_line_config_new\<close> returns.\<close>

definition zero_cfgbuf :: gpio_v2_line_config where
  "zero_cfgbuf =
     \<lparr>flags = 0, num_attrs = 0,
      attrs = replicate GPIO_V2_LINE_NUM_ATTRS_MAX \<lparr>attr_id = 0, attr_value = 0, mask = 0\<rparr>\<rparr>"

definition new_config :: gpiod_line_config where
  "new_config =
     \<lparr>too_complex = False, primary = zero_base_config,
      secondary = replicate GPIO_V2_LINE_NUM_ATTRS_MAX zero_secondary_config,
      num_secondary = 0,
      output_values = replicate GPIO_V2_LINES_MAX \<lparr>offset = 0, val = 0\<rparr>,
      num_output_values = 0,
      sorted_offsets = replicate GPIO_V2_LINES_MAX 0,
      num_sorted_offsets = 0\<rparr>"

text \<open>The offset list of a secondary block: its first \<open>num_offsets\<close> offsets.\<close>

definition block_offsets :: "secondary_config \<Rightarrow> 32 word list" where
  "block_offsets s = take (num_offsets s) (offsets s)"

text \<open>No block of the table holds an offset.\<close>

definition unseeded :: "gpiod_line_config \<Rightarrow> bool" where
  "unseeded cfg \<longleftrightarrow> list_all (\<lambda>s. num_offsets s = 0) (secondary cfg)"

text \<open>
  The table of output values as the setters keep it: 64 entries, at most 64 of them in
  use, no offset stored twice.
\<close>

definition output_values_inv :: "gpiod_line_config \<Rightarrow> bool" where
  "output_values_inv cfg \<longleftrightarrow>
     length (output_values cfg) = GPIO_V2_LINES_MAX \<and>
     num_output_values cfg \<le> GPIO_V2_LINES_MAX \<and>
     distinct (map offset (stored_output_values cfg))"

subsection \<open>Example configs\<close>

text \<open>Two output values, for the offsets 1 and 2.\<close>

definition two_values_config :: gpiod_line_config where
  "two_values_config = gpiod_line_config_set_output_values new_config [1, 2] [1, 1]"

text \<open>Eleven subset calls for the offsets 3 and 5, on a new config.\<close>

definition overflow_calls :: "setter_call list" where
  "overflow_calls = replicate 11 (Set_direction_subset GPIOD_LINE_CONFIG_DIRECTION_INPUT [3, 5])"

definition overflowed_config :: gpiod_line_config where
  "overflowed_config =
     (case run_setters overflow_calls new_config of None \<Rightarrow> new_config | Some cfg \<Rightarrow> cfg)"

text \<open>Ten subset calls for the offsets 3 and 5, then an output value for the offset 9.\<close>

definition slot_overflow_calls :: "setter_call list" where
  "slot_overflow_calls =
     replicate 10 (Set_direction_subset GPIOD_LINE_CONFIG_DIRECTION_INPUT [3, 5]) @
     [Set_output_value 9 1]"

definition slot_overflow_config :: gpiod_line_config where
  "slot_overflow_config =
     (case run_setters slot_overflow_calls new_config of None \<Rightarrow> new_config | Some cfg \<Rightarrow> cfg)"

text \<open>Ten subset calls for the offsets 3 and 5, then a primary debounce period.\<close>

definition debounce_overflow_calls :: "setter_call list" where
  "debounce_overflow_calls =
     replicate 10 (Set_direction_subset GPIOD_LINE_CONFIG_DIRECTION_INPUT [3, 5]) @
     [Set_debounce_period 5]"

definition debounce_overflow_config :: gpiod_line_config where
  "debounce_overflow_config =
     (case run_setters debounce_overflow_calls new_config of
        None \<Rightarrow> new_config | Some cfg \<Rightarrow> cfg)"

text \<open>
  Direction output for all lines and the output values 1, 0, 1 for the offsets 2, 4, 7;
  and a single output value for the offset 9.
\<close>

definition s1_config :: gpiod_line_config where
  "s1_config =
     gpiod_line_config_set_output_values
       (gpiod_line_config_set_direction new_config GPIOD_LINE_CONFIG_DIRECTION_OUTPUT)
       [2, 4, 7] [1, 0, 1]"

definition unrequested_value_config :: gpiod_line_config where
  "unrequested_value_config = gpiod_line_config_set_output_value new_config 9 1"



section \<open>Properties\<close>

subsection \<open>Unfolding the constants\<close>

lemmas gpiod_enum_defs =
  GPIOD_LINE_CONFIG_DIRECTION_AS_IS_def GPIOD_LINE_CONFIG_DIRECTION_INPUT_def
  GPIOD_LINE_CONFIG_DIRECTION_OUTPUT_def
  GPIOD_LINE_CONFIG_EDGE_NONE_def GPIOD_LINE_CONFIG_EDGE_FALLING_def
  GPIOD_LINE_CONFIG_EDGE_RISING_def GPIOD_LINE_CONFIG_EDGE_BOTH_def
  GPIOD_LINE_CONFIG_BIAS_AS_IS_def GPIOD_LINE_CONFIG_BIAS_DISABLED_def
  GPIOD_LINE_CONFIG_BIAS_PULL_UP_def GPIOD_LINE_CONFIG_BIAS_PULL_DOWN_def
  GPIOD_LINE_CONFIG_DRIVE_PUSH_PULL_def GPIOD_LINE_CONFIG_DRIVE_OPEN_DRAIN_def
  GPIOD_LINE_CONFIG_DRIVE_OPEN_SOURCE_def
  GPIOD_LINE_CONFIG_EVENT_CLOCK_MONOTONIC_def GPIOD_LINE_CONFIG_EVENT_CLOCK_REALTIME_def

lemmas gpio_v2_flag_defs =
  GPIO_V2_LINE_FLAG_ACTIVE_LOW_def GPIO_V2_LINE_FLAG_INPUT_def
  GPIO_V2_LINE_FLAG_OUTPUT_def GPIO_V2_LINE_FLAG_EDGE_RISING_def
  GPIO_V2_LINE_FLAG_EDGE_FALLING_def GPIO_V2_LINE_FLAG_OPEN_DRAIN_def
  GPIO_V2_LINE_FLAG_OPEN_SOURCE_def GPIO_V2_LINE_FLAG_BIAS_PULL_UP_def
  GPIO_V2_LINE_FLAG_BIAS_PULL_DOWN_def GPIO_V2_LINE_FLAG_BIAS_DISABLED_def
  GPIO_V2_LINE_FLAG_EVENT_CLOCK_REALTIME_def

lemmas gpio_v2_attr_id_defs =
  GPIO_V2_LINE_ATTR_ID_FLAGS_def GPIO_V2_LINE_ATTR_ID_OUTPUT_VALUES_def
  GPIO_V2_LINE_ATTR_ID_DEBOUNCE_def

lemmas switch_defs =
  switch_direction_def switch_edge_def switch_drive_def switch_bias_def switch_clock_def

lemma new_config_is_new: "gpiod_line_config_new True = Some new_config"
  by (simp add: gpiod_line_config_new_def new_config_def)

subsection \<open>Translation of a base config\<close>

lemma switch_not_e2big:
  "switch_direction d fl \<noteq> Inl E2BIG" "switch_edge d fl \<noteq> Inl E2BIG"
  "switch_drive d fl \<noteq> Inl E2BIG" "switch_bias d fl \<noteq> Inl E2BIG"
  "switch_clock d fl \<noteq> Inl E2BIG"
  by (simp_all add: switch_defs)

lemma make_kernel_flags_not_e2big: "gpiod_make_kernel_flags cfg \<noteq> Inl E2BIG"
  unfolding gpiod_make_kernel_flags_def
  by (auto simp: switch_not_e2big split: sum.splits)

text \<open>Whether a switch succeeds does not depend on the flags it is given.\<close>

lemma switch_ok_iff:
  "(\<exists>r. switch_direction d fl = Inr r) \<longleftrightarrow>
     d \<in> {0, GPIOD_LINE_CONFIG_DIRECTION_AS_IS, GPIOD_LINE_CONFIG_DIRECTION_INPUT,
          GPIOD_LINE_CONFIG_DIRECTION_OUTPUT}"
  "(\<exists>r. switch_edge d fl = Inr r) \<longleftrightarrow>
     d \<in> {0, GPIOD_LINE_CONFIG_EDGE_NONE, GPIOD_LINE_CONFIG_EDGE_FALLING,
          GPIOD_LINE_CONFIG_EDGE_RISING, GPIOD_LINE_CONFIG_EDGE_BOTH}"
  "(\<exists>r. switch_drive d fl = Inr r) \<longleftrightarrow>
     d \<in> {0, GPIOD_LINE_CONFIG_DRIVE_PUSH_PULL, GPIOD_LINE_CONFIG_DRIVE_OPEN_DRAIN,
          GPIOD_LINE_CONFIG_DRIVE_OPEN_SOURCE}"
  "(\<exists>r. switch_bias d fl = Inr r) \<longleftrightarrow>
     d \<in> {0, GPIOD_LINE_CONFIG_BIAS_AS_IS, GPIOD_LINE_CONFIG_BIAS_DISABLED,
          GPIOD_LINE_CONFIG_BIAS_PULL_UP, GPIOD_LINE_CONFIG_BIAS_PULL_DOWN}"
  "(\<exists>r. switch_clock d fl = Inr r) \<longleftrightarrow>
     d \<in> {0, GPIOD_LINE_CONFIG_EVENT_CLOCK_MONOTONIC, GPIOD_LINE_CONFIG_EVENT_CLOCK_REALTIME}"
  by (simp_all add: switch_defs)

lemma make_kernel_flags_Inr_iff:
  "gpiod_make_kernel_flags cfg = Inr fl \<longleftrightarrow>
     (\<exists>f1 f2 f3 f4.
        switch_direction (direction cfg) 0 = Inr f1 \<and>
        switch_edge (edge cfg) f1 = Inr f2 \<and>
        switch_drive (drive cfg) f2 = Inr f3 \<and>
        switch_bias (bias cfg) f3 = Inr f4 \<and>
        switch_clock (clock cfg)
          (if active_low cfg then f4 OR GPIO_V2_LINE_FLAG_ACTIVE_LOW else f4) = Inr fl)"
  unfolding gpiod_make_kernel_flags_def
  by (simp split: sum.splits)

lemma make_kernel_flags_ok_iff:
  "(\<exists>fl. gpiod_make_kernel_flags cfg = Inr fl) \<longleftrightarrow> recognized_options cfg"
proof
  assume "\<exists>fl. gpiod_make_kernel_flags cfg = Inr fl"
  then obtain fl f1 f2 f3 f4 where
    s1: "switch_direction (direction cfg) 0 = Inr f1" and
    s2: "switch_edge (edge cfg) f1 = Inr f2" and
    s3: "switch_drive (drive cfg) f2 = Inr f3" and
    s4: "switch_bias (bias cfg) f3 = Inr f4" and
    s5: "switch_clock (clock cfg)
          (if active_low cfg then f4 OR GPIO_V2_LINE_FLAG_ACTIVE_LOW else f4) = Inr fl"
    unfolding make_kernel_flags_Inr_iff by blast
  have "direction cfg \<in> {0, GPIOD_LINE_CONFIG_DIRECTION_AS_IS, GPIOD_LINE_CONFIG_DIRECTION_INPUT,
                       GPIOD_LINE_CONFIG_DIRECTION_OUTPUT}"
    by (rule iffD1 [OF switch_ok_iff(1)]) (rule exI, rule s1)
  moreover have "edge cfg \<in> {0, GPIOD_LINE_CONFIG_EDGE_NONE, GPIOD_LINE_CONFIG_EDGE_FALLING,
                  GPIOD_LINE_CONFIG_EDGE_RISING, GPIOD_LINE_CONFIG_EDGE_BOTH}"
    by (rule iffD1 [OF switch_ok_iff(2)]) (rule exI, rule s2)
  moreover have "drive cfg \<in> {0, GPIOD_LINE_CONFIG_DRIVE_PUSH_PULL, GPIOD_LINE_CONFIG_DRIVE_OPEN_DRAIN,
                   GPIOD_LINE_CONFIG_DRIVE_OPEN_SOURCE}"
    by (rule iffD1 [OF switch_ok_iff(3)]) (rule exI, rule s3)
  moreover have "bias cfg \<in> {0, GPIOD_LINE_CONFIG_BIAS_AS_IS, GPIOD_LINE_CONFIG_BIAS_DISABLED,
                  GPIOD_LINE_CONFIG_BIAS_PULL_UP, GPIOD_LINE_CONFIG_BIAS_PULL_DOWN}"
    by (rule iffD1 [OF switch_ok_iff(4)]) (rule exI, rule s4)
  moreover have "clock cfg \<in> {0, GPIOD_LINE_CONFIG_EVENT_CLOCK_MONOTONIC,
                   GPIOD_LINE_CONFIG_EVENT_CLOCK_REALTIME}"
    by (rule iffD1 [OF switch_ok_iff(5)]) (rule exI, rule s5)
  ultimately show "recognized_options cfg"
    unfolding recognized_options_def by (intro conjI)
next
  assume r: "recognized_options cfg"
  obtain f1 where s1: "switch_direction (direction cfg) 0 = Inr f1"
    using r iffD2 [OF switch_ok_iff(1)] unfolding recognized_options_def by blast
  obtain f2 where s2: "switch_edge (edge cfg) f1 = Inr f2"
    using r iffD2 [OF switch_ok_iff(2)] unfolding recognized_options_def by blast
  obtain f3 where s3: "switch_drive (drive cfg) f2 = Inr f3"
    using r iffD2 [OF switch_ok_iff(3)] unfolding recognized_options_def by blast
  obtain f4 where s4: "switch_bias (bias cfg) f3 = Inr f4"
    using r iffD2 [OF switch_ok_iff(4)] unfolding recognized_options_def by blast
  obtain f5 where s5:
    "switch_clock (clock cfg)
       (if active_low cfg then f4 OR GPIO_V2_LINE_FLAG_ACTIVE_LOW else f4) = Inr f5"
    using r iffD2 [OF switch_ok_iff(5)] unfolding recognized_options_def by blast
  show "\<exists>fl. gpiod_make_kernel_flags cfg = Inr fl"
    unfolding make_kernel_flags_Inr_iff using s1 s2 s3 s4 s5 by blast
qed

text \<open>
  C8. The translation of a base config returns \<open>-1\<close> with \<open>EINVAL\<close> exactly for the
  configs that hold a value outside the recognised tags (or \<open>0\<close>) for direction, edge,
  drive, bias or event clock; exactly for the configs with recognised values only it
  succeeds, and then it reports no errno.
\<close>

theorem make_kernel_flags_einval:
  "(gpiod_make_kernel_flags cfg = Inl EINVAL \<longleftrightarrow> \<not> recognized_options cfg) \<and>
   ((\<exists>fl. gpiod_make_kernel_flags cfg = Inr fl) \<longleftrightarrow> recognized_options cfg)"
proof -
  have "gpiod_make_kernel_flags cfg = Inl EINVAL \<or> (\<exists>fl. gpiod_make_kernel_flags cfg = Inr fl)"
  proof (cases "gpiod_make_kernel_flags cfg")
    case (Inl e)
    with make_kernel_flags_not_e2big [of cfg] show ?thesis by (cases e) simp_all
  next
    case (Inr fl)
    then show ?thesis by simp
  qed
  then show ?thesis using make_kernel_flags_ok_iff [of cfg] by auto
qed

text \<open>
  C3. With direction output and edge detection rising, the translation yields the
  flag word \<open>INPUT | OUTPUT | EDGE_RISING\<close>: the output flag is still set. The edge
  branch clears with the complement of the enum value \<open>GPIOD_LINE_CONFIG_DIRECTION_OUTPUT\<close>
  (3, bits 0 and 1), not of the kernel flag \<open>GPIO_V2_LINE_FLAG_OUTPUT\<close> (bit 3).
\<close>

theorem edge_rising_keeps_output_flag:
  "gpiod_make_kernel_flags
     (zero_base_config\<lparr>direction := GPIOD_LINE_CONFIG_DIRECTION_OUTPUT,
                        edge := GPIOD_LINE_CONFIG_EDGE_RISING\<rparr>) =
   Inr (GPIO_V2_LINE_FLAG_INPUT OR GPIO_V2_LINE_FLAG_OUTPUT OR GPIO_V2_LINE_FLAG_EDGE_RISING)"
  by (simp add: gpiod_make_kernel_flags_def switch_defs zero_base_config_def gpiod_enum_defs
        gpio_v2_flag_defs)

subsection \<open>Compilation\<close>

text \<open>
  C10. Compilation with a \<open>NULL\<close> config succeeds for every offset list: it returns
  \<open>0\<close>, the flags of the kernel structure are \<open>GPIO_V2_LINE_FLAG_INPUT\<close>, and the
  attribute entries and \<open>num_attrs\<close> are as they were.
\<close>

theorem to_kernel_null_config:
  "gpiod_line_config_to_kernel None cfgbuf offs =
     (Inr (), cfgbuf\<lparr>flags := GPIO_V2_LINE_FLAG_INPUT\<rparr>, None) \<and>
   flags (cfgbuf\<lparr>flags := GPIO_V2_LINE_FLAG_INPUT\<rparr>) = GPIO_V2_LINE_FLAG_INPUT \<and>
   attrs (cfgbuf\<lparr>flags := GPIO_V2_LINE_FLAG_INPUT\<rparr>) = attrs cfgbuf \<and>
   num_attrs (cfgbuf\<lparr>flags := GPIO_V2_LINE_FLAG_INPUT\<rparr>) = num_attrs cfgbuf"
  by (simp add: gpiod_line_config_to_kernel_def)

subsection \<open>Exits of the compilation blocks\<close>

lemma output_values_loop_error:
  "output_values_loop vs offs acc = Inl e \<Longrightarrow> e = EINVAL"
  by (induction vs offs acc rule: output_values_loop.induct) (auto split: option.splits)

lemma secondary_mask_loop_error:
  "secondary_mask_loop os offs m = Inl e \<Longrightarrow> e = EINVAL"
  by (induction os offs m rule: secondary_mask_loop.induct) (auto split: option.splits)

lemma make_kernel_flags_error:
  "gpiod_make_kernel_flags b = Inl e \<Longrightarrow> e = EINVAL"
  using make_kernel_flags_not_e2big [of b] by (cases e) simp_all

lemma output_values_attr_error:
  "fst (output_values_attr cfg buf offs i) = Inl (Return_error e) \<Longrightarrow> e = EINVAL"
  by (auto simp: output_values_attr_def set_kernel_output_values_def Let_def
        split: if_splits sum.splits prod.splits dest: output_values_loop_error)

lemma secondary_attr_error:
  "fst (secondary_attr s i offs buf) = Inl (Return_error e) \<Longrightarrow> e = EINVAL"
  by (auto simp: secondary_attr_def set_secondary_mask_def Let_def
        split: if_splits sum.splits prod.splits
        dest: secondary_mask_loop_error make_kernel_flags_error)

lemma secondary_loop_error:
  "fst (secondary_loop ss i offs buf) = Inl (Return_error e) \<Longrightarrow> e = EINVAL"
proof (induction ss arbitrary: i buf)
  case Nil
  then show ?case by simp
next
  case (Cons s ss)
  show ?case
  proof (cases "secondary_attr s i offs buf")
    case (Pair r buf1)
    show ?thesis
    proof (cases r)
      case (Inl x)
      with Pair Cons.prems have "fst (secondary_attr s i offs buf) = Inl (Return_error e)"
        by simp
      then show ?thesis by (rule secondary_attr_error)
    next
      case (Inr u)
      with Pair Cons.prems have "fst (secondary_loop ss (i + 1) offs buf1) = Inl (Return_error e)"
        by simp
      then show ?thesis by (rule Cons.IH)
    qed
  qed
qed

lemma to_kernel_body_error:
  assumes "fst (to_kernel_body cfg buf offs) = Inl (Return_error e)"
  shows "e = EINVAL"
proof -
  obtain r1 b1 where o: "output_values_attr cfg buf offs 0 = (r1, b1)" by fastforce
  show ?thesis
  proof (cases r1)
    case (Inl x)
    with assms o have "fst (output_values_attr cfg buf offs 0) = Inl (Return_error e)"
      by (simp add: to_kernel_body_def split: if_splits)
    then show ?thesis by (rule output_values_attr_error)
  next
    case (Inr idx1)
    obtain idx2 b2 where p: "primary_debounce_attr cfg b1 idx1 = (idx2, b2)" by fastforce
    obtain r3 b3 where l:
      "secondary_loop (take (num_secondary cfg) (secondary cfg)) idx2 offs b2 = (r3, b3)"
      by fastforce
    show ?thesis
    proof (cases r3)
      case (Inl x)
      with assms o Inr p l have
        "fst (secondary_loop (take (num_secondary cfg) (secondary cfg)) idx2 offs b2) =
           Inl (Return_error e)"
        by (simp add: to_kernel_body_def split: if_splits)
      then show ?thesis by (rule secondary_loop_error)
    next
      case (Inr idx3)
      with assms o \<open>r1 = Inr idx1\<close> p l have "gpiod_make_kernel_flags (primary cfg) = Inl e"
        by (simp add: to_kernel_body_def split: if_splits sum.splits)
      then show ?thesis by (rule make_kernel_flags_error)
    qed
  qed
qed

text \<open>How the function leaves does not depend on the kernel structure it is given.\<close>

lemma output_values_attr_exit_indep:
  "fst (output_values_attr cfg b1 offs i) = fst (output_values_attr cfg b2 offs i)"
  by (simp add: output_values_attr_def Let_def split: sum.splits prod.splits)

lemma primary_debounce_attr_idx_indep:
  "fst (primary_debounce_attr cfg b1 i) = fst (primary_debounce_attr cfg b2 i)"
  by (simp add: primary_debounce_attr_def)

lemma secondary_attr_exit_indep:
  "fst (secondary_attr s i offs b1) = fst (secondary_attr s i offs b2)"
  by (simp add: secondary_attr_def Let_def split: sum.splits prod.splits)

lemma secondary_loop_exit_indep:
  "fst (secondary_loop ss i offs b1) = fst (secondary_loop ss i offs b2)"
proof (induction ss arbitrary: i b1 b2)
  case Nil
  show ?case by simp
next
  case (Cons s ss)
  have e: "fst (secondary_attr s i offs b1) = fst (secondary_attr s i offs b2)"
    by (rule secondary_attr_exit_indep)
  obtain r1 c1 where s1: "secondary_attr s i offs b1 = (r1, c1)" by fastforce
  obtain r2 c2 where s2: "secondary_attr s i offs b2 = (r2, c2)" by fastforce
  from e s1 s2 have r: "r2 = r1" by simp
  show ?case
  proof (cases r1)
    case (Inl x)
    with s1 s2 r show ?thesis by simp
  next
    case (Inr u)
    with s1 s2 r Cons.IH [of "i + 1" c1 c2] show ?thesis by simp
  qed
qed

lemma to_kernel_body_exit_indep:
  "fst (to_kernel_body cfg b1 offs) = fst (to_kernel_body cfg b2 offs)"
proof -
  obtain r1 c1 where o1: "output_values_attr cfg b1 offs 0 = (r1, c1)" by fastforce
  obtain r2 c2 where o2: "output_values_attr cfg b2 offs 0 = (r2, c2)" by fastforce
  from output_values_attr_exit_indep [of cfg b1 offs 0 b2] o1 o2 have r: "r2 = r1" by simp
  show ?thesis
  proof (cases r1)
    case (Inl x)
    with o1 o2 r show ?thesis by (simp add: to_kernel_body_def)
  next
    case (Inr idx1)
    obtain i1 d1 where p1: "primary_debounce_attr cfg c1 idx1 = (i1, d1)" by fastforce
    obtain i2 d2 where p2: "primary_debounce_attr cfg c2 idx1 = (i2, d2)" by fastforce
    from primary_debounce_attr_idx_indep [of cfg c1 idx1 c2] p1 p2 have i: "i2 = i1" by simp
    obtain q1 e1 where l1:
      "secondary_loop (take (num_secondary cfg) (secondary cfg)) i1 offs d1 = (q1, e1)"
      by fastforce
    obtain q2 e2 where l2:
      "secondary_loop (take (num_secondary cfg) (secondary cfg)) i1 offs d2 = (q2, e2)"
      by fastforce
    from secondary_loop_exit_indep
           [of "take (num_secondary cfg) (secondary cfg)" i1 offs d1 d2] l1 l2
    have q: "q2 = q1" by simp
    show ?thesis
      using o1 o2 r Inr p1 p2 i l1 l2 q
      by (simp add: to_kernel_body_def split: sum.splits)
  qed
qed

lemma to_kernel_goto_iff:
  "fst (gpiod_line_config_to_kernel (Some cfg) buf offs) = Inl E2BIG \<longleftrightarrow>
   fst (to_kernel_body cfg buf offs) = Inl Goto_err_2big"
proof -
  obtain r b where t: "to_kernel_body cfg buf offs = (r, b)" by fastforce
  show ?thesis
  proof (cases r)
    case (Inl x)
    show ?thesis
    proof (cases x)
      case Goto_err_2big
      with t Inl show ?thesis by (simp add: gpiod_line_config_to_kernel_def)
    next
      case (Return_error e)
      with t Inl have "fst (to_kernel_body cfg buf offs) = Inl (Return_error e)" by simp
      then have "e = EINVAL" by (rule to_kernel_body_error)
      with t Inl Return_error show ?thesis by (simp add: gpiod_line_config_to_kernel_def)
    qed
  next
    case (Inr u)
    with t show ?thesis by (simp add: gpiod_line_config_to_kernel_def)
  qed
qed

lemma to_kernel_config_after:
  "snd (snd (gpiod_line_config_to_kernel (Some cfg) buf offs)) =
     Some (if fst (gpiod_line_config_to_kernel (Some cfg) buf offs) = Inl E2BIG
           then cfg\<lparr>too_complex := True\<rparr> else cfg)"
proof -
  obtain r b where t: "to_kernel_body cfg buf offs = (r, b)" by fastforce
  have "snd (snd (gpiod_line_config_to_kernel (Some cfg) buf offs)) =
          Some (if r = Inl Goto_err_2big then cfg\<lparr>too_complex := True\<rparr> else cfg)"
    using t by (simp add: gpiod_line_config_to_kernel_def split: sum.splits early_exit.splits)
  moreover have "r = Inl Goto_err_2big \<longleftrightarrow>
      fst (gpiod_line_config_to_kernel (Some cfg) buf offs) = Inl E2BIG"
    using t to_kernel_goto_iff [of cfg buf offs] by simp
  ultimately show ?thesis by simp
qed

lemma to_kernel_return_indep:
  "fst (gpiod_line_config_to_kernel (Some cfg) b1 offs) =
   fst (gpiod_line_config_to_kernel (Some cfg) b2 offs)"
proof -
  obtain r c1 where t1: "to_kernel_body cfg b1 offs = (r, c1)" by fastforce
  with to_kernel_body_exit_indep [of cfg b1 offs b2]
  obtain c2 where t2: "to_kernel_body cfg b2 offs = (r, c2)"
    by (cases "to_kernel_body cfg b2 offs") simp
  show ?thesis using t1 t2
    by (simp add: gpiod_line_config_to_kernel_def split: sum.splits early_exit.splits)
qed

subsection \<open>Subset setters on blocks without offsets\<close>

lemma sanitize_offsets_two:
  "\<exists>so n. sanitize_offsets cfg [a, b] =
            Some (cfg\<lparr>sorted_offsets := so, num_sorted_offsets := n\<rparr>) \<and> 0 < n"
proof -
  define W where
    "W = words_of_bytes (memcpy_bytes (bytes_of_words (sorted_offsets cfg))
                           (bytes_of_words [a, b]) 2)"
  define S where "S = qsort (take 2 W) @ drop 2 W"
  have u: "[0..<Suc 0] = [0]" by simp
  have step: "sanitize_offsets cfg [a, b] =
      sanitize_loop [0] 2 2 (cfg\<lparr>sorted_offsets := S, num_sorted_offsets := 2\<rparr>)"
    by (simp add: sanitize_offsets_def Let_def GPIO_V2_LINES_MAX_def u S_def W_def
          numeral_2_eq_2)
  show ?thesis
  proof (cases "S ! 0 = S ! 1")
    case True
    then have "sanitize_offsets cfg [a, b] =
        Some (cfg\<lparr>sorted_offsets := S, num_sorted_offsets := 1\<rparr>)"
      by (simp add: step Let_def)
    then show ?thesis by (intro exI [of _ S] exI [of _ 1]) simp
  next
    case False
    then have "sanitize_offsets cfg [a, b] =
        Some (cfg\<lparr>sorted_offsets := S, num_sorted_offsets := 2\<rparr>)"
      by (simp add: step Let_def)
    then show ?thesis by (intro exI [of _ S] exI [of _ 2]) simp
  qed
qed

lemma find_matching_other_count:
  "list_all (\<lambda>s. num_offsets s \<noteq> n) ss \<Longrightarrow> find_matching ss offs n = None"
  by (induction ss) simp_all

lemma unseeded_take:
  "unseeded cfg \<Longrightarrow> 0 < n \<Longrightarrow> list_all (\<lambda>s. num_offsets s \<noteq> n) (take k (secondary cfg))"
  unfolding unseeded_def list_all_iff by (auto dest: in_set_takeD)

text \<open>
  A subset setter called with two offsets on a config none of whose blocks holds
  offsets: no block matches, and a block is allocated while the table has room.
\<close>

lemma get_secondary_config_two:
  assumes "\<not> too_complex cfg" and "unseeded cfg"
  shows "\<exists>so n. get_secondary_config cfg [a, b] =
           Some (if num_secondary cfg = GPIO_V2_LINE_NUM_ATTRS_MAX
                 then (cfg\<lparr>sorted_offsets := so, num_sorted_offsets := n, too_complex := True\<rparr>,
                       None)
                 else (cfg\<lparr>sorted_offsets := so, num_sorted_offsets := n,
                           num_secondary := num_secondary cfg + 1\<rparr>,
                       Some (num_secondary cfg)))"
proof -
  obtain so n where s: "sanitize_offsets cfg [a, b] =
      Some (cfg\<lparr>sorted_offsets := so, num_sorted_offsets := n\<rparr>)" and n: "0 < n"
    using sanitize_offsets_two [of cfg a b] by blast
  have "find_matching_secondary_config (cfg\<lparr>sorted_offsets := so, num_sorted_offsets := n\<rparr>) = None"
    unfolding find_matching_secondary_config_def
    using unseeded_take [OF assms(2) n, of "num_secondary cfg"]
    by (simp add: find_matching_other_count)
  with s assms(1) show ?thesis
    by (intro exI [of _ so] exI [of _ n]) (simp add: get_secondary_config_def)
qed

lemma set_secondary_field_two:
  assumes "\<not> too_complex cfg" and "unseeded cfg"
    and "num_secondary cfg < GPIO_V2_LINE_NUM_ATTRS_MAX"
  shows "\<exists>so n. set_secondary_field cfg [a, b] upd =
           Some (cfg\<lparr>sorted_offsets := so, num_sorted_offsets := n,
                     num_secondary := num_secondary cfg + 1,
                     secondary := (secondary cfg)[num_secondary cfg :=
                        (secondary cfg ! num_secondary cfg)
                          \<lparr>config := upd (config (secondary cfg ! num_secondary cfg))\<rparr>]\<rparr>)"
proof -
  obtain so n where g: "get_secondary_config cfg [a, b] =
      Some (cfg\<lparr>sorted_offsets := so, num_sorted_offsets := n,
                num_secondary := num_secondary cfg + 1\<rparr>, Some (num_secondary cfg))"
    using get_secondary_config_two [OF assms(1,2), of a b] assms(3) by auto
  show ?thesis
    by (intro exI [of _ so] exI [of _ n]) (simp add: set_secondary_field_def g)
qed

lemma set_secondary_field_two_full:
  assumes "\<not> too_complex cfg" and "unseeded cfg"
    and "num_secondary cfg = GPIO_V2_LINE_NUM_ATTRS_MAX"
  shows "\<exists>so n. set_secondary_field cfg [a, b] upd =
           Some (cfg\<lparr>sorted_offsets := so, num_sorted_offsets := n, too_complex := True\<rparr>)"
proof -
  obtain so n where g: "get_secondary_config cfg [a, b] =
      Some (cfg\<lparr>sorted_offsets := so, num_sorted_offsets := n, too_complex := True\<rparr>, None)"
    using get_secondary_config_two [OF assms(1,2), of a b] assms(3) by auto
  show ?thesis
    by (intro exI [of _ so] exI [of _ n]) (simp add: set_secondary_field_def g)
qed

lemmas subset_setter_defs =
  gpiod_line_config_set_direction_subset_def gpiod_line_config_set_direction_offset_def
  gpiod_line_config_set_edge_detection_subset_def gpiod_line_config_set_edge_detection_offset_def
  gpiod_line_config_set_bias_subset_def gpiod_line_config_set_bias_offset_def
  gpiod_line_config_set_drive_subset_def gpiod_line_config_set_drive_offset_def
  gpiod_line_config_set_active_low_subset_def gpiod_line_config_set_active_low_offset_def
  gpiod_line_config_set_active_high_subset_def gpiod_line_config_set_active_high_offset_def
  gpiod_line_config_set_debounce_period_subset_def
  gpiod_line_config_set_debounce_period_offset_def
  gpiod_line_config_set_event_clock_subset_def gpiod_line_config_set_event_clock_offset_def

lemmas global_setter_defs =
  gpiod_line_config_set_direction_def gpiod_line_config_set_edge_detection_def
  gpiod_line_config_set_bias_def gpiod_line_config_set_drive_def
  gpiod_line_config_set_active_low_def gpiod_line_config_set_active_high_def
  gpiod_line_config_set_debounce_period_def gpiod_line_config_set_event_clock_def

subsection \<open>What the normalisation leaves alone\<close>

lemma sanitize_loop_frame:
  "sanitize_loop idxs count n cfg = Some cfg' \<Longrightarrow>
     \<exists>so m. cfg' = cfg\<lparr>sorted_offsets := so, num_sorted_offsets := m\<rparr> \<and>
            num_sorted_offsets cfg - length idxs \<le> m"
proof (induction idxs arbitrary: cfg)
  case Nil
  then have "cfg' = cfg\<lparr>sorted_offsets := sorted_offsets cfg,
                         num_sorted_offsets := num_sorted_offsets cfg\<rparr>"
    by simp
  then show ?case by (intro exI [of _ "sorted_offsets cfg"] exI [of _ "num_sorted_offsets cfg"]) simp
next
  case (Cons i idxs)
  from Cons.prems obtain cfg1 where
    r: "sanitize_loop idxs count n cfg1 = Some cfg'" and
    c: "\<exists>so m. cfg1 = cfg\<lparr>sorted_offsets := so, num_sorted_offsets := m\<rparr> \<and>
               num_sorted_offsets cfg - 1 \<le> m"
  proof (cases "sorted_offsets cfg ! i = sorted_offsets cfg ! (i + 1)")
    case False
    with Cons.prems have "sanitize_loop idxs count n cfg = Some cfg'" by (simp add: Let_def)
    moreover have "\<exists>so m. cfg = cfg\<lparr>sorted_offsets := so, num_sorted_offsets := m\<rparr> \<and>
               num_sorted_offsets cfg - 1 \<le> m"
      by (intro exI [of _ "sorted_offsets cfg"] exI [of _ "num_sorted_offsets cfg"]) simp
    ultimately show ?thesis using that by blast
  next
    case True
    show ?thesis
    proof (cases "i < count - 2")
      case False
      with True Cons.prems have
        "sanitize_loop idxs count n (cfg\<lparr>num_sorted_offsets := num_sorted_offsets cfg - 1\<rparr>) =
           Some cfg'"
        by (simp add: Let_def)
      moreover have "\<exists>so m. cfg\<lparr>num_sorted_offsets := num_sorted_offsets cfg - 1\<rparr> =
            cfg\<lparr>sorted_offsets := so, num_sorted_offsets := m\<rparr> \<and>
            num_sorted_offsets cfg - 1 \<le> m"
        by (intro exI [of _ "sorted_offsets cfg"] exI [of _ "num_sorted_offsets cfg - 1"]) simp
      ultimately show ?thesis using that by blast
    next
      case lt: True
      with True Cons.prems obtain m where
        "sanitize_loop idxs count n
           (cfg\<lparr>sorted_offsets := words_of_bytes m,
                 num_sorted_offsets := num_sorted_offsets cfg - 1\<rparr>) = Some cfg'"
        by (auto simp: Let_def split: option.splits)
      moreover have "\<exists>so k. cfg\<lparr>sorted_offsets := words_of_bytes m,
                 num_sorted_offsets := num_sorted_offsets cfg - 1\<rparr> =
            cfg\<lparr>sorted_offsets := so, num_sorted_offsets := k\<rparr> \<and>
            num_sorted_offsets cfg - 1 \<le> k"
        by (intro exI [of _ "words_of_bytes m"] exI [of _ "num_sorted_offsets cfg - 1"]) simp
      ultimately show ?thesis using that by blast
    qed
  qed
  from c obtain so1 m1 where
    c1: "cfg1 = cfg\<lparr>sorted_offsets := so1, num_sorted_offsets := m1\<rparr>" and
    m1: "num_sorted_offsets cfg - 1 \<le> m1"
    by blast
  from Cons.IH [OF r] obtain so m where
    c2: "cfg' = cfg1\<lparr>sorted_offsets := so, num_sorted_offsets := m\<rparr>" and
    m2: "num_sorted_offsets cfg1 - length idxs \<le> m"
    by blast
  from c1 c2 have "cfg' = cfg\<lparr>sorted_offsets := so, num_sorted_offsets := m\<rparr>" by simp
  moreover from c1 m1 m2 have "num_sorted_offsets cfg - length (i # idxs) \<le> m" by simp
  ultimately show ?case by blast
qed

lemma sanitize_offsets_frame:
  assumes "sanitize_offsets cfg offs = Some cfg'"
  shows "\<exists>so m. cfg' = cfg\<lparr>sorted_offsets := so, num_sorted_offsets := m\<rparr> \<and>
                (2 \<le> length offs \<longrightarrow> 0 < m)"
proof (cases "2 \<le> length offs")
  case False
  then have "length offs = 0 \<or> length offs = 1" by arith
  with assms have "cfg' = cfg" by (auto simp: sanitize_offsets_def)
  then have "cfg' = cfg\<lparr>sorted_offsets := sorted_offsets cfg,
                         num_sorted_offsets := num_sorted_offsets cfg\<rparr>" by simp
  with False show ?thesis by blast
next
  case True
  define count where
    "count = (if length offs > GPIO_V2_LINES_MAX then GPIO_V2_LINES_MAX else length offs)"
  have cnt: "2 \<le> count" "count \<le> length offs"
    using True by (simp_all add: count_def GPIO_V2_LINES_MAX_def)
  define S where
    "S = qsort (take count (words_of_bytes (memcpy_bytes (bytes_of_words (sorted_offsets cfg))
                                              (bytes_of_words offs) count))) @
         drop count (words_of_bytes (memcpy_bytes (bytes_of_words (sorted_offsets cfg))
                                       (bytes_of_words offs) count))"
  have "sanitize_offsets cfg offs =
          sanitize_loop [0..<count - 1] count (length offs)
            (cfg\<lparr>num_sorted_offsets := length offs, sorted_offsets := S\<rparr>)"
    unfolding sanitize_offsets_def Let_def count_def S_def using True by auto
  with assms have
    l: "sanitize_loop [0..<count - 1] count (length offs)
          (cfg\<lparr>num_sorted_offsets := length offs, sorted_offsets := S\<rparr>) = Some cfg'"
    by simp
  from sanitize_loop_frame [OF l] obtain so m where
    c: "cfg' = cfg\<lparr>num_sorted_offsets := length offs, sorted_offsets := S\<rparr>
                  \<lparr>sorted_offsets := so, num_sorted_offsets := m\<rparr>" and
    m: "length offs - (count - 1) \<le> m"
    by auto
  from c have "cfg' = cfg\<lparr>sorted_offsets := so, num_sorted_offsets := m\<rparr>" by simp
  moreover from m cnt have "0 < m" by arith
  ultimately show ?thesis by blast
qed

text \<open>
  On a config none of whose blocks holds offsets, a subset setter called with two or
  more offsets finds no matching block: it allocates one, or sets \<open>too_complex\<close> when
  the table is full.
\<close>

lemma get_secondary_config_unseeded:
  assumes "\<not> too_complex cfg" and "unseeded cfg" and "2 \<le> length offs"
    and "get_secondary_config cfg offs = Some (cfg', r)"
  shows "\<exists>so m. (cfg', r) =
           (if num_secondary cfg = GPIO_V2_LINE_NUM_ATTRS_MAX
            then (cfg\<lparr>sorted_offsets := so, num_sorted_offsets := m, too_complex := True\<rparr>,
                  None)
            else (cfg\<lparr>sorted_offsets := so, num_sorted_offsets := m,
                      num_secondary := num_secondary cfg + 1\<rparr>,
                  Some (num_secondary cfg)))"
proof -
  from assms(1,4) obtain cfg1 where s: "sanitize_offsets cfg offs = Some cfg1"
    by (auto simp: get_secondary_config_def split: option.splits)
  from sanitize_offsets_frame [OF s] assms(3) obtain so m where
    c: "cfg1 = cfg\<lparr>sorted_offsets := so, num_sorted_offsets := m\<rparr>" and m: "0 < m"
    by blast
  have f: "find_matching_secondary_config (cfg\<lparr>sorted_offsets := so, num_sorted_offsets := m\<rparr>) = None"
    unfolding find_matching_secondary_config_def
    using unseeded_take [OF assms(2) m, of "num_secondary cfg"]
    by (simp add: find_matching_other_count)
  from assms(1,4) s c f show ?thesis
    by (intro exI [of _ so] exI [of _ m]) (auto simp: get_secondary_config_def)
qed

subsection \<open>No setter stores offsets into a block\<close>

lemma get_secondary_config_secondary:
  "get_secondary_config cfg offs = Some (cfg', r) \<Longrightarrow> secondary cfg' = secondary cfg"
proof -
  assume g: "get_secondary_config cfg offs = Some (cfg', r)"
  show ?thesis
  proof (cases "too_complex cfg")
    case True
    with g show ?thesis by (simp add: get_secondary_config_def)
  next
    case False
    with g obtain cfg1 where s: "sanitize_offsets cfg offs = Some cfg1"
      by (auto simp: get_secondary_config_def split: option.splits)
    from sanitize_offsets_frame [OF s] have "secondary cfg1 = secondary cfg" by auto
    with g False s show ?thesis
      by (auto simp: get_secondary_config_def split: option.splits if_splits)
  qed
qed

lemma list_all_update_config:
  assumes "list_all (\<lambda>s. num_offsets s = 0) ss"
  shows "list_all (\<lambda>s. num_offsets s = 0) (ss[i := (ss ! i)\<lparr>config := b\<rparr>])"
proof (cases "i < length ss")
  case True
  with assms show ?thesis by (auto simp: list_all_length nth_list_update)
next
  case False
  then have "ss[i := (ss ! i)\<lparr>config := b\<rparr>] = ss" by (simp add: list_update_beyond)
  with assms show ?thesis by simp
qed

lemma set_secondary_field_unseeded:
  assumes "unseeded cfg" and "set_secondary_field cfg offs upd = Some cfg'"
  shows "unseeded cfg'"
proof -
  from assms(2) obtain cfg1 r where g: "get_secondary_config cfg offs = Some (cfg1, r)"
    by (auto simp: set_secondary_field_def split: option.splits)
  have s: "secondary cfg1 = secondary cfg" by (rule get_secondary_config_secondary [OF g])
  show ?thesis
  proof (cases r)
    case None
    with assms g s show ?thesis by (simp add: set_secondary_field_def unseeded_def)
  next
    case (Some i)
    have "list_all (\<lambda>s. num_offsets s = 0)
            ((secondary cfg)[i := (secondary cfg ! i)\<lparr>config := upd (config (secondary cfg ! i))\<rparr>])"
      using assms(1) unfolding unseeded_def by (rule list_all_update_config)
    with assms(2) g s Some show ?thesis by (auto simp: set_secondary_field_def unseeded_def)
  qed
qed

lemma set_output_value_secondary:
  "secondary (set_output_value cfg idx off v inc) = secondary cfg"
  by (simp add: set_output_value_def Let_def)

lemma set_output_values_loop_secondary:
  "secondary (set_output_values_loop cfg ps) = secondary cfg"
  by (induction cfg ps rule: set_output_values_loop.induct)
     (auto simp: set_output_value_secondary split: option.splits)

lemma set_output_values_secondary:
  "secondary (gpiod_line_config_set_output_values cfg offs vs) = secondary cfg"
  by (simp add: gpiod_line_config_set_output_values_def set_output_values_loop_secondary)

lemma set_output_value_call_secondary:
  "secondary (gpiod_line_config_set_output_value cfg off v) = secondary cfg"
  by (simp only: gpiod_line_config_set_output_value_def set_output_values_secondary)

lemma run_setter_unseeded:
  assumes "unseeded cfg" and "run_setter call cfg = Some cfg'"
  shows "unseeded cfg'"
proof (cases "is_global_setter call")
  case True
  with assms(2) have "secondary cfg' = secondary cfg"
    by (cases call) (auto simp: global_setter_defs)
  with assms(1) show ?thesis by (simp add: unseeded_def)
next
  case False
  show ?thesis
  proof (cases "\<exists>off v. call = Set_output_value off v \<or> (\<exists>offs vs. call = Set_output_values offs vs)")
    case True
    with assms(2) have "secondary cfg' = secondary cfg"
      by (auto simp: set_output_values_secondary set_output_value_call_secondary)
    with assms(1) show ?thesis by (simp add: unseeded_def)
  next
    case nout: False
    with False assms(2) obtain offs upd where "set_secondary_field cfg offs upd = Some cfg'"
      by (cases call) (auto simp: subset_setter_defs)
    with assms(1) show ?thesis by (rule set_secondary_field_unseeded)
  qed
qed

lemma run_setters_unseeded:
  "unseeded cfg \<Longrightarrow> run_setters calls cfg = Some cfg' \<Longrightarrow> unseeded cfg'"
proof (induction calls arbitrary: cfg)
  case Nil
  then show ?case by simp
next
  case (Cons c cs)
  from Cons.prems(2) obtain cfg1 where
    a: "run_setter c cfg = Some cfg1" and b: "run_setters cs cfg1 = Some cfg'"
    by (auto split: option.splits)
  from Cons.prems(1) a have "unseeded cfg1" by (rule run_setter_unseeded)
  from this b show ?case by (rule Cons.IH)
qed

lemma new_config_unseeded: "unseeded new_config"
  by (simp add: unseeded_def new_config_def zero_secondary_config_def list_all_iff)

subsection \<open>Sequences of subset calls with two offsets\<close>

lemma set_secondary_field_two_props:
  assumes "\<not> too_complex cfg" and "unseeded cfg"
    and "num_secondary cfg < GPIO_V2_LINE_NUM_ATTRS_MAX"
  shows "\<exists>cfg'. set_secondary_field cfg [a, b] upd = Some cfg' \<and> \<not> too_complex cfg' \<and>
           unseeded cfg' \<and> num_secondary cfg' = num_secondary cfg + 1 \<and>
           primary cfg' = primary cfg \<and> output_values cfg' = output_values cfg \<and>
           num_output_values cfg' = num_output_values cfg"
proof -
  from set_secondary_field_two [OF assms, of a b upd] obtain cfg' where
    s: "set_secondary_field cfg [a, b] upd = Some cfg'" and
    p: "\<not> too_complex cfg'" "num_secondary cfg' = num_secondary cfg + 1"
       "primary cfg' = primary cfg" "output_values cfg' = output_values cfg"
       "num_output_values cfg' = num_output_values cfg"
    using assms(1) by auto
  from assms(2) s have "unseeded cfg'" by (rule set_secondary_field_unseeded)
  with s p show ?thesis by blast
qed

lemma run_setters_append:
  "run_setters (xs @ ys) cfg =
     (case run_setters xs cfg of None \<Rightarrow> None | Some cfg1 \<Rightarrow> run_setters ys cfg1)"
  by (induction xs arbitrary: cfg) (simp_all split: option.splits)

lemma replicate_subset_calls:
  "\<not> too_complex cfg \<Longrightarrow> unseeded cfg \<Longrightarrow>
   num_secondary cfg + k \<le> GPIO_V2_LINE_NUM_ATTRS_MAX \<Longrightarrow>
   \<exists>cfg'. run_setters (replicate k (Set_direction_subset d [a, b])) cfg = Some cfg' \<and>
          \<not> too_complex cfg' \<and> unseeded cfg' \<and>
          num_secondary cfg' = num_secondary cfg + k \<and>
          primary cfg' = primary cfg \<and> output_values cfg' = output_values cfg \<and>
          num_output_values cfg' = num_output_values cfg"
proof (induction k arbitrary: cfg)
  case 0
  then show ?case by simp
next
  case (Suc k)
  from Suc.prems have lt: "num_secondary cfg < GPIO_V2_LINE_NUM_ATTRS_MAX" by simp
  from set_secondary_field_two_props [OF Suc.prems(1,2) lt, of a b "\<lambda>b. b\<lparr>direction := d\<rparr>"]
  obtain cfg1 where
    s: "run_setter (Set_direction_subset d [a, b]) cfg = Some cfg1" and
    p: "\<not> too_complex cfg1" "unseeded cfg1" "num_secondary cfg1 = num_secondary cfg + 1"
       "primary cfg1 = primary cfg" "output_values cfg1 = output_values cfg"
       "num_output_values cfg1 = num_output_values cfg"
    by (auto simp: gpiod_line_config_set_direction_subset_def)
  from p(3) Suc.prems(3) have "num_secondary cfg1 + k \<le> GPIO_V2_LINE_NUM_ATTRS_MAX" by simp
  from Suc.IH [OF p(1,2) this] obtain cfg' where
    r: "run_setters (replicate k (Set_direction_subset d [a, b])) cfg1 = Some cfg'" and
    q: "\<not> too_complex cfg'" "unseeded cfg'" "num_secondary cfg' = num_secondary cfg1 + k"
       "primary cfg' = primary cfg1" "output_values cfg' = output_values cfg1"
       "num_output_values cfg' = num_output_values cfg1"
    by blast
  from s r have "run_setters (replicate (Suc k) (Set_direction_subset d [a, b])) cfg = Some cfg'"
    by simp
  with p q show ?case by simp
qed

lemma new_config_props:
  "\<not> too_complex new_config" "num_secondary new_config = 0"
  "num_output_values new_config = 0" "primary new_config = zero_base_config"
  "output_values new_config = replicate GPIO_V2_LINES_MAX \<lparr>offset = 0, val = 0\<rparr>"
  by (simp_all add: new_config_def)

lemma overflowed_config_props:
  "too_complex overflowed_config \<and> primary overflowed_config = zero_base_config"
proof -
  have k: "num_secondary new_config + 10 \<le> GPIO_V2_LINE_NUM_ATTRS_MAX"
    by (simp add: new_config_props GPIO_V2_LINE_NUM_ATTRS_MAX_def)
  from replicate_subset_calls [OF new_config_props(1) new_config_unseeded k,
         of GPIOD_LINE_CONFIG_DIRECTION_INPUT 3 5]
  obtain c10 where
    r: "run_setters (replicate 10 (Set_direction_subset GPIOD_LINE_CONFIG_DIRECTION_INPUT [3, 5]))
          new_config = Some c10" and
    p: "\<not> too_complex c10" "unseeded c10" "num_secondary c10 = num_secondary new_config + 10"
       "primary c10 = primary new_config"
    by blast
  from p(3) have full: "num_secondary c10 = GPIO_V2_LINE_NUM_ATTRS_MAX"
    by (simp add: new_config_props GPIO_V2_LINE_NUM_ATTRS_MAX_def)
  from set_secondary_field_two_full [OF p(1,2) full, of 3 5
         "\<lambda>b. b\<lparr>direction := GPIOD_LINE_CONFIG_DIRECTION_INPUT\<rparr>"]
  obtain c11 where
    s: "run_setter (Set_direction_subset GPIOD_LINE_CONFIG_DIRECTION_INPUT [3, 5]) c10 = Some c11"
    and q: "too_complex c11" "primary c11 = primary c10"
    by (auto simp: gpiod_line_config_set_direction_subset_def)
  define A where
    "A = replicate 10 (Set_direction_subset GPIOD_LINE_CONFIG_DIRECTION_INPUT [3, 5])"
  have oc: "overflow_calls = A @ [Set_direction_subset GPIOD_LINE_CONFIG_DIRECTION_INPUT [3, 5]]"
    unfolding overflow_calls_def A_def by (simp add: numeral_eq_Suc replicate_append_same)
  from r have "run_setters A new_config = Some c10" by (simp only: A_def)
  with s have "run_setters overflow_calls new_config = Some c11"
    unfolding oc by (simp add: run_setters_append)
  then have e: "overflowed_config = c11" by (simp add: overflowed_config_def)
  from q p(4) have "too_complex c11 \<and> primary c11 = zero_base_config"
    by (simp add: new_config_props)
  then show ?thesis unfolding e .
qed

lemma slot_overflow_config_props:
  "\<not> too_complex slot_overflow_config \<and> num_secondary slot_overflow_config = 10 \<and>
   num_output_values slot_overflow_config = 1 \<and>
   debounce_period (primary slot_overflow_config) = 0 \<and>
   take 1 (output_values slot_overflow_config) = [\<lparr>offset = 9, val = 1\<rparr>]"
proof -
  have k: "num_secondary new_config + 10 \<le> GPIO_V2_LINE_NUM_ATTRS_MAX"
    by (simp add: new_config_props GPIO_V2_LINE_NUM_ATTRS_MAX_def)
  from replicate_subset_calls [OF new_config_props(1) new_config_unseeded k,
         of GPIOD_LINE_CONFIG_DIRECTION_INPUT 3 5]
  obtain c10 where
    r: "run_setters (replicate 10 (Set_direction_subset GPIOD_LINE_CONFIG_DIRECTION_INPUT [3, 5]))
          new_config = Some c10" and
    p: "\<not> too_complex c10" "num_secondary c10 = num_secondary new_config + 10"
       "primary c10 = primary new_config" "output_values c10 = output_values new_config"
       "num_output_values c10 = num_output_values new_config"
    by blast
  define c11 where "c11 = gpiod_line_config_set_output_value c10 9 1"
  have c11: "c11 = c10\<lparr>output_values := (output_values c10)[0 := \<lparr>offset = 9, val = 1\<rparr>],
                       num_output_values := 1\<rparr>"
    using p(1,5)
    by (simp add: c11_def gpiod_line_config_set_output_value_def
          gpiod_line_config_set_output_values_def output_value_find_offset_def
          set_output_value_def new_config_props GPIO_V2_LINES_MAX_def)
  define A where
    "A = replicate 10 (Set_direction_subset GPIOD_LINE_CONFIG_DIRECTION_INPUT [3, 5])"
  from r have "run_setters A new_config = Some c10" by (simp only: A_def)
  then have "run_setters (A @ [Set_output_value 9 1]) new_config = Some c11"
    by (simp add: run_setters_append c11_def)
  then have "run_setters slot_overflow_calls new_config = Some c11"
    by (simp only: slot_overflow_calls_def A_def)
  then have e: "slot_overflow_config = c11" by (simp add: slot_overflow_config_def)
  have "\<not> too_complex c11 \<and> num_secondary c11 = 10 \<and> num_output_values c11 = 1 \<and>
        debounce_period (primary c11) = 0 \<and>
        take 1 (output_values c11) = [\<lparr>offset = 9, val = 1\<rparr>]"
    unfolding c11 using p
    by (simp add: new_config_props zero_base_config_def GPIO_V2_LINES_MAX_def numeral_eq_Suc)
  then show ?thesis unfolding e .
qed

subsection \<open>Compilation and the config object\<close>

text \<open>
  C6, as the code has it. Compilation leaves the primary block, the secondary blocks
  and the output values of the config as they were; it leaves \<open>too_complex\<close> as it
  was unless it fails with \<open>E2BIG\<close>, and then it sets the flag. Its return value is
  the same whatever kernel structure it is given to fill: it depends on the config and
  the offset list only. A \<open>NULL\<close> config stays \<open>NULL\<close>.
\<close>

theorem to_kernel_leaves_config:
  "snd (snd (gpiod_line_config_to_kernel (Some cfg) cfgbuf offs)) =
     Some (if fst (gpiod_line_config_to_kernel (Some cfg) cfgbuf offs) = Inl E2BIG
           then cfg\<lparr>too_complex := True\<rparr> else cfg) \<and>
   fst (gpiod_line_config_to_kernel (Some cfg) cfgbuf offs) =
     fst (gpiod_line_config_to_kernel (Some cfg) cfgbuf' offs) \<and>
   snd (snd (gpiod_line_config_to_kernel None cfgbuf offs)) = None"
  using to_kernel_config_after [of cfg cfgbuf offs]
    to_kernel_return_indep [of cfg cfgbuf offs cfgbuf']
  by (simp add: gpiod_line_config_to_kernel_def)

text \<open>
  The claim C6 as stated fails: a config that holds output values for the offsets 1
  and 2 and has \<open>too_complex\<close> unset, compiled for the single line 1, comes back with
  \<open>too_complex\<close> set.
\<close>

theorem to_kernel_sets_too_complex:
  "\<not> too_complex two_values_config \<and>
   gpiod_line_config_to_kernel (Some two_values_config) zero_cfgbuf [1] =
     (Inl E2BIG, zero_cfgbuf, Some (two_values_config\<lparr>too_complex := True\<rparr>))"
  by code_simp

subsection \<open>Setters on a config that is too complex\<close>

lemma get_secondary_config_too_complex:
  "too_complex cfg \<Longrightarrow> get_secondary_config cfg offs = Some (cfg, None)"
  by (simp add: get_secondary_config_def)

lemma set_secondary_field_too_complex:
  "too_complex cfg \<Longrightarrow> set_secondary_field cfg offs upd = Some cfg"
  by (simp add: set_secondary_field_def get_secondary_config_too_complex)

lemma run_setter_too_complex:
  assumes "too_complex cfg"
  shows "if is_global_setter call
         then \<exists>p. run_setter call cfg = Some (cfg\<lparr>primary := p\<rparr>)
         else run_setter call cfg = Some cfg"
  using assms
  by (cases call)
     (simp_all add: subset_setter_defs global_setter_defs set_secondary_field_too_complex
        gpiod_line_config_set_output_value_def gpiod_line_config_set_output_values_def, blast+)

text \<open>
  C7, as the code has it. Once \<open>too_complex\<close> is set, every subset setter, every
  single-offset setter and both output-value setters leave the whole config as it is.
  Each global setter still stores its option into the primary block, and leaves
  everything else, the flag included, as it is.
\<close>

theorem setters_when_too_complex:
  "too_complex cfg \<Longrightarrow>
     (if is_global_setter call
      then \<exists>p. run_setter call cfg = Some (cfg\<lparr>primary := p\<rparr>)
      else run_setter call cfg = Some cfg) \<and>
     run_setter (Set_direction d) cfg =
       Some (cfg\<lparr>primary := (primary cfg)\<lparr>direction := d\<rparr>\<rparr>) \<and>
     run_setter (Set_edge_detection e) cfg =
       Some (cfg\<lparr>primary := (primary cfg)\<lparr>edge := e\<rparr>\<rparr>) \<and>
     run_setter (Set_bias b) cfg =
       Some (cfg\<lparr>primary := (primary cfg)\<lparr>bias := b\<rparr>\<rparr>) \<and>
     run_setter (Set_drive dr) cfg =
       Some (cfg\<lparr>primary := (primary cfg)\<lparr>drive := dr\<rparr>\<rparr>) \<and>
     run_setter Set_active_low cfg =
       Some (cfg\<lparr>primary := (primary cfg)\<lparr>active_low := True\<rparr>\<rparr>) \<and>
     run_setter Set_active_high cfg =
       Some (cfg\<lparr>primary := (primary cfg)\<lparr>active_low := False\<rparr>\<rparr>) \<and>
     run_setter (Set_debounce_period p) cfg =
       Some (cfg\<lparr>primary := (primary cfg)\<lparr>debounce_period := p\<rparr>\<rparr>) \<and>
     run_setter (Set_event_clock c) cfg =
       Some (cfg\<lparr>primary := (primary cfg)\<lparr>clock := c\<rparr>\<rparr>)"
  using run_setter_too_complex [of cfg call] by (simp add: global_setter_defs)

theorem setters_when_too_complex_witness:
  "too_complex overflowed_config \<and>
   run_setter (Set_bias_subset GPIOD_LINE_CONFIG_BIAS_PULL_UP [3, 5]) overflowed_config =
     Some overflowed_config \<and>
   run_setter (Set_output_value 4 1) overflowed_config = Some overflowed_config \<and>
   run_setter (Set_bias GPIOD_LINE_CONFIG_BIAS_PULL_UP) overflowed_config =
     Some (overflowed_config
             \<lparr>primary := (primary overflowed_config)\<lparr>bias := GPIOD_LINE_CONFIG_BIAS_PULL_UP\<rparr>\<rparr>) \<and>
   bias (primary overflowed_config) \<noteq> GPIOD_LINE_CONFIG_BIAS_PULL_UP"
proof -
  note t = overflowed_config_props [THEN conjunct1]
  have 1: "run_setter (Set_bias_subset GPIOD_LINE_CONFIG_BIAS_PULL_UP [3, 5]) overflowed_config =
     Some overflowed_config"
    using setters_when_too_complex
            [OF t, of "Set_bias_subset GPIOD_LINE_CONFIG_BIAS_PULL_UP [3, 5]"]
    by simp
  have 2: "run_setter (Set_output_value 4 1) overflowed_config = Some overflowed_config"
    using setters_when_too_complex [OF t, of "Set_output_value 4 1"] by simp
  have 3: "run_setter (Set_bias GPIOD_LINE_CONFIG_BIAS_PULL_UP) overflowed_config =
     Some (overflowed_config
             \<lparr>primary := (primary overflowed_config)\<lparr>bias := GPIOD_LINE_CONFIG_BIAS_PULL_UP\<rparr>\<rparr>)"
    using setters_when_too_complex
            [OF t, of Set_active_low _ _ GPIOD_LINE_CONFIG_BIAS_PULL_UP]
    by blast
  have 4: "bias (primary overflowed_config) \<noteq> GPIOD_LINE_CONFIG_BIAS_PULL_UP"
    using overflowed_config_props
    by (simp add: zero_base_config_def GPIOD_LINE_CONFIG_BIAS_PULL_UP_def)
  from t 1 2 3 4 show ?thesis by (intro conjI)
qed

text \<open>
  The claim C7 as stated fails: on the config left by eleven subset calls, which has
  \<open>too_complex\<close> set, the global direction setter still changes the primary block.
\<close>

theorem global_setter_changes_too_complex_config:
  "too_complex overflowed_config \<and>
   direction (primary overflowed_config) = 0 \<and>
   direction (primary (gpiod_line_config_set_direction overflowed_config
                         GPIOD_LINE_CONFIG_DIRECTION_OUTPUT)) = 3 \<and>
   gpiod_line_config_set_direction overflowed_config GPIOD_LINE_CONFIG_DIRECTION_OUTPUT
     \<noteq> overflowed_config"
proof -
  have a: "direction (primary overflowed_config) = 0"
    using overflowed_config_props by (simp add: zero_base_config_def)
  have b: "direction (primary (gpiod_line_config_set_direction overflowed_config
          GPIOD_LINE_CONFIG_DIRECTION_OUTPUT)) = 3"
    by (simp add: gpiod_line_config_set_direction_def GPIOD_LINE_CONFIG_DIRECTION_OUTPUT_def)
  from a b have
    "gpiod_line_config_set_direction overflowed_config GPIOD_LINE_CONFIG_DIRECTION_OUTPUT
       \<noteq> overflowed_config"
    by force
  with a b overflowed_config_props show ?thesis by simp
qed

subsection \<open>Looking up requested offsets\<close>

lemma find_bitmap_index_None: "find_bitmap_index x offs = None \<longleftrightarrow> x \<notin> set offs"
  by (induction offs) auto

lemma find_bitmap_index_Some:
  "find_bitmap_index x offs = Some k \<Longrightarrow>
     k < length offs \<and> offs ! k = x \<and> (\<forall>j<k. offs ! j \<noteq> x)"
proof (induction offs arbitrary: k)
  case Nil
  then show ?case by simp
next
  case (Cons h hs)
  show ?case
  proof (cases "x = h")
    case True
    with Cons.prems show ?thesis by simp
  next
    case False
    with Cons.prems obtain k' where k: "k = Suc k'" and f: "find_bitmap_index x hs = Some k'"
      by auto
    from Cons.IH [OF f] False k show ?thesis by (auto simp: less_Suc_eq_0_disj)
  qed
qed

lemma output_values_loop_ok:
  "\<forall>v\<in>set vs. offset v \<in> set offs \<Longrightarrow> \<exists>r. output_values_loop vs offs acc = Inr r"
proof (induction vs arbitrary: acc)
  case Nil
  show ?case by (cases acc) simp
next
  case (Cons v vs)
  obtain m vals where acc: "acc = (m, vals)" by (cases acc)
  from Cons.prems obtain idx where i: "find_bitmap_index (offset v) offs = Some idx"
    using find_bitmap_index_None [of "offset v" offs] by auto
  from Cons.prems have "\<forall>v\<in>set vs. offset v \<in> set offs" by simp
  from Cons.IH [OF this] show ?case by (simp add: acc i)
qed

lemma output_values_loop_einval:
  "\<exists>v\<in>set vs. offset v \<notin> set offs \<Longrightarrow> output_values_loop vs offs acc = Inl EINVAL"
proof (induction vs arbitrary: acc)
  case Nil
  then show ?case by simp
next
  case (Cons v vs)
  obtain m vals where acc: "acc = (m, vals)" by (cases acc)
  show ?case
  proof (cases "find_bitmap_index (offset v) offs")
    case None
    then show ?thesis by (simp add: acc)
  next
    case (Some idx)
    then have "offset v \<in> set offs" using find_bitmap_index_None [of "offset v" offs] by auto
    with Cons.prems have "\<exists>v\<in>set vs. offset v \<notin> set offs" by auto
    from Cons.IH [OF this] Some show ?thesis by (simp add: acc)
  qed
qed

lemma secondary_mask_loop_ok:
  "set os \<subseteq> set offs \<Longrightarrow> \<exists>r. secondary_mask_loop os offs m = Inr r"
proof (induction os arbitrary: m)
  case Nil
  show ?case by simp
next
  case (Cons x os)
  from Cons.prems obtain idx where i: "find_bitmap_index x offs = Some idx"
    using find_bitmap_index_None [of x offs] by auto
  from Cons.prems have "set os \<subseteq> set offs" by simp
  from Cons.IH [OF this] show ?case by (simp add: i)
qed

subsection \<open>Attribute indices\<close>

lemma output_values_attr_idx:
  "fst (output_values_attr cfg buf offs i) = Inr n \<Longrightarrow>
     n = i + (if num_output_values cfg \<noteq> 0 then 1 else 0)"
  by (auto simp: output_values_attr_def Let_def split: if_splits sum.splits prod.splits)

lemma output_values_attr_goto:
  "fst (output_values_attr cfg buf offs i) = Inl Goto_err_2big \<longleftrightarrow>
     num_output_values cfg > length offs"
  by (auto simp: output_values_attr_def Let_def split: if_splits sum.splits prod.splits)

lemma primary_debounce_attr_idx:
  "fst (primary_debounce_attr cfg buf i) =
     i + (if debounce_period (primary cfg) \<noteq> 0 then 1 else 0)"
  by (simp add: primary_debounce_attr_def)

lemma secondary_attr_goto:
  "fst (secondary_attr s i offs buf) = Inl Goto_err_2big \<longleftrightarrow>
     i = GPIO_V2_LINE_NUM_ATTRS_MAX \<or> num_offsets s > length offs"
  by (auto simp: secondary_attr_def Let_def split: if_splits sum.splits prod.splits)

lemma secondary_loop_goto:
  "fst (secondary_loop ss i offs buf) = Inl Goto_err_2big \<Longrightarrow>
     i + length ss > GPIO_V2_LINE_NUM_ATTRS_MAX \<or> (\<exists>s\<in>set ss. num_offsets s > length offs)"
proof (induction ss arbitrary: i buf)
  case Nil
  then show ?case by simp
next
  case (Cons s ss)
  obtain r b where a: "secondary_attr s i offs buf = (r, b)" by fastforce
  show ?case
  proof (cases r)
    case (Inl x)
    with a Cons.prems have "fst (secondary_attr s i offs buf) = Inl Goto_err_2big" by simp
    then show ?thesis unfolding secondary_attr_goto by auto
  next
    case (Inr u)
    with a Cons.prems have "fst (secondary_loop ss (i + 1) offs b) = Inl Goto_err_2big" by simp
    from Cons.IH [OF this] show ?thesis by auto
  qed
qed

lemma secondary_loop_idx:
  "fst (secondary_loop ss i offs buf) = Inr n \<Longrightarrow> i \<le> GPIO_V2_LINE_NUM_ATTRS_MAX \<Longrightarrow>
     n = i + length ss \<and> n \<le> GPIO_V2_LINE_NUM_ATTRS_MAX"
proof (induction ss arbitrary: i buf)
  case Nil
  then show ?case by simp
next
  case (Cons s ss)
  obtain r b where a: "secondary_attr s i offs buf = (r, b)" by fastforce
  show ?case
  proof (cases r)
    case (Inl x)
    with a Cons.prems show ?thesis by simp
  next
    case (Inr u)
    with a have "fst (secondary_attr s i offs buf) \<noteq> Inl Goto_err_2big" by simp
    then have "i \<noteq> GPIO_V2_LINE_NUM_ATTRS_MAX" unfolding secondary_attr_goto by simp
    with Cons.prems(2) have le: "i + 1 \<le> GPIO_V2_LINE_NUM_ATTRS_MAX" by simp
    from Inr a Cons.prems(1) have "fst (secondary_loop ss (i + 1) offs b) = Inr n" by simp
    from Cons.IH [OF this le] show ?thesis by simp
  qed
qed

text \<open>A block that cannot fail with \<open>EINVAL\<close>, and a loop over such blocks.\<close>

lemma secondary_attr_no_error:
  assumes "debounce_period (config s) \<noteq> 0 \<or> recognized_options (config s)"
    and "set (block_offsets s) \<subseteq> set offs"
  shows "fst (secondary_attr s i offs buf) \<noteq> Inl (Return_error e)"
proof -
  from assms(2) obtain m where m: "set_secondary_mask s offs = Inr m"
    using secondary_mask_loop_ok [of "block_offsets s" offs gpiod_line_mask_zero]
    by (auto simp: set_secondary_mask_def block_offsets_def)
  show ?thesis
  proof (cases "debounce_period (config s) \<noteq> 0")
    case True
    with m show ?thesis by (simp add: secondary_attr_def)
  next
    case False
    with assms(1) obtain fl where "gpiod_make_kernel_flags (config s) = Inr fl"
      using make_kernel_flags_ok_iff [of "config s"] by blast
    with False m show ?thesis by (simp add: secondary_attr_def Let_def)
  qed
qed

lemma secondary_loop_no_error:
  "\<forall>s\<in>set ss. (debounce_period (config s) \<noteq> 0 \<or> recognized_options (config s)) \<and>
               set (block_offsets s) \<subseteq> set offs \<Longrightarrow>
   fst (secondary_loop ss i offs buf) \<noteq> Inl (Return_error e)"
proof (induction ss arbitrary: i buf)
  case Nil
  show ?case by simp
next
  case (Cons s ss)
  obtain r b where a: "secondary_attr s i offs buf = (r, b)" by fastforce
  from Cons.prems have
    ok: "debounce_period (config s) \<noteq> 0 \<or> recognized_options (config s)"
        "set (block_offsets s) \<subseteq> set offs"
    by simp_all
  show ?case
  proof (cases r)
    case (Inl x)
    with a secondary_attr_no_error [OF ok, of i buf e] show ?thesis by auto
  next
    case (Inr u)
    from Cons.prems have "\<forall>s\<in>set ss. (debounce_period (config s) \<noteq> 0 \<or>
        recognized_options (config s)) \<and> set (block_offsets s) \<subseteq> set offs"
      by simp
    from Cons.IH [OF this, of "i + 1" b] Inr a show ?thesis by simp
  qed
qed

lemma output_values_attr_no_error:
  assumes "\<forall>v\<in>set (stored_output_values cfg). offset v \<in> set offs"
  shows "fst (output_values_attr cfg buf offs i) \<noteq> Inl (Return_error e)"
proof -
  from assms obtain r where "set_kernel_output_values cfg offs = Inr r"
    using output_values_loop_ok
            [of "stored_output_values cfg" offs "(gpiod_line_mask_zero, gpiod_line_mask_zero)"]
    by (auto simp: set_kernel_output_values_def stored_output_values_def)
  then show ?thesis
    by (cases r) (simp add: output_values_attr_def Let_def)
qed

subsection \<open>When compilation fails with E2BIG\<close>

lemma to_kernel_ok_iff:
  "fst (gpiod_line_config_to_kernel (Some cfg) buf offs) = Inr () \<longleftrightarrow>
   fst (to_kernel_body cfg buf offs) = Inr ()"
proof -
  obtain r b where t: "to_kernel_body cfg buf offs = (r, b)" by fastforce
  show ?thesis using t
    by (cases r) (auto simp: gpiod_line_config_to_kernel_def split: early_exit.splits)
qed

lemma to_kernel_body_too_complex:
  "too_complex cfg \<Longrightarrow> fst (to_kernel_body cfg buf offs) = Inl Goto_err_2big"
  by (simp add: to_kernel_body_def)

lemma to_kernel_body_many_values:
  assumes "num_output_values cfg > length offs"
  shows "fst (to_kernel_body cfg buf offs) = Inl Goto_err_2big"
proof (cases "too_complex cfg")
  case True
  then show ?thesis by (rule to_kernel_body_too_complex)
next
  case False
  obtain r b where o: "output_values_attr cfg buf offs 0 = (r, b)" by fastforce
  from assms have "fst (output_values_attr cfg buf offs 0) = Inl Goto_err_2big"
    unfolding output_values_attr_goto .
  with o have "r = Inl Goto_err_2big" by simp
  with o False show ?thesis by (simp add: to_kernel_body_def)
qed

text \<open>
  The body, when \<open>too_complex\<close> is unset and the output-values block goes on: it leaves
  as the loop does, and the loop starts at the index after the two optional attributes.
\<close>

lemma to_kernel_body_loop:
  assumes "\<not> too_complex cfg"
    and "output_values_attr cfg buf offs 0 = (Inr idx1, b1)"
  shows "\<exists>b2 r3 b3.
           secondary_loop (take (num_secondary cfg) (secondary cfg))
             (attr_slots cfg - num_secondary cfg) offs b2 = (r3, b3) \<and>
           fst (to_kernel_body cfg buf offs) =
             (case r3 of
                Inl x \<Rightarrow> Inl x
              | Inr idx3 \<Rightarrow>
                  (case gpiod_make_kernel_flags (primary cfg) of
                     Inl e \<Rightarrow> Inl (Return_error e) | Inr fl \<Rightarrow> Inr ()))"
proof -
  from assms(2) have "fst (output_values_attr cfg buf offs 0) = Inr idx1" by simp
  from output_values_attr_idx [OF this]
  have i1: "idx1 = (if num_output_values cfg \<noteq> 0 then 1 else 0)" by simp
  obtain idx2 b2 where p: "primary_debounce_attr cfg b1 idx1 = (idx2, b2)" by fastforce
  with primary_debounce_attr_idx [of cfg b1 idx1]
  have "idx2 = idx1 + (if debounce_period (primary cfg) \<noteq> 0 then 1 else 0)" by simp
  with i1 have i2: "idx2 = attr_slots cfg - num_secondary cfg" by (simp add: attr_slots_def)
  obtain r3 b3 where
    l: "secondary_loop (take (num_secondary cfg) (secondary cfg)) idx2 offs b2 = (r3, b3)"
    by fastforce
  have c: "fst (to_kernel_body cfg buf offs) =
             (case r3 of
                Inl x \<Rightarrow> Inl x
              | Inr idx3 \<Rightarrow>
                  (case gpiod_make_kernel_flags (primary cfg) of
                     Inl e \<Rightarrow> Inl (Return_error e) | Inr fl \<Rightarrow> Inr ()))"
    using assms p l by (cases r3) (simp_all add: to_kernel_body_def split: sum.splits)
  from l c show ?thesis unfolding i2 by (intro exI conjI)
qed

lemma attr_slots_base: "attr_slots cfg - num_secondary cfg \<le> 2"
  by (simp add: attr_slots_def)

lemma to_kernel_body_goto:
  assumes "fst (to_kernel_body cfg buf offs) = Inl Goto_err_2big"
  shows "too_complex cfg \<or> num_output_values cfg > length offs \<or>
         attr_slots cfg > GPIO_V2_LINE_NUM_ATTRS_MAX \<or>
         (\<exists>s\<in>set (allocated_secondaries cfg). num_offsets s > length offs)"
proof (cases "too_complex cfg")
  case True
  then show ?thesis by simp
next
  case False
  obtain r1 b1 where o: "output_values_attr cfg buf offs 0 = (r1, b1)" by fastforce
  show ?thesis
  proof (cases r1)
    case (Inl x)
    with assms o False have "fst (output_values_attr cfg buf offs 0) = Inl Goto_err_2big"
      by (simp add: to_kernel_body_def)
    then show ?thesis unfolding output_values_attr_goto by simp
  next
    case (Inr idx1)
    with o have o': "output_values_attr cfg buf offs 0 = (Inr idx1, b1)" by simp
    from to_kernel_body_loop [OF False o'] obtain b2 r3 b3 where
      l: "secondary_loop (take (num_secondary cfg) (secondary cfg))
            (attr_slots cfg - num_secondary cfg) offs b2 = (r3, b3)" and
      c: "fst (to_kernel_body cfg buf offs) =
            (case r3 of
               Inl x \<Rightarrow> Inl x
             | Inr idx3 \<Rightarrow>
                 (case gpiod_make_kernel_flags (primary cfg) of
                    Inl e \<Rightarrow> Inl (Return_error e) | Inr fl \<Rightarrow> Inr ()))"
      by auto
    show ?thesis
    proof (cases r3)
      case (Inl x)
      with c l assms have
        "fst (secondary_loop (take (num_secondary cfg) (secondary cfg))
                (attr_slots cfg - num_secondary cfg) offs b2) = Inl Goto_err_2big"
        by simp
      from secondary_loop_goto [OF this]
      have "attr_slots cfg - num_secondary cfg + length (take (num_secondary cfg) (secondary cfg))
              > GPIO_V2_LINE_NUM_ATTRS_MAX \<or>
            (\<exists>s\<in>set (take (num_secondary cfg) (secondary cfg)). num_offsets s > length offs)" .
      moreover have
        "attr_slots cfg - num_secondary cfg + length (take (num_secondary cfg) (secondary cfg))
           \<le> attr_slots cfg"
        by (simp add: attr_slots_def)
      ultimately show ?thesis by (auto simp: allocated_secondaries_def)
    next
      case (Inr idx3)
      with c l assms show ?thesis by (simp split: sum.splits)
    qed
  qed
qed

lemma to_kernel_body_slots:
  assumes "attr_slots cfg > GPIO_V2_LINE_NUM_ATTRS_MAX"
    and "num_secondary cfg \<le> length (secondary cfg)"
  shows "fst (to_kernel_body cfg buf offs) \<noteq> Inr ()"
proof (cases "too_complex cfg")
  case True
  then show ?thesis by (simp add: to_kernel_body_too_complex)
next
  case False
  obtain r1 b1 where o: "output_values_attr cfg buf offs 0 = (r1, b1)" by fastforce
  show ?thesis
  proof (cases r1)
    case (Inl x)
    with o False show ?thesis by (simp add: to_kernel_body_def)
  next
    case (Inr idx1)
    with o have o': "output_values_attr cfg buf offs 0 = (Inr idx1, b1)" by simp
    from to_kernel_body_loop [OF False o'] obtain b2 r3 b3 where
      l: "secondary_loop (take (num_secondary cfg) (secondary cfg))
            (attr_slots cfg - num_secondary cfg) offs b2 = (r3, b3)" and
      c: "fst (to_kernel_body cfg buf offs) =
            (case r3 of
               Inl x \<Rightarrow> Inl x
             | Inr idx3 \<Rightarrow>
                 (case gpiod_make_kernel_flags (primary cfg) of
                    Inl e \<Rightarrow> Inl (Return_error e) | Inr fl \<Rightarrow> Inr ()))"
      by auto
    show ?thesis
    proof (cases r3)
      case (Inl x)
      with c l show ?thesis by simp
    next
      case (Inr idx3)
      with l have
        "fst (secondary_loop (take (num_secondary cfg) (secondary cfg))
                (attr_slots cfg - num_secondary cfg) offs b2) = Inr idx3"
        by simp
      moreover have "attr_slots cfg - num_secondary cfg \<le> GPIO_V2_LINE_NUM_ATTRS_MAX"
        using attr_slots_base [of cfg] by (simp add: GPIO_V2_LINE_NUM_ATTRS_MAX_def)
      ultimately have
        "attr_slots cfg - num_secondary cfg + length (take (num_secondary cfg) (secondary cfg))
           \<le> GPIO_V2_LINE_NUM_ATTRS_MAX"
        using secondary_loop_idx by blast
      moreover have "length (take (num_secondary cfg) (secondary cfg)) = num_secondary cfg"
        using assms(2) by simp
      moreover have "attr_slots cfg - num_secondary cfg + num_secondary cfg = attr_slots cfg"
        by (simp add: attr_slots_def)
      ultimately have False using assms(1) by simp
      then show ?thesis ..
    qed
  qed
qed

lemma to_kernel_body_slots_goto:
  assumes "attr_slots cfg > GPIO_V2_LINE_NUM_ATTRS_MAX"
    and "num_secondary cfg \<le> length (secondary cfg)"
    and "\<forall>v\<in>set (stored_output_values cfg). offset v \<in> set offs"
    and "\<forall>s\<in>set (allocated_secondaries cfg).
           (debounce_period (config s) \<noteq> 0 \<or> recognized_options (config s)) \<and>
           set (block_offsets s) \<subseteq> set offs"
  shows "fst (to_kernel_body cfg buf offs) = Inl Goto_err_2big"
proof (cases "too_complex cfg")
  case True
  then show ?thesis by (rule to_kernel_body_too_complex)
next
  case False
  obtain r1 b1 where o: "output_values_attr cfg buf offs 0 = (r1, b1)" by fastforce
  show ?thesis
  proof (cases r1)
    case (Inl x)
    with o output_values_attr_no_error [OF assms(3), of buf 0] have "x = Goto_err_2big"
      by (cases x) auto
    with Inl o False show ?thesis by (simp add: to_kernel_body_def)
  next
    case (Inr idx1)
    with o have o': "output_values_attr cfg buf offs 0 = (Inr idx1, b1)" by simp
    from to_kernel_body_loop [OF False o'] obtain b2 r3 b3 where
      l: "secondary_loop (take (num_secondary cfg) (secondary cfg))
            (attr_slots cfg - num_secondary cfg) offs b2 = (r3, b3)" and
      c: "fst (to_kernel_body cfg buf offs) =
            (case r3 of
               Inl x \<Rightarrow> Inl x
             | Inr idx3 \<Rightarrow>
                 (case gpiod_make_kernel_flags (primary cfg) of
                    Inl e \<Rightarrow> Inl (Return_error e) | Inr fl \<Rightarrow> Inr ()))"
      by auto
    show ?thesis
    proof (cases r3)
      case (Inl x)
      have "fst (secondary_loop (take (num_secondary cfg) (secondary cfg))
                (attr_slots cfg - num_secondary cfg) offs b2) \<noteq> Inl (Return_error e)" for e
        using secondary_loop_no_error [of "take (num_secondary cfg) (secondary cfg)" offs]
          assms(4) unfolding allocated_secondaries_def by blast
      with l Inl have "x = Goto_err_2big" by (cases x) auto
      with c l Inl show ?thesis by simp
    next
      case (Inr idx3)
      with l have
        "fst (secondary_loop (take (num_secondary cfg) (secondary cfg))
                (attr_slots cfg - num_secondary cfg) offs b2) = Inr idx3"
        by simp
      moreover have "attr_slots cfg - num_secondary cfg \<le> GPIO_V2_LINE_NUM_ATTRS_MAX"
        using attr_slots_base [of cfg] by (simp add: GPIO_V2_LINE_NUM_ATTRS_MAX_def)
      ultimately have
        "attr_slots cfg - num_secondary cfg + length (take (num_secondary cfg) (secondary cfg))
           \<le> GPIO_V2_LINE_NUM_ATTRS_MAX"
        using secondary_loop_idx by blast
      moreover have "length (take (num_secondary cfg) (secondary cfg)) = num_secondary cfg"
        using assms(2) by simp
      moreover have "attr_slots cfg - num_secondary cfg + num_secondary cfg = attr_slots cfg"
        by (simp add: attr_slots_def)
      ultimately have False using assms(1) by simp
      then show ?thesis ..
    qed
  qed
qed

lemma to_kernel_fails_cases:
  "fst (gpiod_line_config_to_kernel (Some cfg) buf offs) \<noteq> Inr () \<Longrightarrow>
   fst (gpiod_line_config_to_kernel (Some cfg) buf offs) = Inl E2BIG \<or>
   fst (gpiod_line_config_to_kernel (Some cfg) buf offs) = Inl EINVAL"
proof -
  assume a: "fst (gpiod_line_config_to_kernel (Some cfg) buf offs) \<noteq> Inr ()"
  show ?thesis
  proof (cases "fst (gpiod_line_config_to_kernel (Some cfg) buf offs)")
    case (Inl e)
    then show ?thesis by (cases e) simp_all
  next
    case (Inr u)
    with a show ?thesis by simp
  qed
qed

subsection \<open>The example configs with ten blocks\<close>

lemma set_secondary_field_length:
  assumes "set_secondary_field cfg offs upd = Some cfg'"
  shows "length (secondary cfg') = length (secondary cfg)"
proof -
  from assms obtain cfg1 r where g: "get_secondary_config cfg offs = Some (cfg1, r)"
    by (auto simp: set_secondary_field_def split: option.splits)
  have "secondary cfg1 = secondary cfg" by (rule get_secondary_config_secondary [OF g])
  with assms g show ?thesis
    by (cases r) (auto simp: set_secondary_field_def)
qed

lemma set_secondary_field_recognized:
  assumes "set_secondary_field cfg offs upd = Some cfg'"
    and "list_all (\<lambda>s. recognized_options (config s)) (secondary cfg)"
    and "\<And>b. recognized_options b \<Longrightarrow> recognized_options (upd b)"
  shows "list_all (\<lambda>s. recognized_options (config s)) (secondary cfg')"
proof -
  from assms(1) obtain cfg1 r where g: "get_secondary_config cfg offs = Some (cfg1, r)"
    by (auto simp: set_secondary_field_def split: option.splits)
  have s: "secondary cfg1 = secondary cfg" by (rule get_secondary_config_secondary [OF g])
  show ?thesis
  proof (cases r)
    case None
    with assms(1,2) g s show ?thesis by (simp add: set_secondary_field_def)
  next
    case (Some i)
    with assms(1) g s have
      c: "secondary cfg' =
            (secondary cfg)[i := (secondary cfg ! i)\<lparr>config := upd (config (secondary cfg ! i))\<rparr>]"
      by (auto simp: set_secondary_field_def)
    show ?thesis
    proof (cases "i < length (secondary cfg)")
      case True
      with assms(2,3) show ?thesis
        unfolding c by (auto simp: list_all_length nth_list_update)
    next
      case False
      with assms(2) show ?thesis unfolding c by (simp add: list_update_beyond)
    qed
  qed
qed

lemma recognized_direction_input:
  "recognized_options b \<Longrightarrow>
   recognized_options (b\<lparr>direction := GPIOD_LINE_CONFIG_DIRECTION_INPUT\<rparr>)"
  by (simp add: recognized_options_def)

lemma replicate_subset_calls_blocks:
  "run_setters (replicate k (Set_direction_subset GPIOD_LINE_CONFIG_DIRECTION_INPUT offs)) cfg
     = Some cfg' \<Longrightarrow>
   list_all (\<lambda>s. recognized_options (config s)) (secondary cfg) \<Longrightarrow>
   list_all (\<lambda>s. recognized_options (config s)) (secondary cfg') \<and>
   length (secondary cfg') = length (secondary cfg)"
proof (induction k arbitrary: cfg)
  case 0
  then show ?case by simp
next
  case (Suc k)
  from Suc.prems(1) obtain cfg1 where
    a: "set_secondary_field cfg offs (\<lambda>b. b\<lparr>direction := GPIOD_LINE_CONFIG_DIRECTION_INPUT\<rparr>)
          = Some cfg1" and
    b: "run_setters (replicate k (Set_direction_subset GPIOD_LINE_CONFIG_DIRECTION_INPUT offs))
          cfg1 = Some cfg'"
    by (auto simp: gpiod_line_config_set_direction_subset_def split: option.splits)
  have r: "list_all (\<lambda>s. recognized_options (config s)) (secondary cfg1)"
    using a Suc.prems(2) recognized_direction_input by (rule set_secondary_field_recognized)
  have l: "length (secondary cfg1) = length (secondary cfg)"
    using a by (rule set_secondary_field_length)
  from Suc.IH [OF b r] l show ?case by simp
qed

lemma new_config_blocks:
  "list_all (\<lambda>s. recognized_options (config s)) (secondary new_config)"
  "length (secondary new_config) = GPIO_V2_LINE_NUM_ATTRS_MAX"
  by (simp_all add: new_config_def zero_secondary_config_def zero_base_config_def
        recognized_options_def list_all_iff)

lemma debounce_overflow_config_props:
  "\<not> too_complex debounce_overflow_config \<and>
   num_secondary debounce_overflow_config = 10 \<and>
   length (secondary debounce_overflow_config) = 10 \<and>
   num_output_values debounce_overflow_config = 0 \<and>
   debounce_period (primary debounce_overflow_config) = 5 \<and>
   unseeded debounce_overflow_config \<and>
   list_all (\<lambda>s. recognized_options (config s)) (secondary debounce_overflow_config)"
proof -
  define A where
    "A = replicate 10 (Set_direction_subset GPIOD_LINE_CONFIG_DIRECTION_INPUT [3, 5])"
  have k: "num_secondary new_config + 10 \<le> GPIO_V2_LINE_NUM_ATTRS_MAX"
    by (simp add: new_config_props GPIO_V2_LINE_NUM_ATTRS_MAX_def)
  from replicate_subset_calls [OF new_config_props(1) new_config_unseeded k,
         of GPIOD_LINE_CONFIG_DIRECTION_INPUT 3 5]
  obtain c10 where
    r: "run_setters A new_config = Some c10" and
    p: "\<not> too_complex c10" "unseeded c10" "num_secondary c10 = num_secondary new_config + 10"
       "primary c10 = primary new_config" "num_output_values c10 = num_output_values new_config"
    unfolding A_def by blast
  from r have
    "run_setters (replicate 10 (Set_direction_subset GPIOD_LINE_CONFIG_DIRECTION_INPUT [3, 5]))
       new_config = Some c10"
    by (simp only: A_def)
  from replicate_subset_calls_blocks [OF this new_config_blocks(1)]
  have b: "list_all (\<lambda>s. recognized_options (config s)) (secondary c10)"
          "length (secondary c10) = 10"
    by (simp_all add: new_config_blocks GPIO_V2_LINE_NUM_ATTRS_MAX_def)
  define c11 where "c11 = gpiod_line_config_set_debounce_period c10 5"
  from r have "run_setters (A @ [Set_debounce_period 5]) new_config = Some c11"
    by (simp add: run_setters_append c11_def)
  then have "run_setters debounce_overflow_calls new_config = Some c11"
    by (simp only: debounce_overflow_calls_def A_def)
  then have e: "debounce_overflow_config = c11" by (simp add: debounce_overflow_config_def)
  have "\<not> too_complex c11 \<and> num_secondary c11 = 10 \<and> length (secondary c11) = 10 \<and>
        num_output_values c11 = 0 \<and> debounce_period (primary c11) = 5 \<and> unseeded c11 \<and>
        list_all (\<lambda>s. recognized_options (config s)) (secondary c11)"
    using p b
    by (simp add: c11_def gpiod_line_config_set_debounce_period_def new_config_props
          unseeded_def)
  then show ?thesis unfolding e .
qed

lemma unseeded_block_offsets:
  "unseeded cfg \<Longrightarrow> s \<in> set (allocated_secondaries cfg) \<Longrightarrow> block_offsets s = []"
  by (auto simp: unseeded_def allocated_secondaries_def block_offsets_def list_all_iff
        dest: in_set_takeD)

lemma to_kernel_body_first_exit:
  assumes "\<not> too_complex cfg" and "fst (output_values_attr cfg buf offs 0) = Inl x"
  shows "fst (to_kernel_body cfg buf offs) = Inl x"
proof -
  obtain r b where o: "output_values_attr cfg buf offs 0 = (r, b)" by fastforce
  with assms(2) have "r = Inl x" by simp
  with o assms(1) show ?thesis by (simp add: to_kernel_body_def)
qed

lemma to_kernel_return_error:
  assumes "fst (to_kernel_body cfg buf offs) = Inl (Return_error e)"
  shows "fst (gpiod_line_config_to_kernel (Some cfg) buf offs) = Inl e"
proof -
  obtain r b where t: "to_kernel_body cfg buf offs = (r, b)" by fastforce
  with assms have "r = Inl (Return_error e)" by simp
  with t show ?thesis by (simp add: gpiod_line_config_to_kernel_def)
qed

text \<open>
  C4, as the code has it. Compilation of a config fails with \<open>E2BIG\<close> whenever
  \<open>too_complex\<close> is set or the stored output values outnumber the requested lines.
  When the attribute slots exceed the limit it always fails: with \<open>E2BIG\<close> when every
  stored output-value offset and every block offset is requested and every block
  without a debounce period holds recognised options, with \<open>E2BIG\<close> or \<open>EINVAL\<close>
  otherwise. It fails with \<open>E2BIG\<close> only when \<open>too_complex\<close> is set, or the output
  values outnumber the lines, or the slots exceed the limit, or a block has more offsets
  than there are lines. Once \<open>too_complex\<close> is set, compilation returns \<open>E2BIG\<close> and
  leaves the flag set, and every setter call leaves it set.
\<close>

theorem to_kernel_e2big:
  "(too_complex cfg \<or> num_output_values cfg > length offs \<longrightarrow>
      fst (gpiod_line_config_to_kernel (Some cfg) cfgbuf offs) = Inl E2BIG) \<and>
   (fst (gpiod_line_config_to_kernel (Some cfg) cfgbuf offs) = Inl E2BIG \<longrightarrow>
      too_complex cfg \<or> num_output_values cfg > length offs \<or>
      attr_slots cfg > GPIO_V2_LINE_NUM_ATTRS_MAX \<or>
      (\<exists>s\<in>set (allocated_secondaries cfg). num_offsets s > length offs)) \<and>
   (attr_slots cfg > GPIO_V2_LINE_NUM_ATTRS_MAX \<and> num_secondary cfg \<le> length (secondary cfg) \<longrightarrow>
      fst (gpiod_line_config_to_kernel (Some cfg) cfgbuf offs) = Inl E2BIG \<or>
      fst (gpiod_line_config_to_kernel (Some cfg) cfgbuf offs) = Inl EINVAL) \<and>
   (attr_slots cfg > GPIO_V2_LINE_NUM_ATTRS_MAX \<and> num_secondary cfg \<le> length (secondary cfg) \<and>
    (\<forall>v\<in>set (stored_output_values cfg). offset v \<in> set offs) \<and>
    (\<forall>s\<in>set (allocated_secondaries cfg).
        (debounce_period (config s) \<noteq> 0 \<or> recognized_options (config s)) \<and>
        set (block_offsets s) \<subseteq> set offs) \<longrightarrow>
      fst (gpiod_line_config_to_kernel (Some cfg) cfgbuf offs) = Inl E2BIG) \<and>
   (too_complex cfg \<longrightarrow>
      snd (snd (gpiod_line_config_to_kernel (Some cfg) cfgbuf offs)) = Some cfg \<and>
      (\<exists>cfg'. run_setter call cfg = Some cfg' \<and> too_complex cfg'))"
proof (intro conjI impI)
  assume "too_complex cfg \<or> num_output_values cfg > length offs"
  then have "fst (to_kernel_body cfg cfgbuf offs) = Inl Goto_err_2big"
    using to_kernel_body_too_complex to_kernel_body_many_values by blast
  then show "fst (gpiod_line_config_to_kernel (Some cfg) cfgbuf offs) = Inl E2BIG"
    unfolding to_kernel_goto_iff .
next
  assume "fst (gpiod_line_config_to_kernel (Some cfg) cfgbuf offs) = Inl E2BIG"
  then have "fst (to_kernel_body cfg cfgbuf offs) = Inl Goto_err_2big"
    unfolding to_kernel_goto_iff .
  then show "too_complex cfg \<or> num_output_values cfg > length offs \<or>
      attr_slots cfg > GPIO_V2_LINE_NUM_ATTRS_MAX \<or>
      (\<exists>s\<in>set (allocated_secondaries cfg). num_offsets s > length offs)"
    by (rule to_kernel_body_goto)
next
  assume "attr_slots cfg > GPIO_V2_LINE_NUM_ATTRS_MAX \<and>
          num_secondary cfg \<le> length (secondary cfg)"
  then have "fst (to_kernel_body cfg cfgbuf offs) \<noteq> Inr ()"
    using to_kernel_body_slots by blast
  then have "fst (gpiod_line_config_to_kernel (Some cfg) cfgbuf offs) \<noteq> Inr ()"
    unfolding to_kernel_ok_iff .
  then show "fst (gpiod_line_config_to_kernel (Some cfg) cfgbuf offs) = Inl E2BIG \<or>
             fst (gpiod_line_config_to_kernel (Some cfg) cfgbuf offs) = Inl EINVAL"
    by (rule to_kernel_fails_cases)
next
  assume a: "attr_slots cfg > GPIO_V2_LINE_NUM_ATTRS_MAX \<and>
    num_secondary cfg \<le> length (secondary cfg) \<and>
    (\<forall>v\<in>set (stored_output_values cfg). offset v \<in> set offs) \<and>
    (\<forall>s\<in>set (allocated_secondaries cfg).
        (debounce_period (config s) \<noteq> 0 \<or> recognized_options (config s)) \<and>
        set (block_offsets s) \<subseteq> set offs)"
  have "fst (to_kernel_body cfg cfgbuf offs) = Inl Goto_err_2big"
    by (rule to_kernel_body_slots_goto) (use a in blast)+
  then show "fst (gpiod_line_config_to_kernel (Some cfg) cfgbuf offs) = Inl E2BIG"
    unfolding to_kernel_goto_iff .
next
  assume t: "too_complex cfg"
  then have "fst (to_kernel_body cfg cfgbuf offs) = Inl Goto_err_2big"
    by (rule to_kernel_body_too_complex)
  then have "fst (gpiod_line_config_to_kernel (Some cfg) cfgbuf offs) = Inl E2BIG"
    unfolding to_kernel_goto_iff .
  with to_kernel_config_after [of cfg cfgbuf offs] t
  show "snd (snd (gpiod_line_config_to_kernel (Some cfg) cfgbuf offs)) = Some cfg"
    by simp
next
  assume t: "too_complex cfg"
  from run_setter_too_complex [OF t, of call] t
  show "\<exists>cfg'. run_setter call cfg = Some cfg' \<and> too_complex cfg'"
    by (cases "is_global_setter call") auto
qed

theorem to_kernel_e2big_witness:
  "attr_slots debounce_overflow_config > GPIO_V2_LINE_NUM_ATTRS_MAX \<and>
   num_secondary debounce_overflow_config \<le> length (secondary debounce_overflow_config) \<and>
   fst (gpiod_line_config_to_kernel (Some debounce_overflow_config) zero_cfgbuf [3, 5]) =
     Inl E2BIG \<and>
   too_complex overflowed_config \<and>
   fst (gpiod_line_config_to_kernel (Some overflowed_config) zero_cfgbuf [3, 5]) = Inl E2BIG \<and>
   snd (snd (gpiod_line_config_to_kernel (Some overflowed_config) zero_cfgbuf [3, 5])) =
     Some overflowed_config \<and>
   (\<exists>cfg'. run_setter (Set_debounce_period 5) overflowed_config = Some cfg' \<and> too_complex cfg')"
proof -
  note d = debounce_overflow_config_props
  have s: "attr_slots debounce_overflow_config > GPIO_V2_LINE_NUM_ATTRS_MAX"
    using d by (simp add: attr_slots_def GPIO_V2_LINE_NUM_ATTRS_MAX_def)
  have n: "num_secondary debounce_overflow_config \<le> length (secondary debounce_overflow_config)"
    using d by simp
  have v: "\<forall>v\<in>set (stored_output_values debounce_overflow_config). offset v \<in> set [3, 5]"
    using d by (simp add: stored_output_values_def)
  have b: "\<forall>s\<in>set (allocated_secondaries debounce_overflow_config).
        (debounce_period (config s) \<noteq> 0 \<or> recognized_options (config s)) \<and>
        set (block_offsets s) \<subseteq> set [3, 5]"
  proof
    fix s assume m: "s \<in> set (allocated_secondaries debounce_overflow_config)"
    from d m have "block_offsets s = []" using unseeded_block_offsets by blast
    moreover from m have "s \<in> set (secondary debounce_overflow_config)"
      by (auto simp: allocated_secondaries_def dest: in_set_takeD)
    with d have "recognized_options (config s)" by (auto simp: list_all_iff)
    ultimately show "(debounce_period (config s) \<noteq> 0 \<or> recognized_options (config s)) \<and>
        set (block_offsets s) \<subseteq> set [3, 5]" by simp
  qed
  from to_kernel_e2big [of debounce_overflow_config "[3, 5]" zero_cfgbuf Set_active_low] s n v b
  have 1: "fst (gpiod_line_config_to_kernel (Some debounce_overflow_config) zero_cfgbuf [3, 5]) =
     Inl E2BIG" by blast
  have t: "too_complex overflowed_config" using overflowed_config_props by simp
  from to_kernel_e2big [of overflowed_config "[3, 5]" zero_cfgbuf "Set_debounce_period 5"] t
  have 2: "fst (gpiod_line_config_to_kernel (Some overflowed_config) zero_cfgbuf [3, 5]) = Inl E2BIG"
    and 3: "snd (snd (gpiod_line_config_to_kernel (Some overflowed_config) zero_cfgbuf [3, 5])) =
     Some overflowed_config"
    and 4: "\<exists>cfg'. run_setter (Set_debounce_period 5) overflowed_config = Some cfg' \<and>
       too_complex cfg'"
    by blast+
  from s n 1 t 2 3 4 show ?thesis by (intro conjI)
qed

text \<open>
  The claim C4 as stated fails: the config left by ten subset calls and one output
  value for the offset 9 asks for eleven attribute slots, and its compilation for the
  lines 3 and 5 fails with \<open>EINVAL\<close>, not \<open>E2BIG\<close>: the offset 9 is not requested, and
  the output values are compiled before the blocks are counted.
\<close>

theorem slot_overflow_returns_einval:
  "attr_slots slot_overflow_config > GPIO_V2_LINE_NUM_ATTRS_MAX \<and>
   fst (gpiod_line_config_to_kernel (Some slot_overflow_config) zero_cfgbuf [3, 5]) = Inl EINVAL"
proof -
  note p = slot_overflow_config_props
  have s: "attr_slots slot_overflow_config > GPIO_V2_LINE_NUM_ATTRS_MAX"
    using p by (simp add: attr_slots_def GPIO_V2_LINE_NUM_ATTRS_MAX_def)
  have "set_kernel_output_values slot_overflow_config [3, 5] = Inl EINVAL"
    using p by (simp add: set_kernel_output_values_def)
  then have "fst (output_values_attr slot_overflow_config zero_cfgbuf [3, 5] 0) =
      Inl (Return_error EINVAL)"
    using p by (simp add: output_values_attr_def Let_def)
  then have "fst (to_kernel_body slot_overflow_config zero_cfgbuf [3, 5]) =
      Inl (Return_error EINVAL)"
    using p to_kernel_body_first_exit by blast
  then have "fst (gpiod_line_config_to_kernel (Some slot_overflow_config) zero_cfgbuf [3, 5]) =
      Inl EINVAL"
    by (rule to_kernel_return_error)
  with s show ?thesis by simp
qed

subsection \<open>Subset setters from a new config\<close>

text \<open>
  On every config that setter calls build from a new one, no block holds offsets, so a
  subset call with two or more offsets never finds its block again: while the table
  has room, each such call takes a new block, and leaves it without offsets.
\<close>

lemma reachable_subset_call_allocates:
  assumes "run_setters calls new_config = Some cfg" and "\<not> too_complex cfg"
    and "num_secondary cfg < GPIO_V2_LINE_NUM_ATTRS_MAX" and "2 \<le> length offs"
    and "set_secondary_field cfg offs upd = Some cfg'"
  shows "num_secondary cfg' = num_secondary cfg + 1 \<and> unseeded cfg'"
proof -
  have u: "unseeded cfg" using new_config_unseeded assms(1) by (rule run_setters_unseeded)
  from assms(5) obtain cfg1 r where g: "get_secondary_config cfg offs = Some (cfg1, r)"
    by (auto simp: set_secondary_field_def split: option.splits)
  from get_secondary_config_unseeded [OF assms(2) u assms(4) g] assms(3) obtain so m where
    c: "cfg1 = cfg\<lparr>sorted_offsets := so, num_sorted_offsets := m,
                   num_secondary := num_secondary cfg + 1\<rparr>" and
    r: "r = Some (num_secondary cfg)"
    by auto
  from assms(5) g c r have "num_secondary cfg' = num_secondary cfg + 1"
    by (auto simp: set_secondary_field_def)
  moreover have "unseeded cfg'" using u assms(5) by (rule set_secondary_field_unseeded)
  ultimately show ?thesis by simp
qed

text \<open>
  C1. On a new config, the direction subset setter called with the offsets 3 and 5
  takes block 0 and stores the direction there, and the offset list of that block stays
  empty: nothing stores into \<open>secondary->offsets\<close> or \<open>secondary->num_offsets\<close>. The
  scratch array holds 0 and 3 afterwards, not 3 and 5: \<open>memcpy\<close> is given the entry
  count as its byte count.
\<close>

theorem subset_setter_leaves_block_without_offsets:
  "map_option
     (\<lambda>cfg. (num_secondary cfg, direction (config (secondary cfg ! 0)),
             block_offsets (secondary cfg ! 0),
             take (num_sorted_offsets cfg) (sorted_offsets cfg)))
     (gpiod_line_config_set_direction_subset new_config GPIOD_LINE_CONFIG_DIRECTION_OUTPUT [3, 5])
   = Some (1, GPIOD_LINE_CONFIG_DIRECTION_OUTPUT, [], [0, 3])"
  by code_simp

text \<open>
  C2. On a new config, two subset calls that set different options for the same
  offsets 3 and 5 take two blocks, and so does the same subset call made twice.
\<close>

theorem same_offsets_take_two_blocks:
  "map_option num_secondary
     (run_setters [Set_direction_subset GPIOD_LINE_CONFIG_DIRECTION_OUTPUT [3, 5],
                   Set_bias_subset GPIOD_LINE_CONFIG_BIAS_PULL_UP [3, 5]] new_config) = Some 2 \<and>
   map_option num_secondary
     (run_setters [Set_direction_subset GPIOD_LINE_CONFIG_DIRECTION_OUTPUT [3, 5],
                   Set_direction_subset GPIOD_LINE_CONFIG_DIRECTION_OUTPUT [3, 5]] new_config) = Some 2"
proof -
  have lt0: "num_secondary new_config < GPIO_V2_LINE_NUM_ATTRS_MAX"
    by (simp add: new_config_props GPIO_V2_LINE_NUM_ATTRS_MAX_def)
  from set_secondary_field_two_props [OF new_config_props(1) new_config_unseeded lt0, of 3 5
         "\<lambda>b. b\<lparr>direction := GPIOD_LINE_CONFIG_DIRECTION_OUTPUT\<rparr>"]
  obtain c1 where
    s1: "set_secondary_field new_config [3, 5]
           (\<lambda>b. b\<lparr>direction := GPIOD_LINE_CONFIG_DIRECTION_OUTPUT\<rparr>) = Some c1" and
    p1: "\<not> too_complex c1" "unseeded c1" "num_secondary c1 = num_secondary new_config + 1"
    by blast
  from p1(3) have lt1: "num_secondary c1 < GPIO_V2_LINE_NUM_ATTRS_MAX"
    by (simp add: new_config_props GPIO_V2_LINE_NUM_ATTRS_MAX_def)
  from set_secondary_field_two_props [OF p1(1,2) lt1, of 3 5
         "\<lambda>b. b\<lparr>bias := GPIOD_LINE_CONFIG_BIAS_PULL_UP\<rparr>"]
  obtain c2 where
    s2: "set_secondary_field c1 [3, 5] (\<lambda>b. b\<lparr>bias := GPIOD_LINE_CONFIG_BIAS_PULL_UP\<rparr>) = Some c2"
    and p2: "num_secondary c2 = num_secondary c1 + 1"
    by blast
  from set_secondary_field_two_props [OF p1(1,2) lt1, of 3 5
         "\<lambda>b. b\<lparr>direction := GPIOD_LINE_CONFIG_DIRECTION_OUTPUT\<rparr>"]
  obtain c3 where
    s3: "set_secondary_field c1 [3, 5]
           (\<lambda>b. b\<lparr>direction := GPIOD_LINE_CONFIG_DIRECTION_OUTPUT\<rparr>) = Some c3"
    and p3: "num_secondary c3 = num_secondary c1 + 1"
    by blast
  from s1 s2 s3 p1(3) p2 p3 show ?thesis
    by (simp add: gpiod_line_config_set_direction_subset_def
          gpiod_line_config_set_bias_subset_def new_config_props)
qed

subsection \<open>The kernel structure outside the attribute being written\<close>

lemma store_attr_frame:
  "length (attrs (store_attr buf i f)) = length (attrs buf)"
  "k \<noteq> i \<Longrightarrow> attrs (store_attr buf i f) ! k = attrs buf ! k"
  "i < length (attrs buf) \<Longrightarrow> attrs (store_attr buf i f) ! i = f (attrs buf ! i)"
  "flags (store_attr buf i f) = flags buf"
  "num_attrs (store_attr buf i f) = num_attrs buf"
  by (simp_all add: store_attr_def)

lemma secondary_attr_frame:
  assumes "secondary_attr s i offs buf = (r, b)"
  shows "length (attrs b) = length (attrs buf) \<and> (\<forall>k. k \<noteq> i \<longrightarrow> attrs b ! k = attrs buf ! k)"
  using assms
  by (auto simp: secondary_attr_def Let_def store_attr_frame
        split: if_splits sum.splits prod.splits)

lemma secondary_loop_frame:
  "secondary_loop ss i offs buf = (r, b) \<Longrightarrow>
     length (attrs b) = length (attrs buf) \<and> (\<forall>k<i. attrs b ! k = attrs buf ! k)"
proof (induction ss arbitrary: i buf)
  case Nil
  then show ?case by simp
next
  case (Cons s ss)
  obtain r1 b1 where a: "secondary_attr s i offs buf = (r1, b1)" by fastforce
  note f = secondary_attr_frame [OF a]
  show ?case
  proof (cases r1)
    case (Inl x)
    with a Cons.prems have "b = b1" by simp
    with f show ?thesis by simp
  next
    case (Inr u)
    with a Cons.prems have "secondary_loop ss (i + 1) offs b1 = (r, b)" by simp
    from Cons.IH [OF this] f show ?thesis by simp
  qed
qed

lemma primary_debounce_attr_frame:
  assumes "primary_debounce_attr cfg buf i = (j, b)"
  shows "length (attrs b) = length (attrs buf) \<and> (\<forall>k<i. attrs b ! k = attrs buf ! k) \<and> i \<le> j"
  using assms by (auto simp: primary_debounce_attr_def store_attr_frame split: if_splits)

text \<open>
  When the output-values block goes on, the rest of the function leaves the
  attributes below the index it has reached as that block wrote them.
\<close>

lemma to_kernel_body_keeps_first:
  assumes "\<not> too_complex cfg"
    and "output_values_attr cfg buf offs 0 = (Inr idx1, b1)"
    and "to_kernel_body cfg buf offs = (r, b)"
  shows "\<forall>k<idx1. attrs b ! k = attrs b1 ! k"
proof -
  obtain idx2 b2 where p: "primary_debounce_attr cfg b1 idx1 = (idx2, b2)" by fastforce
  note pf = primary_debounce_attr_frame [OF p]
  obtain r3 b3 where
    l: "secondary_loop (take (num_secondary cfg) (secondary cfg)) idx2 offs b2 = (r3, b3)"
    by fastforce
  note lf = secondary_loop_frame [OF l]
  have "attrs b = attrs b3"
    using assms p l by (cases r3) (auto simp: to_kernel_body_def split: sum.splits)
  with pf lf show ?thesis by simp
qed

subsection \<open>The mask and the values of the output-values attribute\<close>

lemma find_bitmap_index_inj:
  assumes "find_bitmap_index x offs = Some k" and "find_bitmap_index y offs = Some k"
  shows "x = y"
  using find_bitmap_index_Some [OF assms(1)] find_bitmap_index_Some [OF assms(2)] by simp

lemma output_values_loop_bits:
  "output_values_loop vs offs (m0, vals0) = Inr (m, vals) \<Longrightarrow>
   distinct (map offset vs) \<Longrightarrow> length offs \<le> 64 \<Longrightarrow>
     (bit m k \<longleftrightarrow> bit m0 k \<or> (\<exists>v\<in>set vs. find_bitmap_index (offset v) offs = Some k)) \<and>
     (\<forall>v\<in>set vs. find_bitmap_index (offset v) offs = Some k \<longrightarrow> (bit vals k \<longleftrightarrow> val v \<noteq> 0)) \<and>
     ((\<forall>v\<in>set vs. find_bitmap_index (offset v) offs \<noteq> Some k) \<longrightarrow>
        (bit vals k \<longleftrightarrow> bit vals0 k))"
proof (induction vs arbitrary: m0 vals0)
  case Nil
  then show ?case by simp
next
  case (Cons v vs)
  from Cons.prems(1) obtain idx where
    i: "find_bitmap_index (offset v) offs = Some idx" and
    r: "output_values_loop vs offs
          (gpiod_line_mask_set_bit m0 idx, gpiod_line_mask_assign_bit vals0 idx (val v \<noteq> 0)) =
        Inr (m, vals)"
    by (auto split: option.splits)
  from find_bitmap_index_Some [OF i] Cons.prems(3) have lt: "idx < 64" by simp
  from Cons.prems(2) have d: "distinct (map offset vs)" and
    nv: "\<forall>w\<in>set vs. offset w \<noteq> offset v" by (auto simp: image_iff)
  have other: "\<forall>w\<in>set vs. find_bitmap_index (offset w) offs \<noteq> Some idx"
  proof
    fix w assume w: "w \<in> set vs"
    show "find_bitmap_index (offset w) offs \<noteq> Some idx"
    proof
      assume "find_bitmap_index (offset w) offs = Some idx"
      from this i have "offset w = offset v" by (rule find_bitmap_index_inj)
      with nv w show False by simp
    qed
  qed
  note ih = Cons.IH [OF r d Cons.prems(3)]
  have m: "bit (gpiod_line_mask_set_bit m0 idx) k \<longleftrightarrow> bit m0 k \<or> k = idx"
    using lt by (auto simp: gpiod_line_mask_set_bit_def bit_set_bit_iff)
  have a: "bit (gpiod_line_mask_assign_bit vals0 idx (val v \<noteq> 0)) k \<longleftrightarrow>
             (if k = idx then val v \<noteq> 0 else bit vals0 k)"
    using lt by (auto simp: gpiod_line_mask_assign_bit_def bit_set_bit_iff bit_unset_bit_iff)
  show ?case
  proof (intro conjI)
    show "bit m k \<longleftrightarrow>
        bit m0 k \<or> (\<exists>w\<in>set (v # vs). find_bitmap_index (offset w) offs = Some k)"
      using ih m i by auto
  next
    show "\<forall>w\<in>set (v # vs). find_bitmap_index (offset w) offs = Some k \<longrightarrow>
            (bit vals k \<longleftrightarrow> val w \<noteq> 0)"
    proof
      fix w assume w: "w \<in> set (v # vs)"
      show "find_bitmap_index (offset w) offs = Some k \<longrightarrow> (bit vals k \<longleftrightarrow> val w \<noteq> 0)"
      proof
        assume f: "find_bitmap_index (offset w) offs = Some k"
        show "bit vals k \<longleftrightarrow> val w \<noteq> 0"
        proof (cases "w \<in> set vs")
          case True
          with ih f show ?thesis by blast
        next
          case False
          with w have wv: "w = v" by simp
          with f i have "k = idx" by simp
          with other ih a wv show ?thesis by simp
        qed
      qed
    qed
  next
    show "(\<forall>w\<in>set (v # vs). find_bitmap_index (offset w) offs \<noteq> Some k) \<longrightarrow>
            (bit vals k \<longleftrightarrow> bit vals0 k)"
    proof
      assume n: "\<forall>w\<in>set (v # vs). find_bitmap_index (offset w) offs \<noteq> Some k"
      with i have "k \<noteq> idx" by auto
      with n ih a show "bit vals k \<longleftrightarrow> bit vals0 k" by simp
    qed
  qed
qed

lemma to_kernel_cfgbuf:
  "fst (snd (gpiod_line_config_to_kernel (Some cfg) buf offs)) =
   snd (to_kernel_body cfg buf offs)"
proof -
  obtain r b where t: "to_kernel_body cfg buf offs = (r, b)" by fastforce
  then show ?thesis
    by (cases r) (auto simp: gpiod_line_config_to_kernel_def split: early_exit.splits)
qed

lemma output_values_attr_written:
  assumes "num_output_values cfg \<noteq> 0" and "num_output_values cfg \<le> length offs"
    and "set_kernel_output_values cfg offs = Inr (m, vals)" and "attrs buf \<noteq> []"
  shows "\<exists>b1. output_values_attr cfg buf offs 0 = (Inr 1, b1) \<and>
              attr_id (attrs b1 ! 0) = GPIO_V2_LINE_ATTR_ID_OUTPUT_VALUES \<and>
              mask (attrs b1 ! 0) = m \<and> attr_value (attrs b1 ! 0) = vals"
  using assms by (simp add: output_values_attr_def Let_def store_attr_def)

text \<open>
  The output-values attribute of a config with \<open>too_complex\<close> unset that stores at
  least one output value, at most as many as there are requested lines, each offset
  once.
\<close>

lemma stored_values_compiled:
  assumes "\<not> too_complex cfg" and "num_output_values cfg \<noteq> 0"
    and "num_output_values cfg \<le> length offs" and "length offs \<le> GPIO_V2_LINES_MAX"
    and "distinct (map offset (stored_output_values cfg))" and "attrs cfgbuf \<noteq> []"
  shows "if \<forall>v\<in>set (stored_output_values cfg). offset v \<in> set offs
         then (let a = attrs (fst (snd (gpiod_line_config_to_kernel (Some cfg) cfgbuf offs))) ! 0
               in attr_id a = GPIO_V2_LINE_ATTR_ID_OUTPUT_VALUES \<and>
                  (\<forall>k. bit (mask a) k \<longleftrightarrow>
                         (\<exists>v\<in>set (stored_output_values cfg).
                             find_bitmap_index (offset v) offs = Some k)) \<and>
                  (\<forall>v\<in>set (stored_output_values cfg). \<forall>k.
                      find_bitmap_index (offset v) offs = Some k \<longrightarrow>
                        (bit (attr_value a) k \<longleftrightarrow> val v \<noteq> 0)))
         else fst (gpiod_line_config_to_kernel (Some cfg) cfgbuf offs) = Inl EINVAL"
proof (cases "\<forall>v\<in>set (stored_output_values cfg). offset v \<in> set offs")
  case True
  from output_values_loop_ok [OF True, of "(gpiod_line_mask_zero, gpiod_line_mask_zero)"]
  obtain m vals where
    l: "output_values_loop (stored_output_values cfg) offs
          (gpiod_line_mask_zero, gpiod_line_mask_zero) = Inr (m, vals)"
    by auto
  then have s: "set_kernel_output_values cfg offs = Inr (m, vals)"
    by (simp add: set_kernel_output_values_def stored_output_values_def)
  from assms(4) have len: "length offs \<le> 64" by (simp add: GPIO_V2_LINES_MAX_def)
  have bits: "(bit m k \<longleftrightarrow>
                 (\<exists>v\<in>set (stored_output_values cfg). find_bitmap_index (offset v) offs = Some k)) \<and>
              (\<forall>v\<in>set (stored_output_values cfg).
                 find_bitmap_index (offset v) offs = Some k \<longrightarrow> (bit vals k \<longleftrightarrow> val v \<noteq> 0))"
    for k
    using output_values_loop_bits [OF l [unfolded gpiod_line_mask_zero_def] assms(5) len, of k]
    by simp
  from output_values_attr_written [OF assms(2,3) s assms(6)] obtain b1 where
    o: "output_values_attr cfg cfgbuf offs 0 = (Inr 1, b1)" and
    w: "attr_id (attrs b1 ! 0) = GPIO_V2_LINE_ATTR_ID_OUTPUT_VALUES"
       "mask (attrs b1 ! 0) = m" "attr_value (attrs b1 ! 0) = vals"
    by blast
  obtain r b where t: "to_kernel_body cfg cfgbuf offs = (r, b)" by fastforce
  from to_kernel_body_keeps_first [OF assms(1) o t] have "attrs b ! 0 = attrs b1 ! 0" by simp
  moreover from t have "fst (snd (gpiod_line_config_to_kernel (Some cfg) cfgbuf offs)) = b"
    by (simp add: to_kernel_cfgbuf)
  ultimately have
    "attrs (fst (snd (gpiod_line_config_to_kernel (Some cfg) cfgbuf offs))) ! 0 = attrs b1 ! 0"
    by simp
  with w bits have
    "let a = attrs (fst (snd (gpiod_line_config_to_kernel (Some cfg) cfgbuf offs))) ! 0
     in attr_id a = GPIO_V2_LINE_ATTR_ID_OUTPUT_VALUES \<and>
        (\<forall>k. bit (mask a) k \<longleftrightarrow>
               (\<exists>v\<in>set (stored_output_values cfg).
                   find_bitmap_index (offset v) offs = Some k)) \<and>
        (\<forall>v\<in>set (stored_output_values cfg). \<forall>k.
            find_bitmap_index (offset v) offs = Some k \<longrightarrow>
              (bit (attr_value a) k \<longleftrightarrow> val v \<noteq> 0))"
    by (simp add: Let_def)
  then show ?thesis unfolding if_P [OF True] .
next
  case False
  then have "\<exists>v\<in>set (stored_output_values cfg). offset v \<notin> set offs" by simp
  from output_values_loop_einval [OF this, of "(gpiod_line_mask_zero, gpiod_line_mask_zero)"]
  have "set_kernel_output_values cfg offs = Inl EINVAL"
    by (simp add: set_kernel_output_values_def stored_output_values_def)
  with assms(2,3) have
    "fst (output_values_attr cfg cfgbuf offs 0) = Inl (Return_error EINVAL)"
    by (simp add: output_values_attr_def Let_def)
  with assms(1) have "fst (to_kernel_body cfg cfgbuf offs) = Inl (Return_error EINVAL)"
    by (rule to_kernel_body_first_exit)
  then have "fst (gpiod_line_config_to_kernel (Some cfg) cfgbuf offs) = Inl EINVAL"
    by (rule to_kernel_return_error)
  then show ?thesis unfolding if_not_P [OF False] .
qed

text \<open>
  Without a stored output value the output-values block writes nothing and the next
  attribute takes the index 0; what the rest of the function stores into an attribute
  is a flags attribute or a debounce attribute.
\<close>

lemma output_values_attr_none:
  "num_output_values cfg = 0 \<Longrightarrow> output_values_attr cfg buf offs i = (Inr i, buf)"
  by (simp add: output_values_attr_def)

lemma attr_ids_distinct:
  "GPIO_V2_LINE_ATTR_ID_FLAGS \<noteq> GPIO_V2_LINE_ATTR_ID_OUTPUT_VALUES"
  "GPIO_V2_LINE_ATTR_ID_DEBOUNCE \<noteq> GPIO_V2_LINE_ATTR_ID_OUTPUT_VALUES"
  by (simp_all add: gpio_v2_attr_id_defs)

lemma primary_debounce_attr_ids:
  assumes "primary_debounce_attr cfg buf i = (j, b)"
  shows "attrs b ! k = attrs buf ! k \<or> attr_id (attrs b ! k) = GPIO_V2_LINE_ATTR_ID_DEBOUNCE"
proof (cases "k = i \<and> i < length (attrs buf)")
  case True
  with assms show ?thesis
    by (auto simp: primary_debounce_attr_def store_attr_def store_debounce_period_us_def
          split: if_splits)
next
  case False
  then have "attrs (store_attr buf i f) ! k = attrs buf ! k" for f
    by (cases "k = i") (simp_all add: store_attr_def list_update_beyond)
  with assms show ?thesis
    by (auto simp: primary_debounce_attr_def split: if_splits)
qed

lemma secondary_attr_ids:
  assumes "secondary_attr s i offs buf = (r, b)"
  shows "attrs b ! k = attrs buf ! k \<or>
         attr_id (attrs b ! k) = GPIO_V2_LINE_ATTR_ID_FLAGS \<or>
         attr_id (attrs b ! k) = GPIO_V2_LINE_ATTR_ID_DEBOUNCE"
proof (cases "k = i \<and> i < length (attrs buf)")
  case True
  with assms show ?thesis
    by (auto simp: secondary_attr_def Let_def store_attr_def store_debounce_period_us_def
          split: if_splits sum.splits prod.splits)
next
  case False
  then have "attrs (store_attr c i f) ! k = attrs c ! k"
    if "length (attrs c) = length (attrs buf)" for c f
    using that by (cases "k = i") (simp_all add: store_attr_def list_update_beyond)
  then have "attrs (store_attr buf i f) ! k = attrs buf ! k"
    "attrs (store_attr (store_attr buf i f) i g) ! k = attrs buf ! k"
    "attrs (store_attr (store_attr (store_attr buf i f) i g) i h) ! k = attrs buf ! k" for f g h
    by (simp_all add: store_attr_frame)
  with assms show ?thesis
    by (auto simp: secondary_attr_def Let_def split: if_splits sum.splits prod.splits)
qed

lemma secondary_loop_ids:
  "secondary_loop ss i offs buf = (r, b) \<Longrightarrow>
     attrs b ! k = attrs buf ! k \<or>
     attr_id (attrs b ! k) = GPIO_V2_LINE_ATTR_ID_FLAGS \<or>
     attr_id (attrs b ! k) = GPIO_V2_LINE_ATTR_ID_DEBOUNCE"
proof (induction ss arbitrary: i buf)
  case Nil
  then show ?case by simp
next
  case (Cons s ss)
  obtain r1 b1 where a: "secondary_attr s i offs buf = (r1, b1)" by fastforce
  note f = secondary_attr_ids [OF a, of k]
  show ?case
  proof (cases r1)
    case (Inl x)
    with a Cons.prems have "b = b1" by simp
    with f show ?thesis by simp
  next
    case (Inr u)
    with a Cons.prems have "secondary_loop ss (i + 1) offs b1 = (r, b)" by simp
    from Cons.IH [OF this] f show ?thesis by auto
  qed
qed

lemma to_kernel_no_output_values_attr:
  assumes "num_output_values cfg = 0"
  shows "attrs (fst (snd (gpiod_line_config_to_kernel (Some cfg) cfgbuf offs))) ! k =
           attrs cfgbuf ! k \<or>
         attr_id (attrs (fst (snd (gpiod_line_config_to_kernel (Some cfg) cfgbuf offs))) ! k) =
           GPIO_V2_LINE_ATTR_ID_FLAGS \<or>
         attr_id (attrs (fst (snd (gpiod_line_config_to_kernel (Some cfg) cfgbuf offs))) ! k) =
           GPIO_V2_LINE_ATTR_ID_DEBOUNCE"
proof (cases "too_complex cfg")
  case True
  then show ?thesis by (simp add: to_kernel_cfgbuf to_kernel_body_def)
next
  case False
  obtain idx2 b2 where p: "primary_debounce_attr cfg cfgbuf 0 = (idx2, b2)" by fastforce
  obtain r3 b3 where
    l: "secondary_loop (take (num_secondary cfg) (secondary cfg)) idx2 offs b2 = (r3, b3)"
    by fastforce
  have "attrs (snd (to_kernel_body cfg cfgbuf offs)) = attrs b3"
    using False p l output_values_attr_none [OF assms, of cfgbuf offs 0]
    by (cases r3) (auto simp: to_kernel_body_def split: sum.splits)
  with primary_debounce_attr_ids [OF p, of k] secondary_loop_ids [OF l, of k]
  show ?thesis by (auto simp: to_kernel_cfgbuf)
qed

text \<open>
  C5, as the code has it. Take a config with \<open>too_complex\<close> unset that stores at least
  one output value and at most as many as there are requested lines (which are at most
  64), each offset stored once. When every stored offset is among the requested
  offsets, compilation writes attribute 0 as an output-values attribute: a mask bit is
  set exactly at the index of a stored offset in the request, and the value bit at that
  index is set exactly when the stored value is not zero. When some stored offset is
  not requested, compilation fails with \<open>EINVAL\<close>. When \<open>too_complex\<close> is set or
  the stored values outnumber the requested lines, compilation fails with \<open>E2BIG\<close>.
  When no output value is stored, no output-values attribute is written: every
  attribute of the kernel structure is as it was, or is a flags or a debounce attribute.
\<close>

theorem output_values_attribute:
  "(\<not> too_complex cfg \<and> num_output_values cfg \<noteq> 0 \<and>
    num_output_values cfg \<le> length offs \<and> length offs \<le> GPIO_V2_LINES_MAX \<and>
    distinct (map offset (stored_output_values cfg)) \<and> attrs cfgbuf \<noteq> [] \<longrightarrow>
      (if \<forall>v\<in>set (stored_output_values cfg). offset v \<in> set offs
       then (let a = attrs (fst (snd (gpiod_line_config_to_kernel (Some cfg) cfgbuf offs))) ! 0
             in attr_id a = GPIO_V2_LINE_ATTR_ID_OUTPUT_VALUES \<and>
                (\<forall>k. bit (mask a) k \<longleftrightarrow>
                       (\<exists>v\<in>set (stored_output_values cfg).
                           find_bitmap_index (offset v) offs = Some k)) \<and>
                (\<forall>v\<in>set (stored_output_values cfg). \<forall>k.
                    find_bitmap_index (offset v) offs = Some k \<longrightarrow>
                      (bit (attr_value a) k \<longleftrightarrow> val v \<noteq> 0)))
       else fst (gpiod_line_config_to_kernel (Some cfg) cfgbuf offs) = Inl EINVAL)) \<and>
   (too_complex cfg \<or> num_output_values cfg > length offs \<longrightarrow>
      fst (gpiod_line_config_to_kernel (Some cfg) cfgbuf offs) = Inl E2BIG) \<and>
   (num_output_values cfg = 0 \<longrightarrow>
      (\<forall>k. let a = attrs (fst (snd (gpiod_line_config_to_kernel (Some cfg) cfgbuf offs))) ! k
           in a = attrs cfgbuf ! k \<or>
              attr_id a \<noteq> GPIO_V2_LINE_ATTR_ID_OUTPUT_VALUES \<and>
              (attr_id a = GPIO_V2_LINE_ATTR_ID_FLAGS \<or>
               attr_id a = GPIO_V2_LINE_ATTR_ID_DEBOUNCE)))"
proof (intro conjI impI)
  assume "\<not> too_complex cfg \<and> num_output_values cfg \<noteq> 0 \<and>
    num_output_values cfg \<le> length offs \<and> length offs \<le> GPIO_V2_LINES_MAX \<and>
    distinct (map offset (stored_output_values cfg)) \<and> attrs cfgbuf \<noteq> []"
  then have h: "\<not> too_complex cfg" "num_output_values cfg \<noteq> 0"
    "num_output_values cfg \<le> length offs" "length offs \<le> GPIO_V2_LINES_MAX"
    "distinct (map offset (stored_output_values cfg))" "attrs cfgbuf \<noteq> []"
    by simp_all
  show "if \<forall>v\<in>set (stored_output_values cfg). offset v \<in> set offs
       then (let a = attrs (fst (snd (gpiod_line_config_to_kernel (Some cfg) cfgbuf offs))) ! 0
             in attr_id a = GPIO_V2_LINE_ATTR_ID_OUTPUT_VALUES \<and>
                (\<forall>k. bit (mask a) k \<longleftrightarrow>
                       (\<exists>v\<in>set (stored_output_values cfg).
                           find_bitmap_index (offset v) offs = Some k)) \<and>
                (\<forall>v\<in>set (stored_output_values cfg). \<forall>k.
                    find_bitmap_index (offset v) offs = Some k \<longrightarrow>
                      (bit (attr_value a) k \<longleftrightarrow> val v \<noteq> 0)))
       else fst (gpiod_line_config_to_kernel (Some cfg) cfgbuf offs) = Inl EINVAL"
    by (rule stored_values_compiled [OF h])
next
  assume "too_complex cfg \<or> num_output_values cfg > length offs"
  then have "fst (to_kernel_body cfg cfgbuf offs) = Inl Goto_err_2big"
    using to_kernel_body_too_complex to_kernel_body_many_values by blast
  then show "fst (gpiod_line_config_to_kernel (Some cfg) cfgbuf offs) = Inl E2BIG"
    unfolding to_kernel_goto_iff .
next
  assume n: "num_output_values cfg = 0"
  show "\<forall>k. let a = attrs (fst (snd (gpiod_line_config_to_kernel (Some cfg) cfgbuf offs))) ! k
           in a = attrs cfgbuf ! k \<or>
              attr_id a \<noteq> GPIO_V2_LINE_ATTR_ID_OUTPUT_VALUES \<and>
              (attr_id a = GPIO_V2_LINE_ATTR_ID_FLAGS \<or>
               attr_id a = GPIO_V2_LINE_ATTR_ID_DEBOUNCE)"
  proof
    fix k
    from to_kernel_no_output_values_attr [OF n, of cfgbuf offs k] attr_ids_distinct
    show "let a = attrs (fst (snd (gpiod_line_config_to_kernel (Some cfg) cfgbuf offs))) ! k
           in a = attrs cfgbuf ! k \<or>
              attr_id a \<noteq> GPIO_V2_LINE_ATTR_ID_OUTPUT_VALUES \<and>
              (attr_id a = GPIO_V2_LINE_ATTR_ID_FLAGS \<or>
               attr_id a = GPIO_V2_LINE_ATTR_ID_DEBOUNCE)"
      unfolding Let_def by auto
  qed
qed

lemma s1_config_stored:
  "\<not> too_complex s1_config \<and> num_output_values s1_config = 3 \<and>
   stored_output_values s1_config =
     [\<lparr>offset = 2, val = 1\<rparr>, \<lparr>offset = 4, val = 0\<rparr>, \<lparr>offset = 7, val = 1\<rparr>]"
  by code_simp

lemma unrequested_value_config_stored:
  "\<not> too_complex unrequested_value_config \<and> num_output_values unrequested_value_config = 1 \<and>
   stored_output_values unrequested_value_config = [\<lparr>offset = 9, val = 1\<rparr>]"
  by code_simp

theorem output_values_attribute_witness:
  "\<not> too_complex s1_config \<and> num_output_values s1_config = 3 \<and>
   map offset (stored_output_values s1_config) = [2, 4, 7] \<and>
   map val (stored_output_values s1_config) = [1, 0, 1] \<and>
   attr_id (attrs (fst (snd (gpiod_line_config_to_kernel (Some s1_config) zero_cfgbuf [2, 4, 7]))) ! 0)
     = GPIO_V2_LINE_ATTR_ID_OUTPUT_VALUES \<and>
   bit (mask (attrs (fst (snd (gpiod_line_config_to_kernel (Some s1_config) zero_cfgbuf
          [2, 4, 7]))) ! 0)) 0 \<and>
   bit (mask (attrs (fst (snd (gpiod_line_config_to_kernel (Some s1_config) zero_cfgbuf
          [2, 4, 7]))) ! 0)) 1 \<and>
   bit (mask (attrs (fst (snd (gpiod_line_config_to_kernel (Some s1_config) zero_cfgbuf
          [2, 4, 7]))) ! 0)) 2 \<and>
   \<not> bit (mask (attrs (fst (snd (gpiod_line_config_to_kernel (Some s1_config) zero_cfgbuf
          [2, 4, 7]))) ! 0)) 3 \<and>
   bit (attr_value (attrs (fst (snd (gpiod_line_config_to_kernel (Some s1_config) zero_cfgbuf
          [2, 4, 7]))) ! 0)) 0 \<and>
   \<not> bit (attr_value (attrs (fst (snd (gpiod_line_config_to_kernel (Some s1_config) zero_cfgbuf
          [2, 4, 7]))) ! 0)) 1 \<and>
   bit (attr_value (attrs (fst (snd (gpiod_line_config_to_kernel (Some s1_config) zero_cfgbuf
          [2, 4, 7]))) ! 0)) 2 \<and>
   map offset (stored_output_values unrequested_value_config) = [9] \<and>
   fst (gpiod_line_config_to_kernel (Some unrequested_value_config) zero_cfgbuf [3, 5]) = Inl EINVAL \<and>
   num_output_values two_values_config = 2 \<and>
   fst (gpiod_line_config_to_kernel (Some two_values_config) zero_cfgbuf [1]) = Inl E2BIG \<and>
   num_output_values (gpiod_line_config_set_debounce_period new_config 5) = 0 \<and>
   attr_id (attrs (fst (snd (gpiod_line_config_to_kernel
      (Some (gpiod_line_config_set_debounce_period new_config 5)) zero_cfgbuf [3]))) ! 0)
     \<noteq> GPIO_V2_LINE_ATTR_ID_OUTPUT_VALUES"
proof -
  note s = s1_config_stored
  define a where
    "a = attrs (fst (snd (gpiod_line_config_to_kernel (Some s1_config) zero_cfgbuf [2, 4, 7]))) ! 0"
  have z: "attrs zero_cfgbuf \<noteq> []"
    by (simp add: zero_cfgbuf_def GPIO_V2_LINE_NUM_ATTRS_MAX_def)
  have h: "\<not> too_complex s1_config" "num_output_values s1_config \<noteq> 0"
    "num_output_values s1_config \<le> length [2, 4, 7 :: 32 word]"
    "length [2, 4, 7 :: 32 word] \<le> GPIO_V2_LINES_MAX"
    "distinct (map offset (stored_output_values s1_config))"
    using s by (simp_all add: GPIO_V2_LINES_MAX_def)
  have st: "stored_output_values s1_config =
     [\<lparr>offset = 2, val = 1\<rparr>, \<lparr>offset = 4, val = 0\<rparr>, \<lparr>offset = 7, val = 1\<rparr>]"
    using s by simp
  have i: "find_bitmap_index 2 [2, 4, 7] = Some 0" "find_bitmap_index 4 [2, 4, 7] = Some 1"
    "find_bitmap_index 7 [2, 4, 7] = Some 2"
    by simp_all
  have "\<forall>v\<in>set (stored_output_values s1_config). offset v \<in> set [2, 4, 7]"
    unfolding st by simp
  with output_values_attribute [of s1_config "[2, 4, 7]" zero_cfgbuf, THEN conjunct1] h z
  have t: "attr_id a = GPIO_V2_LINE_ATTR_ID_OUTPUT_VALUES"
    and m: "\<And>k. bit (mask a) k \<longleftrightarrow>
           (\<exists>v\<in>set (stored_output_values s1_config).
               find_bitmap_index (offset v) [2, 4, 7] = Some k)"
    and v: "\<And>v k. v \<in> set (stored_output_values s1_config) \<Longrightarrow>
              find_bitmap_index (offset v) [2, 4, 7] = Some k \<Longrightarrow>
                (bit (attr_value a) k \<longleftrightarrow> val v \<noteq> 0)"
    unfolding a_def Let_def by simp_all
  have m0: "bit (mask a) 0" unfolding m st using i by simp
  have m1: "bit (mask a) 1" unfolding m st using i by simp
  have m2: "bit (mask a) 2" unfolding m st using i by simp
  have m3: "\<not> bit (mask a) 3" unfolding m st using i by simp
  have v0: "bit (attr_value a) 0"
    using v [of "\<lparr>offset = 2, val = 1\<rparr>" 0] i unfolding st by simp
  have v1: "\<not> bit (attr_value a) 1"
    using v [of "\<lparr>offset = 4, val = 0\<rparr>" 1] i unfolding st by simp
  have v2: "bit (attr_value a) 2"
    using v [of "\<lparr>offset = 7, val = 1\<rparr>" 2] i unfolding st by simp
  note u = unrequested_value_config_stored
  have b: "\<not> too_complex unrequested_value_config" "num_output_values unrequested_value_config \<noteq> 0"
    "num_output_values unrequested_value_config \<le> length [3, 5 :: 32 word]"
    "length [3, 5 :: 32 word] \<le> GPIO_V2_LINES_MAX"
    "distinct (map offset (stored_output_values unrequested_value_config))"
    using u by (simp_all add: GPIO_V2_LINES_MAX_def)
  have "\<not> (\<forall>v\<in>set (stored_output_values unrequested_value_config). offset v \<in> set [3, 5])"
    using u by simp
  with output_values_attribute [of unrequested_value_config "[3, 5]" zero_cfgbuf,
         THEN conjunct1] b z
  have e: "fst (gpiod_line_config_to_kernel (Some unrequested_value_config) zero_cfgbuf [3, 5]) =
      Inl EINVAL"
    by simp
  have n2: "num_output_values two_values_config = 2" by code_simp
  with output_values_attribute [of two_values_config "[1]" zero_cfgbuf,
         THEN conjunct2, THEN conjunct1]
  have g: "fst (gpiod_line_config_to_kernel (Some two_values_config) zero_cfgbuf [1]) = Inl E2BIG"
    by simp
  have n0: "num_output_values (gpiod_line_config_set_debounce_period new_config 5) = 0"
    by (simp add: gpiod_line_config_set_debounce_period_def new_config_props)
  have z0: "attr_id (attrs zero_cfgbuf ! 0) \<noteq> GPIO_V2_LINE_ATTR_ID_OUTPUT_VALUES"
    by (simp add: zero_cfgbuf_def GPIO_V2_LINE_NUM_ATTRS_MAX_def
          GPIO_V2_LINE_ATTR_ID_OUTPUT_VALUES_def)
  from output_values_attribute
         [of "gpiod_line_config_set_debounce_period new_config 5" "[3]" zero_cfgbuf,
          THEN conjunct2, THEN conjunct2, THEN mp, OF n0, THEN spec, of 0] z0
  have k0: "attr_id (attrs (fst (snd (gpiod_line_config_to_kernel
      (Some (gpiod_line_config_set_debounce_period new_config 5)) zero_cfgbuf [3]))) ! 0)
     \<noteq> GPIO_V2_LINE_ATTR_ID_OUTPUT_VALUES"
    unfolding Let_def by auto
  from s u t m0 m1 m2 m3 v0 v1 v2 e have
    "\<not> too_complex s1_config \<and> num_output_values s1_config = 3 \<and>
     map offset (stored_output_values s1_config) = [2, 4, 7] \<and>
     map val (stored_output_values s1_config) = [1, 0, 1] \<and>
     attr_id a = GPIO_V2_LINE_ATTR_ID_OUTPUT_VALUES \<and>
     bit (mask a) 0 \<and> bit (mask a) 1 \<and> bit (mask a) 2 \<and> \<not> bit (mask a) 3 \<and>
     bit (attr_value a) 0 \<and> \<not> bit (attr_value a) 1 \<and> bit (attr_value a) 2 \<and>
     map offset (stored_output_values unrequested_value_config) = [9] \<and>
     fst (gpiod_line_config_to_kernel (Some unrequested_value_config) zero_cfgbuf [3, 5]) =
       Inl EINVAL"
    by simp
  with n2 g n0 k0 show ?thesis unfolding a_def by (intro conjI) simp_all
qed


text \<open>
  The claim C5 as stated fails: with output values stored for the offsets 1 and 2 and
  the single line 1 requested, the offset 2 is not requested, and compilation fails with
  \<open>E2BIG\<close>, not \<open>EINVAL\<close>: the stored values outnumber the lines.
\<close>

theorem unrequested_offset_returns_e2big:
  "map offset (stored_output_values two_values_config) = [1, 2] \<and>
   fst (gpiod_line_config_to_kernel (Some two_values_config) zero_cfgbuf [1]) = Inl E2BIG"
  by code_simp

subsection \<open>The attribute of a secondary block\<close>








subsection \<open>The flag options of a block with a debounce period\<close>









subsection \<open>Each output value is stored once\<close>

text \<open>
  Every config built by setter calls from a new one keeps the table of output values
  in order; in particular no offset is stored twice, the condition under which the
  output-values attribute is described above.
\<close>

lemma find_output_value_None:
  "find_output_value vs off = None \<longleftrightarrow> off \<notin> offset ` set vs"
  by (induction vs) auto

lemma find_output_value_Some:
  "find_output_value vs off = Some pos \<Longrightarrow> pos < length vs \<and> offset (vs ! pos) = off"
proof (induction vs arbitrary: pos)
  case Nil
  then show ?case by simp
next
  case (Cons v vs)
  show ?case
  proof (cases "offset v = off")
    case True
    with Cons.prems show ?thesis by simp
  next
    case False
    with Cons.prems obtain p where "pos = Suc p" "find_output_value vs off = Some p" by auto
    with Cons.IH [of p] show ?thesis by simp
  qed
qed

lemma set_output_value_append_inv:
  assumes "output_values_inv cfg" and "output_value_find_offset cfg off = None"
    and "num_output_values cfg \<noteq> GPIO_V2_LINES_MAX"
  shows "output_values_inv (set_output_value cfg (num_output_values cfg) off v True)"
proof -
  let ?n = "num_output_values cfg"
  from assms(1,3) have lt: "?n < length (output_values cfg)"
    by (simp add: output_values_inv_def)
  have "take (Suc ?n) ((output_values cfg)[?n := \<lparr>offset = off, val = v\<rparr>]) =
        take ?n (output_values cfg) @ [\<lparr>offset = off, val = v\<rparr>]"
    using lt by (simp add: take_Suc_conv_app_nth)
  moreover from assms(2) have "off \<notin> offset ` set (take ?n (output_values cfg))"
    by (simp add: output_value_find_offset_def find_output_value_None)
  ultimately show ?thesis
    using assms(1,3) lt
    by (simp add: output_values_inv_def set_output_value_def stored_output_values_def Let_def)
qed

lemma set_output_value_overwrite_inv:
  assumes "output_values_inv cfg" and "output_value_find_offset cfg off = Some pos"
  shows "output_values_inv (set_output_value cfg pos off v False)"
proof -
  let ?n = "num_output_values cfg"
  from assms(2) have f: "find_output_value (take ?n (output_values cfg)) off = Some pos"
    by (simp add: output_value_find_offset_def)
  note p = find_output_value_Some [OF f, THEN conjunct1]
    find_output_value_Some [OF f, THEN conjunct2]
  have "map offset (take ?n ((output_values cfg)[pos := \<lparr>offset = off, val = v\<rparr>])) =
        (map offset (take ?n (output_values cfg)))[pos := off]"
    by (simp add: take_update_swap map_update)
  also have "\<dots> = map offset (take ?n (output_values cfg))"
    using p by (simp add: list_update_same_conv)
  finally show ?thesis
    using assms(1)
    by (simp add: output_values_inv_def set_output_value_def stored_output_values_def Let_def)
qed

lemma set_output_values_loop_inv:
  "output_values_inv cfg \<Longrightarrow> output_values_inv (set_output_values_loop cfg ps)"
proof (induction cfg ps rule: set_output_values_loop.induct)
  case (1 cfg)
  then show ?case by simp
next
  case (2 cfg off v rest)
  show ?case
  proof (cases "output_value_find_offset cfg off")
    case None
    show ?thesis
    proof (cases "num_output_values cfg = GPIO_V2_LINES_MAX")
      case True
      have "output_values_inv (cfg\<lparr>too_complex := True\<rparr>) = output_values_inv cfg"
        by (simp add: output_values_inv_def stored_output_values_def)
      with None True "2.prems" show ?thesis by simp
    next
      case False
      from "2.prems" None False
      have "output_values_inv (set_output_value cfg (num_output_values cfg) off v True)"
        by (rule set_output_value_append_inv)
      with "2.IH"(1) [OF None False] None False show ?thesis by simp
    qed
  next
    case (Some pos)
    from "2.prems" Some have "output_values_inv (set_output_value cfg pos off v False)"
      by (rule set_output_value_overwrite_inv)
    with "2.IH"(2) [OF Some] Some show ?thesis by simp
  qed
qed

lemma set_secondary_field_output_values:
  assumes "set_secondary_field cfg offs upd = Some cfg'"
  shows "output_values cfg' = output_values cfg \<and> num_output_values cfg' = num_output_values cfg"
proof -
  from assms obtain cfg1 r where g: "get_secondary_config cfg offs = Some (cfg1, r)"
    by (auto simp: set_secondary_field_def split: option.splits)
  have "output_values cfg1 = output_values cfg \<and> num_output_values cfg1 = num_output_values cfg"
  proof (cases "too_complex cfg")
    case True
    with g show ?thesis by (simp add: get_secondary_config_def)
  next
    case False
    with g obtain cfg2 where s: "sanitize_offsets cfg offs = Some cfg2"
      by (auto simp: get_secondary_config_def split: option.splits)
    from sanitize_offsets_frame [OF s]
    have "output_values cfg2 = output_values cfg \<and> num_output_values cfg2 = num_output_values cfg"
      by auto
    with g False s show ?thesis
      by (auto simp: get_secondary_config_def split: option.splits if_splits)
  qed
  with assms g show ?thesis
    by (cases r) (auto simp: set_secondary_field_def)
qed

lemma run_setter_output_values_inv:
  assumes "output_values_inv cfg" and "run_setter call cfg = Some cfg'"
  shows "output_values_inv cfg'"
proof (cases "is_global_setter call")
  case True
  with assms(2) have
    "output_values cfg' = output_values cfg \<and> num_output_values cfg' = num_output_values cfg"
    by (cases call) (auto simp: global_setter_defs)
  with assms(1) show ?thesis by (simp add: output_values_inv_def stored_output_values_def)
next
  case False
  show ?thesis
  proof (cases "\<exists>off v. call = Set_output_value off v \<or> (\<exists>offs vs. call = Set_output_values offs vs)")
    case True
    have "output_values_inv (gpiod_line_config_set_output_values cfg offs vs)" for offs vs
      using assms(1)
      by (simp add: gpiod_line_config_set_output_values_def set_output_values_loop_inv)
    with True assms(2) show ?thesis
      by (auto simp only: run_setter.simps gpiod_line_config_set_output_value_def option.inject)
  next
    case nout: False
    with False assms(2) obtain offs upd where "set_secondary_field cfg offs upd = Some cfg'"
      by (cases call) (auto simp: subset_setter_defs)
    from set_secondary_field_output_values [OF this] assms(1) show ?thesis
      by (simp add: output_values_inv_def stored_output_values_def)
  qed
qed

lemma reachable_output_values_inv:
  "run_setters calls new_config = Some cfg \<Longrightarrow> output_values_inv cfg"
proof -
  have "output_values_inv c \<Longrightarrow> run_setters calls c = Some cfg \<Longrightarrow> output_values_inv cfg" for c
  proof (induction calls arbitrary: c)
    case Nil
    then show ?case by simp
  next
    case (Cons x xs)
    from Cons.prems(2) obtain c1 where
      a: "run_setter x c = Some c1" and b: "run_setters xs c1 = Some cfg"
      by (auto split: option.splits)
    from Cons.prems(1) a have "output_values_inv c1" by (rule run_setter_output_values_inv)
    from this b show ?case by (rule Cons.IH)
  qed
  moreover have "output_values_inv new_config"
    by (simp add: output_values_inv_def new_config_def stored_output_values_def)
  ultimately show "run_setters calls new_config = Some cfg \<Longrightarrow> output_values_inv cfg"
    by blast
qed

end
